theory Spec2Isabelle
  imports Main "HOL-Library.Word"
begin

unbundle bit_operations_syntax

chapter \<open>ogx360 firmware: host-side decoder, mapping engine, bus transport, device emulation\<close>

text \<open>
  The firmware runs on an ATmega32U4: \<open>int\<close> is 16 bits wide, \<open>long\<close> 32 bits.
  Fixed-width integers are words; a signed field is a word read through \<open>sint\<close>.
  A C array of fixed size is a function from the index to the element, of which the
  code only ever touches the indices below the declared size.
\<close>

type_synonym uint8_t = "8 word"
type_synonym uint16_t = "16 word"
type_synonym int16_t = "16 word"
type_synonym uint32_t = "32 word"
type_synonym int32_t = "32 word"

section \<open>usbh\_xinput.h\<close>

definition XINPUT_GAMEPAD_DPAD_UP :: uint16_t where "XINPUT_GAMEPAD_DPAD_UP = 0x0001"
definition XINPUT_GAMEPAD_DPAD_DOWN :: uint16_t where "XINPUT_GAMEPAD_DPAD_DOWN = 0x0002"
definition XINPUT_GAMEPAD_DPAD_LEFT :: uint16_t where "XINPUT_GAMEPAD_DPAD_LEFT = 0x0004"
definition XINPUT_GAMEPAD_DPAD_RIGHT :: uint16_t where "XINPUT_GAMEPAD_DPAD_RIGHT = 0x0008"
definition XINPUT_GAMEPAD_START :: uint16_t where "XINPUT_GAMEPAD_START = 0x0010"
definition XINPUT_GAMEPAD_BACK :: uint16_t where "XINPUT_GAMEPAD_BACK = 0x0020"
definition XINPUT_GAMEPAD_LEFT_THUMB :: uint16_t where "XINPUT_GAMEPAD_LEFT_THUMB = 0x0040"
definition XINPUT_GAMEPAD_RIGHT_THUMB :: uint16_t where "XINPUT_GAMEPAD_RIGHT_THUMB = 0x0080"
definition XINPUT_GAMEPAD_LEFT_SHOULDER :: uint16_t where "XINPUT_GAMEPAD_LEFT_SHOULDER = 0x0100"
definition XINPUT_GAMEPAD_RIGHT_SHOULDER :: uint16_t where "XINPUT_GAMEPAD_RIGHT_SHOULDER = 0x0200"
definition XINPUT_GAMEPAD_XBOX_BUTTON :: uint16_t where "XINPUT_GAMEPAD_XBOX_BUTTON = 0x0400"
definition XINPUT_GAMEPAD_SYNC :: uint16_t where "XINPUT_GAMEPAD_SYNC = 0x0800"
definition XINPUT_GAMEPAD_A :: uint16_t where "XINPUT_GAMEPAD_A = 0x1000"
definition XINPUT_GAMEPAD_B :: uint16_t where "XINPUT_GAMEPAD_B = 0x2000"
definition XINPUT_GAMEPAD_X :: uint16_t where "XINPUT_GAMEPAD_X = 0x4000"
definition XINPUT_GAMEPAD_Y :: uint16_t where "XINPUT_GAMEPAD_Y = 0x8000"

lemmas XINPUT_GAMEPAD_defs =
  XINPUT_GAMEPAD_DPAD_UP_def XINPUT_GAMEPAD_DPAD_DOWN_def XINPUT_GAMEPAD_DPAD_LEFT_def
  XINPUT_GAMEPAD_DPAD_RIGHT_def XINPUT_GAMEPAD_START_def XINPUT_GAMEPAD_BACK_def
  XINPUT_GAMEPAD_LEFT_THUMB_def XINPUT_GAMEPAD_RIGHT_THUMB_def
  XINPUT_GAMEPAD_LEFT_SHOULDER_def XINPUT_GAMEPAD_RIGHT_SHOULDER_def
  XINPUT_GAMEPAD_XBOX_BUTTON_def XINPUT_GAMEPAD_SYNC_def XINPUT_GAMEPAD_A_def
  XINPUT_GAMEPAD_B_def XINPUT_GAMEPAD_X_def XINPUT_GAMEPAD_Y_def

definition XINPUT_CHATPAD_1 :: uint16_t where "XINPUT_CHATPAD_1 = 23"
definition XINPUT_CHATPAD_2 :: uint16_t where "XINPUT_CHATPAD_2 = 22"
definition XINPUT_CHATPAD_3 :: uint16_t where "XINPUT_CHATPAD_3 = 21"
definition XINPUT_CHATPAD_4 :: uint16_t where "XINPUT_CHATPAD_4 = 20"
definition XINPUT_CHATPAD_5 :: uint16_t where "XINPUT_CHATPAD_5 = 19"
definition XINPUT_CHATPAD_6 :: uint16_t where "XINPUT_CHATPAD_6 = 18"
definition XINPUT_CHATPAD_7 :: uint16_t where "XINPUT_CHATPAD_7 = 17"
definition XINPUT_CHATPAD_8 :: uint16_t where "XINPUT_CHATPAD_8 = 103"
definition XINPUT_CHATPAD_9 :: uint16_t where "XINPUT_CHATPAD_9 = 102"
definition XINPUT_CHATPAD_0 :: uint16_t where "XINPUT_CHATPAD_0 = 101"
definition XINPUT_CHATPAD_Q :: uint16_t where "XINPUT_CHATPAD_Q = 39"
definition XINPUT_CHATPAD_W :: uint16_t where "XINPUT_CHATPAD_W = 38"
definition XINPUT_CHATPAD_U :: uint16_t where "XINPUT_CHATPAD_U = 33"
definition XINPUT_CHATPAD_I :: uint16_t where "XINPUT_CHATPAD_I = 118"
definition XINPUT_CHATPAD_P :: uint16_t where "XINPUT_CHATPAD_P = 100"
definition XINPUT_CHATPAD_A :: uint16_t where "XINPUT_CHATPAD_A = 55"
definition XINPUT_CHATPAD_S :: uint16_t where "XINPUT_CHATPAD_S = 54"
definition XINPUT_CHATPAD_D :: uint16_t where "XINPUT_CHATPAD_D = 53"
definition XINPUT_CHATPAD_F :: uint16_t where "XINPUT_CHATPAD_F = 52"
definition XINPUT_CHATPAD_G :: uint16_t where "XINPUT_CHATPAD_G = 51"
definition XINPUT_CHATPAD_J :: uint16_t where "XINPUT_CHATPAD_J = 49"
definition XINPUT_CHATPAD_K :: uint16_t where "XINPUT_CHATPAD_K = 119"
definition XINPUT_CHATPAD_COMMA :: uint16_t where "XINPUT_CHATPAD_COMMA = 98"
definition XINPUT_CHATPAD_Z :: uint16_t where "XINPUT_CHATPAD_Z = 70"
definition XINPUT_CHATPAD_X :: uint16_t where "XINPUT_CHATPAD_X = 69"
definition XINPUT_CHATPAD_C :: uint16_t where "XINPUT_CHATPAD_C = 68"
definition XINPUT_CHATPAD_V :: uint16_t where "XINPUT_CHATPAD_V = 67"
definition XINPUT_CHATPAD_N :: uint16_t where "XINPUT_CHATPAD_N = 65"
definition XINPUT_CHATPAD_M :: uint16_t where "XINPUT_CHATPAD_M = 82"
definition XINPUT_CHATPAD_ENTER :: uint16_t where "XINPUT_CHATPAD_ENTER = 99"
definition XINPUT_CHATPAD_LEFT :: uint16_t where "XINPUT_CHATPAD_LEFT = 85"
definition XINPUT_CHATPAD_SPACE :: uint16_t where "XINPUT_CHATPAD_SPACE = 84"
definition XINPUT_CHATPAD_RIGHT :: uint16_t where "XINPUT_CHATPAD_RIGHT = 81"
definition XINPUT_CHATPAD_BACK :: uint16_t where "XINPUT_CHATPAD_BACK = 113"
definition XINPUT_CHATPAD_SHIFT :: uint16_t where "XINPUT_CHATPAD_SHIFT = 1"
definition XINPUT_CHATPAD_GREEN :: uint16_t where "XINPUT_CHATPAD_GREEN = 2"
definition XINPUT_CHATPAD_ORANGE :: uint16_t where "XINPUT_CHATPAD_ORANGE = 4"
definition XINPUT_CHATPAD_MESSENGER :: uint16_t where "XINPUT_CHATPAD_MESSENGER = 8"
definition XINPUT_CHATPAD_CAPSLOCK :: uint16_t where "XINPUT_CHATPAD_CAPSLOCK = 0x20"

lemmas XINPUT_CHATPAD_defs =
  XINPUT_CHATPAD_1_def XINPUT_CHATPAD_2_def XINPUT_CHATPAD_3_def XINPUT_CHATPAD_4_def
  XINPUT_CHATPAD_5_def XINPUT_CHATPAD_6_def XINPUT_CHATPAD_7_def XINPUT_CHATPAD_8_def
  XINPUT_CHATPAD_9_def XINPUT_CHATPAD_0_def XINPUT_CHATPAD_Q_def XINPUT_CHATPAD_W_def
  XINPUT_CHATPAD_U_def XINPUT_CHATPAD_I_def XINPUT_CHATPAD_P_def XINPUT_CHATPAD_A_def
  XINPUT_CHATPAD_S_def XINPUT_CHATPAD_D_def XINPUT_CHATPAD_F_def XINPUT_CHATPAD_G_def
  XINPUT_CHATPAD_J_def XINPUT_CHATPAD_K_def XINPUT_CHATPAD_COMMA_def XINPUT_CHATPAD_Z_def
  XINPUT_CHATPAD_X_def XINPUT_CHATPAD_C_def XINPUT_CHATPAD_V_def XINPUT_CHATPAD_N_def
  XINPUT_CHATPAD_M_def XINPUT_CHATPAD_ENTER_def XINPUT_CHATPAD_LEFT_def
  XINPUT_CHATPAD_SPACE_def XINPUT_CHATPAD_RIGHT_def XINPUT_CHATPAD_BACK_def
  XINPUT_CHATPAD_SHIFT_def XINPUT_CHATPAD_GREEN_def XINPUT_CHATPAD_ORANGE_def
  XINPUT_CHATPAD_MESSENGER_def XINPUT_CHATPAD_CAPSLOCK_def

record xinput_padstate_t =
  wButtons :: uint16_t
  bLeftTrigger :: uint8_t
  bRightTrigger :: uint8_t
  sThumbLX :: int16_t
  sThumbLY :: int16_t
  sThumbRX :: int16_t
  sThumbRY :: int16_t

datatype xinput_type_t =
  XINPUT_UNKNOWN | XBOXONE | XBOX360_WIRELESS | XBOX360_WIRED | XBOXOG
  | XINPUT_KEYBOARD | XINPUT_MOUSE | XINPUT_8BITDO_IDLE

text \<open>
  \<open>usbh_inPipe\<close> and \<open>usbh_outPipe\<close> point into the \<open>epInfo\<close> array of the
  owning \<open>XINPUT\<close> object: a pipe is the index of its entry, \<open>None\<close> the null pointer.
\<close>

record usbh_xinput_t =
  itf_num :: uint8_t
  bAddress :: uint8_t
  usbh_inPipe :: "nat option"
  usbh_outPipe :: "nat option"
  type :: xinput_type_t
  pad_state :: xinput_padstate_t
  pad_state_wButtons_old :: uint16_t
  lValue_requested :: uint8_t
  rValue_requested :: uint8_t
  lValue_actual :: uint8_t
  rValue_actual :: uint8_t
  led_requested :: uint8_t
  led_actual :: uint8_t
  chatpad_initialised :: uint8_t
  chatpad_state :: "nat \<Rightarrow> uint8_t"
  chatpad_state_old :: "nat \<Rightarrow> uint8_t"
  chatpad_led_requested :: uint8_t
  chatpad_led_actual :: uint8_t
  chatpad_keepalive_toggle :: uint8_t
  timer_periodic :: uint32_t
  timer_out :: uint32_t
  timer_poweroff :: uint32_t

section \<open>usbh\_xinput.cpp: the pad and chatpad queries\<close>

text \<open>
  \<open>chatpad_state[0] & code\<close> promotes the byte to the 16 bits of \<open>code\<close>; the bytes
  compared with \<open>==\<close> are promoted likewise.
\<close>

definition usbh_xinput_is_chatpad_pressed :: "usbh_xinput_t \<Rightarrow> uint16_t \<Rightarrow> uint8_t" where
  "usbh_xinput_is_chatpad_pressed xinput code =
     (if bAddress xinput = 0 then 0
      else if code < 17 \<and> (ucast (chatpad_state xinput 0) AND code) \<noteq> 0 then 1
      else if code < 17 then 0
      else if ucast (chatpad_state xinput 1) = code \<or> ucast (chatpad_state xinput 2) = code
        then 1
      else 0)"

text \<open>The first loop of \<open>usbh_xinput_was_chatpad_pressed\<close>: \<open>i\<close> runs over the given indices.\<close>

fun clear_history :: "nat list \<Rightarrow> (nat \<Rightarrow> uint8_t) \<Rightarrow> uint16_t \<Rightarrow> (nat \<Rightarrow> uint8_t)" where
  "clear_history [] old code = old"
| "clear_history (i # is) old code =
     clear_history is (if ucast (old i) = code then old(i := 0) else old) code"

text \<open>
  The second loop: the first free slot takes the code (cut to the slot's 8 bits) and the
  function returns 1 from inside the loop; when the loop runs out it falls to \<open>return 0\<close>.
\<close>

fun claim_history :: "nat list \<Rightarrow> (nat \<Rightarrow> uint8_t) \<Rightarrow> uint16_t \<Rightarrow> uint8_t \<times> (nat \<Rightarrow> uint8_t)" where
  "claim_history [] old code = (0, old)"
| "claim_history (i # is) old code =
     (if old i = 0 then (1, old(i := ucast code)) else claim_history is old code)"

definition usbh_xinput_was_chatpad_pressed ::
  "usbh_xinput_t \<Rightarrow> uint16_t \<Rightarrow> uint8_t \<times> usbh_xinput_t" where
  "usbh_xinput_was_chatpad_pressed xinput code =
     (if usbh_xinput_is_chatpad_pressed xinput code = 0 then
        (0, xinput\<lparr>chatpad_state_old := clear_history [0, 1, 2] (chatpad_state_old xinput) code\<rparr>)
      else if ucast (chatpad_state_old xinput 0) \<noteq> code
            \<and> ucast (chatpad_state_old xinput 1) \<noteq> code
            \<and> ucast (chatpad_state_old xinput 2) \<noteq> code then
        (case claim_history [0, 1, 2] (chatpad_state_old xinput) code of
           (r, old') \<Rightarrow> (r, xinput\<lparr>chatpad_state_old := old'\<rparr>))
      else (0, xinput))"

text \<open>The 16-bit conjunction is returned through the function's \<open>uint8_t\<close> result type.\<close>

definition usbh_xinput_is_gamepad_pressed :: "usbh_xinput_t \<Rightarrow> uint16_t \<Rightarrow> uint8_t" where
  "usbh_xinput_is_gamepad_pressed xinput button_mask =
     (if bAddress xinput = 0 then 0
      else ucast (wButtons (pad_state xinput) AND button_mask))"

definition usbh_xinput_was_gamepad_pressed ::
  "usbh_xinput_t \<Rightarrow> uint16_t \<Rightarrow> uint8_t \<times> usbh_xinput_t" where
  "usbh_xinput_was_gamepad_pressed xinput button_mask =
     (if usbh_xinput_is_gamepad_pressed xinput button_mask \<noteq> 0 then
        (if pad_state_wButtons_old xinput AND button_mask = 0 then
           (1, xinput\<lparr>pad_state_wButtons_old := pad_state_wButtons_old xinput OR button_mask\<rparr>)
         else (0, xinput))
      else
        (0, xinput\<lparr>pad_state_wButtons_old :=
                      pad_state_wButtons_old xinput AND NOT button_mask\<rparr>))"

text \<open>A device record as \<open>memset(xinput, 0, sizeof(usbh_xinput_t))\<close> leaves it.\<close>

definition usbh_xinput_zero :: usbh_xinput_t where
  "usbh_xinput_zero =
     \<lparr>itf_num = 0, bAddress = 0, usbh_inPipe = None, usbh_outPipe = None,
      type = XINPUT_UNKNOWN,
      pad_state = \<lparr>wButtons = 0, bLeftTrigger = 0, bRightTrigger = 0,
                    sThumbLX = 0, sThumbLY = 0, sThumbRX = 0, sThumbRY = 0\<rparr>,
      pad_state_wButtons_old = 0,
      lValue_requested = 0, rValue_requested = 0, lValue_actual = 0, rValue_actual = 0,
      led_requested = 0, led_actual = 0,
      chatpad_initialised = 0, chatpad_state = (\<lambda>_. 0), chatpad_state_old = (\<lambda>_. 0),
      chatpad_led_requested = 0, chatpad_led_actual = 0, chatpad_keepalive_toggle = 0,
      timer_periodic = 0, timer_out = 0, timer_poweroff = 0\<rparr>"

section \<open>usbh\_xinput.cpp: the shared transfer buffer and the command packets\<close>

text \<open>
  \<open>static uint8_t xdata[256]\<close> is the one buffer of the driver: every received packet is
  read into it and every command is assembled in it. \<open>sizeof(xdata)\<close> is a constant of
  the program.
\<close>

definition sizeof_xdata :: nat where
  "sizeof_xdata = 256"

text \<open>\<open>memcpy(dst, src, n)\<close> and \<open>memset(dst, v, n)\<close> on arrays.\<close>

definition memcpy :: "(nat \<Rightarrow> 'a) \<Rightarrow> (nat \<Rightarrow> 'a) \<Rightarrow> nat \<Rightarrow> (nat \<Rightarrow> 'a)" where
  "memcpy dst src n = (\<lambda>i. if i < n then src i else dst i)"

definition memset :: "(nat \<Rightarrow> 'a) \<Rightarrow> 'a \<Rightarrow> nat \<Rightarrow> (nat \<Rightarrow> 'a)" where
  "memset dst v n = (\<lambda>i. if i < n then v else dst i)"

text \<open>\<open>memcpy_P(dst, tbl, sizeof(tbl))\<close> from a flash-resident table.\<close>

definition memcpy_P :: "(nat \<Rightarrow> 'a) \<Rightarrow> 'a list \<Rightarrow> (nat \<Rightarrow> 'a)" where
  "memcpy_P dst tbl = (\<lambda>i. if i < length tbl then tbl ! i else dst i)"

text \<open>The first \<open>n\<close> bytes of an array, as handed to a transfer.\<close>

definition bytes_of :: "(nat \<Rightarrow> 'a) \<Rightarrow> nat \<Rightarrow> 'a list" where
  "bytes_of buf n = map buf [0..<n]"

definition xbox360_wired_rumble :: "uint8_t list" where
  "xbox360_wired_rumble = [0x00, 0x08, 0x00, 0x00, 0x00, 0x00, 0x00, 0x00]"
definition xbox360_wired_led :: "uint8_t list" where
  "xbox360_wired_led = [0x01, 0x03, 0x00]"
definition xboxone_start_input :: "uint8_t list" where
  "xboxone_start_input = [0x05, 0x20, 0x03, 0x01, 0x00]"
definition xboxone_s_init :: "uint8_t list" where
  "xboxone_s_init = [0x05, 0x20, 0x00, 0x0f, 0x06]"
definition xboxone_pdp_init1 :: "uint8_t list" where
  "xboxone_pdp_init1 = [0x0a, 0x20, 0x00, 0x03, 0x00, 0x01, 0x14]"
definition xboxone_pdp_init2 :: "uint8_t list" where
  "xboxone_pdp_init2 = [0x06, 0x30]"
definition xboxone_pdp_init3 :: "uint8_t list" where
  "xboxone_pdp_init3 = [0x06, 0x20, 0x00, 0x02, 0x01, 0x00]"
definition xboxone_rumble :: "uint8_t list" where
  "xboxone_rumble =
     [0x09, 0x00, 0x00, 0x09, 0x00, 0x0f, 0x00, 0x00, 0x00, 0x00, 0xFF, 0x00, 0xEB]"
definition xboxone_powera_init1 :: "uint8_t list" where
  "xboxone_powera_init1 =
     [0x09, 0x00, 0x00, 0x09, 0x00, 0x0F, 0x00, 0x00, 0x1D, 0x1D, 0xFF, 0x00, 0x00]"
definition xboxone_powera_init2 :: "uint8_t list" where
  "xboxone_powera_init2 =
     [0x09, 0x00, 0x00, 0x09, 0x00, 0x0F, 0x00, 0x00, 0x00, 0x00, 0x00, 0x00, 0x00]"
definition xbox360w_led :: "uint8_t list" where
  "xbox360w_led = [0x00, 0x00, 0x08, 0x40]"
definition xbox360w_rumble_enable :: "uint8_t list" where
  "xbox360w_rumble_enable = [0x00, 0x00, 0x08, 0x01]"
definition xbox360w_rumble :: "uint8_t list" where
  "xbox360w_rumble = [0x00, 0x01, 0x0F, 0xC0]"
definition xbox360w_controller_info :: "uint8_t list" where
  "xbox360w_controller_info = [0x00, 0x00, 0x00, 0x40]"
definition xbox360w_unknown :: "uint8_t list" where
  "xbox360w_unknown = [0x00, 0x00, 0x02, 0x80]"
definition xboxog_rumble :: "uint8_t list" where
  "xboxog_rumble = [0x00, 0x06, 0x00, 0x00, 0x00, 0x00]"

lemmas command_packet_defs =
  xbox360_wired_rumble_def xbox360_wired_led_def xboxone_start_input_def xboxone_s_init_def
  xboxone_pdp_init1_def xboxone_pdp_init2_def xboxone_pdp_init3_def xboxone_rumble_def
  xboxone_powera_init1_def xboxone_powera_init2_def xbox360w_led_def
  xbox360w_rumble_enable_def xbox360w_rumble_def xbox360w_controller_info_def
  xbox360w_unknown_def xboxog_rumble_def

text \<open>\<open>hrSUCCESS\<close> of the host shield library: the return code of a transfer that went through.\<close>

definition hrSUCCESS :: uint8_t where
  "hrSUCCESS = 0x00"

section \<open>usbh\_xinput.cpp: writes to the pad\<close>

text \<open>
  The host stack is the environment. \<open>outTransfer\<close> stands for
  \<open>pUsb->outTransfer(bAddress, pipe->epAddr, len, xdata)\<close>: it is given the pad's out pipe
  and the \<open>len\<close> bytes handed over and answers with the stack's return code. \<open>now\<close> is
  the value of \<open>millis()\<close> during the call.
\<close>

type_synonym out_transfer = "nat option \<Rightarrow> uint8_t list \<Rightarrow> uint8_t"

definition WritePacket ::
  "out_transfer \<Rightarrow> uint32_t \<Rightarrow> (nat \<Rightarrow> uint8_t) \<Rightarrow> usbh_xinput_t \<Rightarrow> uint8_t list
     \<Rightarrow> uint8_t \<times> usbh_xinput_t \<times> (nat \<Rightarrow> uint8_t)" where
  "WritePacket outTransfer now xdata xpad data =
     (let xpad1 = xpad\<lparr>timer_out := now\<rparr>;
          xdata1 = memcpy_P xdata data
      in (outTransfer (usbh_outPipe xpad1) (bytes_of xdata1 (length data)), xpad1, xdata1))"

text \<open>
  \<open>lValue / 2.6f\<close> stored into a byte: the single-precision quotient cut to an integer,
  which for each of the 256 byte values is \<open>5 * lValue div 13\<close>.
\<close>

definition scale_2_6f :: "uint8_t \<Rightarrow> uint8_t" where
  "scale_2_6f v = of_nat (unat v * 5 div 13)"

text \<open>
  \<open>SetRumble\<close>: the two \<open>actual\<close> fields and the timer are written first; then the packet
  of the pad's family is assembled in \<open>xdata\<close> and handed to the stack, whose return code
  is the function's result.
\<close>

definition SetRumble ::
  "out_transfer \<Rightarrow> uint32_t \<Rightarrow> (nat \<Rightarrow> uint8_t) \<Rightarrow> usbh_xinput_t \<Rightarrow> uint8_t \<Rightarrow> uint8_t
     \<Rightarrow> uint8_t \<times> usbh_xinput_t \<times> (nat \<Rightarrow> uint8_t)" where
  "SetRumble outTransfer now xdata xpad lValue rValue =
     (let xpad1 = xpad\<lparr>lValue_actual := lValue_requested xpad\<rparr>;
          xpad2 = xpad1\<lparr>rValue_actual := rValue_requested xpad1\<rparr>;
          xpad3 = xpad2\<lparr>timer_out := now\<rparr>
      in case type xpad3 of
           XBOX360_WIRELESS \<Rightarrow>
             (let xd = (memcpy_P xdata xbox360w_rumble)(5 := lValue, 6 := rValue)
              in (outTransfer (usbh_outPipe xpad3) (bytes_of xd (length xbox360w_rumble)),
                  xpad3, xd))
         | XBOX360_WIRED \<Rightarrow>
             (let xd = (memcpy_P xdata xbox360_wired_rumble)(3 := lValue, 4 := rValue)
              in (outTransfer (usbh_outPipe xpad3) (bytes_of xd (length xbox360_wired_rumble)),
                  xpad3, xd))
         | XBOXONE \<Rightarrow>
             (let xd = (memcpy_P xdata xboxone_rumble)
                         (8 := scale_2_6f lValue, 9 := scale_2_6f rValue)
              in (outTransfer (usbh_outPipe xpad3) (bytes_of xd (length xboxone_rumble)),
                  xpad3, xd))
         | XBOXOG \<Rightarrow>
             (let xd = (memcpy_P xdata xboxog_rumble)
                         (2 := lValue, 3 := lValue, 4 := rValue, 5 := rValue)
              in (outTransfer (usbh_outPipe xpad3) (bytes_of xd (length xboxog_rumble)),
                  xpad3, xd))
         | _ \<Rightarrow> (hrSUCCESS, xpad3, xdata))"

definition SetLed ::
  "out_transfer \<Rightarrow> uint32_t \<Rightarrow> (nat \<Rightarrow> uint8_t) \<Rightarrow> usbh_xinput_t \<Rightarrow> uint8_t
     \<Rightarrow> uint8_t \<times> usbh_xinput_t \<times> (nat \<Rightarrow> uint8_t)" where
  "SetLed outTransfer now xdata xpad quadrant =
     (let xpad1 = xpad\<lparr>led_actual := led_requested xpad\<rparr>;
          xpad2 = xpad1\<lparr>timer_out := now\<rparr>
      in case type xpad2 of
           XBOX360_WIRELESS \<Rightarrow>
             (let xd = (memcpy_P xdata xbox360w_led)
                         (3 := (if quadrant = 0 then 0x40 else 0x40 OR (quadrant + 5)))
              in (outTransfer (usbh_outPipe xpad2) (bytes_of xd (length xbox360w_led)),
                  xpad2, xd))
         | XBOX360_WIRED \<Rightarrow>
             (let xd = (memcpy_P xdata xbox360_wired_led)
                         (2 := (if quadrant = 0 then 0 else quadrant + 5))
              in (outTransfer (usbh_outPipe xpad2) (bytes_of xd (length xbox360_wired_led)),
                  xpad2, xd))
         | _ \<Rightarrow> (hrSUCCESS, xpad2, xdata))"

section \<open>usbd\_xid.cpp: the report cache of the emulated device\<close>

text \<open>
  The members of \<open>XID_\<close> that \<open>getReport\<close> uses. The class is declared in
  \<open>usbd_xid.h\<close>; the size of \<open>xid_out_data\<close> is the 32 of the local array \<open>r\<close>, which
  the file's change notes state to match it.
\<close>

record XID_ =
  xid_out_data :: "nat \<Rightarrow> uint8_t"
  xid_out_expired :: uint32_t

definition sizeof_xid_out_data :: nat where
  "sizeof_xid_out_data = 32"

text \<open>
  \<open>MIN(len, sizeof(xid_out_data))\<close> with \<open>MIN(a, b) ((size_t)(a) < (size_t)(b) ? (a) : (b))\<close>:
  \<open>len\<close> is a 16-bit \<open>int\<close> and the comparison is made on its unsigned reading, so a
  negative \<open>len\<close> gives the size of the cache.
\<close>

definition MIN_len :: "16 word \<Rightarrow> nat \<Rightarrow> nat" where
  "MIN_len a b = (if unat a < b then unat a else b)"

text \<open>
  \<open>USB_Recv(XID_EP_OUT | TRANSFER_RELEASE, r, capped_len)\<close> of the device core is the
  environment: asked for \<open>capped_len\<close> bytes it answers with the count it read (negative
  when the endpoint holds nothing) and the contents it leaves in \<open>r\<close>. The result of
  \<open>getReport\<close> is its return value, the object and the caller's buffer \<open>data\<close>.
\<close>

definition getReport ::
  "(nat \<Rightarrow> int \<times> (nat \<Rightarrow> uint8_t)) \<Rightarrow> uint32_t \<Rightarrow> XID_ \<Rightarrow> (nat \<Rightarrow> uint8_t) \<Rightarrow> 16 word
     \<Rightarrow> int \<times> XID_ \<times> (nat \<Rightarrow> uint8_t)" where
  "getReport USB_Recv now this data len =
     (let capped_len = MIN_len len sizeof_xid_out_data;
          (recv_len, r) = USB_Recv capped_len
      in if recv_len = int capped_len then
           (int capped_len,
            this\<lparr>xid_out_data := memcpy (xid_out_data this) r capped_len,
                 xid_out_expired := now\<rparr>,
            memcpy data r capped_len)
         else if now - xid_out_expired this > 500 then
           (0, this, memset data 0 capped_len)
         else
           (uint (xid_out_data this 1), this, memcpy data (xid_out_data this) capped_len))"

section \<open>usbd\_xid.h: what the sources take from the header\<close>

text \<open>
  \<open>usbd_xid.h\<close> is not among the sources. Everything the modelled functions take from it
  is gathered in one record \<open>h\<close>, a parameter of every function that uses it: the
  enumerators of \<open>xid_type_t\<close>, the sizes of the four report structures, the button masks
  of the two in-reports, the aiming midpoint and the gear positions, how the two 8-bit
  fields \<open>tunerDial\<close> and \<open>gearLever\<close> read as \<open>int\<close> (their declared signedness), and
  the byte offsets of the out-report fields that \<open>master.cpp\<close> reads.
\<close>

datatype sbc_button =
    SBC_W0_RIGHTJOYMAINWEAPON | SBC_W0_RIGHTJOYFIRE | SBC_W0_RIGHTJOYLOCKON | SBC_W0_EJECT
  | SBC_W0_COCKPITHATCH | SBC_W0_IGNITION | SBC_W0_START | SBC_W0_MULTIMONOPENCLOSE
  | SBC_W0_MULTIMONMAPZOOMINOUT | SBC_W0_MULTIMONMODESELECT | SBC_W0_MULTIMONSUBMONITOR
  | SBC_W0_MAINMONZOOMIN | SBC_W0_MAINMONZOOMOUT | SBC_W0_FUNCTIONFSS
  | SBC_W0_FUNCTIONMANIPULATOR | SBC_W0_FUNCTIONLINECOLORCHANGE
  | SBC_W1_WASHING | SBC_W1_EXTINGUISHER | SBC_W1_CHAFF | SBC_W1_FUNCTIONTANKDETACH
  | SBC_W1_FUNCTIONOVERRIDE | SBC_W1_FUNCTIONNIGHTSCOPE | SBC_W1_FUNCTIONF1
  | SBC_W1_FUNCTIONF2 | SBC_W1_FUNCTIONF3 | SBC_W1_WEAPONCONMAIN | SBC_W1_WEAPONCONSUB
  | SBC_W1_WEAPONCONMAGAZINE | SBC_W1_COMM1 | SBC_W1_COMM2 | SBC_W1_COMM3 | SBC_W1_COMM4
  | SBC_W2_COMM5 | SBC_W2_LEFTJOYSIGHTCHANGE | SBC_W2_TOGGLEFILTERCONTROL
  | SBC_W2_TOGGLEOXYGENSUPPLY | SBC_W2_TOGGLEFUELFLOWRATE | SBC_W2_TOGGLEBUFFREMATERIAL
  | SBC_W2_TOGGLEVTLOCATION

record usbd_xid_h =
  DISCONNECTED :: uint8_t
  DUKE :: uint8_t
  STEELBATTALION :: uint8_t
  sizeof_usbd_duke_in_t :: nat
  sizeof_usbd_duke_out_t :: nat
  sizeof_usbd_sbattalion_in_t :: nat
  sizeof_usbd_sbattalion_out_t :: nat
  DUKE_DUP :: uint16_t
  DUKE_DDOWN :: uint16_t
  DUKE_DLEFT :: uint16_t
  DUKE_DRIGHT :: uint16_t
  DUKE_START :: uint16_t
  DUKE_BACK :: uint16_t
  DUKE_LS :: uint16_t
  DUKE_RS :: uint16_t
  SBC :: "sbc_button \<Rightarrow> uint16_t"
  SBC_AIMING_MID :: int32_t
  SBC_GEAR_R :: int
  SBC_GEAR_N :: int
  SBC_GEAR_5 :: int
  tunerDial_int :: "uint8_t \<Rightarrow> int"
  gearLever_int :: "uint8_t \<Rightarrow> int"
  offsetof_lValue :: nat
  offsetof_Chaff_Extinguisher :: nat
  offsetof_Comm1_MagazineChange :: nat
  offsetof_Washing_LineColorChange :: nat
  offsetof_CockpitHatch_EmergencyEject :: nat

section \<open>slave.cpp: the peer's receive handler\<close>

text \<open>
  On a peer the reports of \<open>usbd_c[0]\<close> are only moved as bytes: \<open>i2c_get_data\<close> stores
  received bytes through a \<open>uint8_t\<close> pointer into \<open>duke.in\<close> or \<open>sb.in\<close>, and
  \<open>i2c_send_data\<close> writes the bytes of \<open>duke.out\<close> or \<open>sb.out\<close>. The peer's view of the
  slot therefore keeps each report as its array of bytes. \<open>Wire_rx\<close> is the receive buffer
  of the bus library, oldest byte first; \<open>led_blinks\<close> counts the acknowledgements shown
  on the LED.
\<close>

record peer_controller_t =
  peer_type :: uint8_t
  peer_duke_in :: "nat \<Rightarrow> uint8_t"
  peer_duke_out :: "nat \<Rightarrow> uint8_t"
  peer_sb_in :: "nat \<Rightarrow> uint8_t"
  peer_sb_out :: "nat \<Rightarrow> uint8_t"

record peer_node =
  usbd_c0 :: peer_controller_t
  Wire_rx :: "uint8_t list"
  led_blinks :: nat

text \<open>\<open>Wire.read()\<close>: the next byte, or -1 (0xFF in a \<open>uint8_t\<close>) when nothing is left.\<close>

definition Wire_read :: "uint8_t list \<Rightarrow> uint8_t \<times> uint8_t list" where
  "Wire_read rx = (case rx of [] \<Rightarrow> (0xFF, []) | b # bs \<Rightarrow> (b, bs))"

text \<open>
  \<open>for (i = 0; i < rxlen && Wire.available(); i++) rxbuf[i] = Wire.read();\<close>
  started at index \<open>i\<close>: the buffer and what is left on the bus.
\<close>

fun rx_copy :: "nat \<Rightarrow> nat \<Rightarrow> (nat \<Rightarrow> uint8_t) \<Rightarrow> uint8_t list
    \<Rightarrow> (nat \<Rightarrow> uint8_t) \<times> uint8_t list" where
  "rx_copy i rxlen rxbuf [] = (rxbuf, [])"
| "rx_copy i rxlen rxbuf (b # bs) =
     (if i < rxlen then rx_copy (Suc i) rxlen (rxbuf(i := b)) bs else (rxbuf, b # bs))"

text \<open>\<open>flush_and_leave\<close>: \<open>while (Wire.available()) Wire.read();\<close>\<close>

definition flush_and_leave :: "peer_node \<Rightarrow> peer_node" where
  "flush_and_leave s = s\<lparr>Wire_rx := []\<rparr>"

text \<open>
  \<open>uint8_t rxlen = type == DUKE ? sizeof(duke.in) : type == STEELBATTALION ? sizeof(sb.in) : 0\<close>:
  the \<open>sizeof\<close> is cut to the 8 bits of \<open>rxlen\<close>.
\<close>

definition peer_rxlen :: "usbd_xid_h \<Rightarrow> uint8_t \<Rightarrow> uint8_t" where
  "peer_rxlen h t =
     (if t = DUKE h then of_nat (sizeof_usbd_duke_in_t h)
      else if t = STEELBATTALION h then of_nat (sizeof_usbd_sbattalion_in_t h)
      else 0)"

text \<open>
  The type is stored into the slot before the length is looked at; \<open>rxlen + 1\<close> is
  computed in \<open>int\<close>; \<open>rxbuf\<close> is null exactly when the type is neither of the two
  families.
\<close>

definition i2c_get_data :: "usbd_xid_h \<Rightarrow> int \<Rightarrow> peer_node \<Rightarrow> peer_node" where
  "i2c_get_data h len s =
     (if len < 1 then s
      else
        let (packet_id, rx1) = Wire_read (Wire_rx s);
            s1 = s\<lparr>Wire_rx := rx1\<rparr>
        in if packet_id = 0xAA then
             flush_and_leave (s1\<lparr>led_blinks := Suc (led_blinks s1)\<rparr>)
           else if packet_id AND 0xF0 = 0xF0 then
             (let c = (usbd_c0 s1)\<lparr>peer_type := packet_id AND 0x0F\<rparr>;
                  s2 = s1\<lparr>usbd_c0 := c\<rparr>;
                  rxlen = peer_rxlen h (peer_type c)
              in if len \<noteq> int (unat rxlen) + 1
                    \<or> \<not> (peer_type c = DUKE h \<or> peer_type c = STEELBATTALION h)
                    \<or> rxlen = 0 then
                   flush_and_leave s2
                 else if peer_type c = DUKE h then
                   (case rx_copy 0 (unat rxlen) (peer_duke_in c) (Wire_rx s2) of
                      (buf, rx2) \<Rightarrow>
                        flush_and_leave (s2\<lparr>usbd_c0 := c\<lparr>peer_duke_in := buf\<rparr>, Wire_rx := rx2\<rparr>))
                 else
                   (case rx_copy 0 (unat rxlen) (peer_sb_in c) (Wire_rx s2) of
                      (buf, rx2) \<Rightarrow>
                        flush_and_leave (s2\<lparr>usbd_c0 := c\<lparr>peer_sb_in := buf\<rparr>, Wire_rx := rx2\<rparr>)))
           else flush_and_leave s1)"

text \<open>
  An instance of the header record for evaluating the model on concrete inputs: the
  enumerators in the order disconnected, standard gamepad, cockpit controller; packed
  report sizes; one bit per button.
\<close>

definition sbc_example :: "sbc_button \<Rightarrow> uint16_t" where
  "sbc_example b = (case b of
       SBC_W0_RIGHTJOYMAINWEAPON \<Rightarrow> 0x0001 | SBC_W0_RIGHTJOYFIRE \<Rightarrow> 0x0002
     | SBC_W0_RIGHTJOYLOCKON \<Rightarrow> 0x0004 | SBC_W0_EJECT \<Rightarrow> 0x0008
     | SBC_W0_COCKPITHATCH \<Rightarrow> 0x0010 | SBC_W0_IGNITION \<Rightarrow> 0x0020
     | SBC_W0_START \<Rightarrow> 0x0040 | SBC_W0_MULTIMONOPENCLOSE \<Rightarrow> 0x0080
     | SBC_W0_MULTIMONMAPZOOMINOUT \<Rightarrow> 0x0100 | SBC_W0_MULTIMONMODESELECT \<Rightarrow> 0x0200
     | SBC_W0_MULTIMONSUBMONITOR \<Rightarrow> 0x0400 | SBC_W0_MAINMONZOOMIN \<Rightarrow> 0x0800
     | SBC_W0_MAINMONZOOMOUT \<Rightarrow> 0x1000 | SBC_W0_FUNCTIONFSS \<Rightarrow> 0x2000
     | SBC_W0_FUNCTIONMANIPULATOR \<Rightarrow> 0x4000 | SBC_W0_FUNCTIONLINECOLORCHANGE \<Rightarrow> 0x8000
     | SBC_W1_WASHING \<Rightarrow> 0x0001 | SBC_W1_EXTINGUISHER \<Rightarrow> 0x0002
     | SBC_W1_CHAFF \<Rightarrow> 0x0004 | SBC_W1_FUNCTIONTANKDETACH \<Rightarrow> 0x0008
     | SBC_W1_FUNCTIONOVERRIDE \<Rightarrow> 0x0010 | SBC_W1_FUNCTIONNIGHTSCOPE \<Rightarrow> 0x0020
     | SBC_W1_FUNCTIONF1 \<Rightarrow> 0x0040 | SBC_W1_FUNCTIONF2 \<Rightarrow> 0x0080
     | SBC_W1_FUNCTIONF3 \<Rightarrow> 0x0100 | SBC_W1_WEAPONCONMAIN \<Rightarrow> 0x0200
     | SBC_W1_WEAPONCONSUB \<Rightarrow> 0x0400 | SBC_W1_WEAPONCONMAGAZINE \<Rightarrow> 0x0800
     | SBC_W1_COMM1 \<Rightarrow> 0x1000 | SBC_W1_COMM2 \<Rightarrow> 0x2000
     | SBC_W1_COMM3 \<Rightarrow> 0x4000 | SBC_W1_COMM4 \<Rightarrow> 0x8000
     | SBC_W2_COMM5 \<Rightarrow> 0x0001 | SBC_W2_LEFTJOYSIGHTCHANGE \<Rightarrow> 0x0002
     | SBC_W2_TOGGLEFILTERCONTROL \<Rightarrow> 0x0004 | SBC_W2_TOGGLEOXYGENSUPPLY \<Rightarrow> 0x0008
     | SBC_W2_TOGGLEFUELFLOWRATE \<Rightarrow> 0x0010 | SBC_W2_TOGGLEBUFFREMATERIAL \<Rightarrow> 0x0020
     | SBC_W2_TOGGLEVTLOCATION \<Rightarrow> 0x0040)"

definition usbd_xid_h_example :: usbd_xid_h where
  "usbd_xid_h_example =
     \<lparr>DISCONNECTED = 0, DUKE = 1, STEELBATTALION = 2,
      sizeof_usbd_duke_in_t = 20, sizeof_usbd_duke_out_t = 6,
      sizeof_usbd_sbattalion_in_t = 26, sizeof_usbd_sbattalion_out_t = 32,
      DUKE_DUP = 0x0001, DUKE_DDOWN = 0x0002, DUKE_DLEFT = 0x0004, DUKE_DRIGHT = 0x0008,
      DUKE_START = 0x0010, DUKE_BACK = 0x0020, DUKE_LS = 0x0040, DUKE_RS = 0x0080,
      SBC = sbc_example,
      SBC_AIMING_MID = 32768, SBC_GEAR_R = 7, SBC_GEAR_N = 8, SBC_GEAR_5 = 13,
      tunerDial_int = sint, gearLever_int = sint,
      offsetof_lValue = 2,
      offsetof_Chaff_Extinguisher = 6, offsetof_Comm1_MagazineChange = 13,
      offsetof_Washing_LineColorChange = 5, offsetof_CockpitHatch_EmergencyEject = 2\<rparr>"

text \<open>A peer whose slot emulates the standard gamepad, with cleared reports and an idle bus.\<close>

definition peer_node_idle :: peer_node where
  "peer_node_idle =
     \<lparr>usbd_c0 = \<lparr>peer_type = 1, peer_duke_in = (\<lambda>_. 0), peer_duke_out = (\<lambda>_. 0),
                 peer_sb_in = (\<lambda>_. 0), peer_sb_out = (\<lambda>_. 0)\<rparr>,
      Wire_rx = [], led_blinks = 0\<rparr>"

section \<open>usbh\_xinput.cpp: the device pool and the wire decoder\<close>

text \<open>
  The members of the \<open>XINPUT\<close> object that the decoder and the allocator read. The class
  has its own \<open>bAddress\<close>, here \<open>xi_bAddress\<close>.
\<close>

record XINPUT =
  xi_bAddress :: uint8_t
  dev_type :: xinput_type_t
  PID :: uint16_t
  VID :: uint16_t

text \<open>
  \<open>static usbh_xinput_t xinput_devices[XINPUT_MAXGAMEPADS]\<close>; a pointer to a device
  record is the index of its slot, \<open>None\<close> the null pointer.
\<close>

definition XINPUT_MAXGAMEPADS :: nat where
  "XINPUT_MAXGAMEPADS = 4"

type_synonym xinput_pool = "nat \<Rightarrow> usbh_xinput_t"

definition free_xinput_device :: "xinput_pool \<Rightarrow> nat \<Rightarrow> uint8_t \<times> xinput_pool" where
  "free_xinput_device pool xinput =
     (if xinput < XINPUT_MAXGAMEPADS then (1, pool(xinput := usbh_xinput_zero)) else (0, pool))"

text \<open>The search loop of \<open>alloc_xinput_device\<close>: the first slot whose \<open>bAddress\<close> is 0.\<close>

fun first_free :: "nat list \<Rightarrow> xinput_pool \<Rightarrow> nat option" where
  "first_free [] pool = None"
| "first_free (index # rest) pool =
     (if bAddress (pool index) = 0 then Some index else first_free rest pool)"

text \<open>A run of \<open>WritePacket\<close> calls whose return codes are dropped.\<close>

fun WritePackets ::
  "out_transfer \<Rightarrow> uint32_t \<Rightarrow> uint8_t list list \<Rightarrow> usbh_xinput_t \<times> (nat \<Rightarrow> uint8_t)
     \<Rightarrow> usbh_xinput_t \<times> (nat \<Rightarrow> uint8_t)" where
  "WritePackets outTransfer now [] (xpad, xdata) = (xpad, xdata)"
| "WritePackets outTransfer now (p # ps) (xpad, xdata) =
     WritePackets outTransfer now ps (snd (WritePacket outTransfer now xdata xpad p))"

text \<open>
  \<open>alloc_xinput_device\<close>. The wired LED command and the boot-protocol request are sent
  from local buffers and their results are dropped: they leave the pool and \<open>xdata\<close> as
  they are. The packets of the other families go through \<open>WritePacket\<close>, which
  overwrites the head of \<open>xdata\<close>.
\<close>

definition alloc_xinput_device ::
  "out_transfer \<Rightarrow> uint32_t \<Rightarrow> XINPUT \<Rightarrow> xinput_pool \<Rightarrow> (nat \<Rightarrow> uint8_t)
     \<Rightarrow> uint8_t \<Rightarrow> uint8_t \<Rightarrow> nat option \<Rightarrow> nat option \<Rightarrow> xinput_type_t
     \<Rightarrow> nat option \<times> xinput_pool \<times> (nat \<Rightarrow> uint8_t)" where
  "alloc_xinput_device outTransfer now this pool xdata bAddr itf inp outp ty =
     (case first_free [0 ..< XINPUT_MAXGAMEPADS] pool of
        None \<Rightarrow> (None, pool, xdata)
      | Some index \<Rightarrow>
          (let new_xinput = (pool index)
                 \<lparr>bAddress := bAddr, itf_num := itf, type := ty,
                  usbh_inPipe := inp, usbh_outPipe := outp,
                  led_requested := of_nat (index + 1),
                  chatpad_led_requested := ucast XINPUT_CHATPAD_GREEN\<rparr>;
               packets =
                 (if ty = XBOX360_WIRELESS then
                    [xbox360w_controller_info, xbox360w_unknown, xbox360w_rumble_enable]
                  else if ty = XBOX360_WIRED then []
                  else if ty = XBOXONE then
                    [xboxone_start_input]
                    @ (if VID this = 0x045e \<and> (PID this = 0x02ea \<or> PID this = 0x0b00)
                       then [xboxone_s_init] else [])
                    @ (if VID this = 0x0e6f
                       then [xboxone_pdp_init1, xboxone_pdp_init2, xboxone_pdp_init3] else [])
                    @ (if VID this = 0x24c6
                       then [xboxone_powera_init1, xboxone_powera_init2] else [])
                  else []);
               (xpad', xdata') = WritePackets outTransfer now packets (new_xinput, xdata)
           in (Some index, pool(index := xpad'), xdata')))"

text \<open>
  A digital-button table: \<open>(b, mask)\<close> stands for
  \<open>if (wButtons & (1 << b)) pad_state.wButtons |= mask;\<close> and the entries are applied in
  order, starting from \<open>pad_state.wButtons = 0\<close>.
\<close>

fun map_buttons :: "(nat \<times> uint16_t) list \<Rightarrow> uint16_t \<Rightarrow> uint16_t \<Rightarrow> uint16_t" where
  "map_buttons [] w acc = acc"
| "map_buttons ((b, m) # tbl) w acc =
     map_buttons tbl w (if w AND push_bit b 1 \<noteq> 0 then acc OR m else acc)"

definition xbox360_wired_buttons :: "(nat \<times> uint16_t) list" where
  "xbox360_wired_buttons =
     [(0, XINPUT_GAMEPAD_DPAD_UP), (1, XINPUT_GAMEPAD_DPAD_DOWN),
      (2, XINPUT_GAMEPAD_DPAD_LEFT), (3, XINPUT_GAMEPAD_DPAD_RIGHT),
      (4, XINPUT_GAMEPAD_START), (5, XINPUT_GAMEPAD_BACK),
      (6, XINPUT_GAMEPAD_LEFT_THUMB), (7, XINPUT_GAMEPAD_RIGHT_THUMB),
      (8, XINPUT_GAMEPAD_LEFT_SHOULDER), (9, XINPUT_GAMEPAD_RIGHT_SHOULDER),
      (12, XINPUT_GAMEPAD_A), (13, XINPUT_GAMEPAD_B),
      (14, XINPUT_GAMEPAD_X), (15, XINPUT_GAMEPAD_Y)]"

definition xbox360_wireless_buttons :: "(nat \<times> uint16_t) list" where
  "xbox360_wireless_buttons =
     [(0, XINPUT_GAMEPAD_DPAD_UP), (1, XINPUT_GAMEPAD_DPAD_DOWN),
      (2, XINPUT_GAMEPAD_DPAD_LEFT), (3, XINPUT_GAMEPAD_DPAD_RIGHT),
      (4, XINPUT_GAMEPAD_START), (5, XINPUT_GAMEPAD_BACK),
      (6, XINPUT_GAMEPAD_LEFT_THUMB), (7, XINPUT_GAMEPAD_RIGHT_THUMB),
      (8, XINPUT_GAMEPAD_LEFT_SHOULDER), (9, XINPUT_GAMEPAD_RIGHT_SHOULDER),
      (10, XINPUT_GAMEPAD_XBOX_BUTTON),
      (12, XINPUT_GAMEPAD_A), (13, XINPUT_GAMEPAD_B),
      (14, XINPUT_GAMEPAD_X), (15, XINPUT_GAMEPAD_Y)]"

definition xboxone_buttons :: "(nat \<times> uint16_t) list" where
  "xboxone_buttons =
     [(8, XINPUT_GAMEPAD_DPAD_UP), (9, XINPUT_GAMEPAD_DPAD_DOWN),
      (10, XINPUT_GAMEPAD_DPAD_LEFT), (11, XINPUT_GAMEPAD_DPAD_RIGHT),
      (2, XINPUT_GAMEPAD_START), (3, XINPUT_GAMEPAD_BACK),
      (14, XINPUT_GAMEPAD_LEFT_THUMB), (15, XINPUT_GAMEPAD_RIGHT_THUMB),
      (12, XINPUT_GAMEPAD_LEFT_SHOULDER), (13, XINPUT_GAMEPAD_RIGHT_SHOULDER),
      (4, XINPUT_GAMEPAD_A), (5, XINPUT_GAMEPAD_B),
      (6, XINPUT_GAMEPAD_X), (7, XINPUT_GAMEPAD_Y)]"

definition xboxog_buttons :: "(nat \<times> uint16_t) list" where
  "xboxog_buttons =
     [(0, XINPUT_GAMEPAD_DPAD_UP), (1, XINPUT_GAMEPAD_DPAD_DOWN),
      (2, XINPUT_GAMEPAD_DPAD_LEFT), (3, XINPUT_GAMEPAD_DPAD_RIGHT),
      (4, XINPUT_GAMEPAD_START), (5, XINPUT_GAMEPAD_BACK),
      (6, XINPUT_GAMEPAD_LEFT_THUMB), (7, XINPUT_GAMEPAD_RIGHT_THUMB)]"

text \<open>
  The analog face buttons of the original pad: \<open>(k, mask)\<close> stands for
  \<open>if (xdata[k] > 0x20) pad_state.wButtons |= mask;\<close>
\<close>

fun map_analog_buttons ::
  "(nat \<times> uint16_t) list \<Rightarrow> (nat \<Rightarrow> uint8_t) \<Rightarrow> uint16_t \<Rightarrow> uint16_t" where
  "map_analog_buttons [] xdata acc = acc"
| "map_analog_buttons ((k, m) # tbl) xdata acc =
     map_analog_buttons tbl xdata (if xdata k > 0x20 then acc OR m else acc)"

definition xboxog_analog_buttons :: "(nat \<times> uint16_t) list" where
  "xboxog_analog_buttons =
     [(4, XINPUT_GAMEPAD_A), (5, XINPUT_GAMEPAD_B), (6, XINPUT_GAMEPAD_X),
      (7, XINPUT_GAMEPAD_Y), (8, XINPUT_GAMEPAD_RIGHT_SHOULDER),
      (9, XINPUT_GAMEPAD_LEFT_SHOULDER)]"

text \<open>\<open>xdata[k] | (xdata[k + 1] << 8)\<close> in the 16 bits of \<open>int\<close>.\<close>

definition le16 :: "(nat \<Rightarrow> uint8_t) \<Rightarrow> nat \<Rightarrow> uint16_t" where
  "le16 xdata k = ucast (xdata k) OR push_bit 8 (ucast (xdata (k + 1)))"

text \<open>
  \<open>ParseInputData(&xpad, ep_in)\<close> decodes what is in \<open>xdata\<close>. It has no length
  parameter: the only length it compares is \<open>sizeof(xdata)\<close>. The result is the returned
  flag, the pool, \<open>xdata\<close> (the allocator writes to it) and the pointer left in \<open>*xpad\<close>.
  For every family but the wireless one \<open>_dev_type\<close> is read from \<open>_xpad\<close>, so
  \<open>_xpad\<close> is not null in those cases; the model leaves everything as it is should it be.
\<close>

definition parse_xbox360_wired ::
  "xinput_pool \<Rightarrow> (nat \<Rightarrow> uint8_t) \<Rightarrow> nat \<Rightarrow> bool \<times> xinput_pool" where
  "parse_xbox360_wired pool xdata p =
     (let x = pool p in
      if xdata 0 = 0x01 \<and> sizeof_xdata \<ge> 3 then
        (let led = xdata 2 AND 0x0F;
             led' = (if led \<noteq> 0 then led - (if led > 5 then 5 else 1) else led)
         in (False, pool(p := x\<lparr>led_actual := led'\<rparr>)))
      else if xdata 0 = 0x03 \<and> sizeof_xdata \<ge> 5 then
        (False, pool(p := x
           \<lparr>lValue_actual := ucast (push_bit 8 (ucast (xdata 3) :: uint16_t)),
            rValue_actual := ucast (push_bit 8 (ucast (xdata 4) :: uint16_t))\<rparr>))
      else if xdata 0 \<noteq> 0x00 \<or> xdata 1 \<noteq> 0x14 \<or> sizeof_xdata < 14 then
        (False, pool)
      else
        (True, pool(p := x\<lparr>pad_state :=
           \<lparr>wButtons = map_buttons xbox360_wired_buttons (le16 xdata 2) 0,
            bLeftTrigger = xdata 4, bRightTrigger = xdata 5,
            sThumbLX = le16 xdata 6, sThumbLY = le16 xdata 8,
            sThumbRX = le16 xdata 10, sThumbRY = le16 xdata 12\<rparr>\<rparr>)))"

text \<open>
  The trigger of the newer pad is \<open>(xdata[k] | (xdata[k + 1] << 8)) >> 2\<close> stored into a
  byte: bits 2 to 9 of the 16-bit value, on which the arithmetic shift of \<open>int\<close> and the
  logical one agree.
\<close>

definition parse_xboxone ::
  "xinput_pool \<Rightarrow> (nat \<Rightarrow> uint8_t) \<Rightarrow> nat \<Rightarrow> bool \<times> xinput_pool" where
  "parse_xboxone pool xdata p =
     (let x = pool p in
      if xdata 0 \<noteq> 0x20 \<or> sizeof_xdata < 18 then (False, pool)
      else
        (True, pool(p := x\<lparr>pad_state :=
           \<lparr>wButtons = map_buttons xboxone_buttons (le16 xdata 4) 0,
            bLeftTrigger = ucast (drop_bit 2 (le16 xdata 6)),
            bRightTrigger = ucast (drop_bit 2 (le16 xdata 8)),
            sThumbLX = le16 xdata 10, sThumbLY = le16 xdata 12,
            sThumbRX = le16 xdata 14, sThumbRY = le16 xdata 16\<rparr>\<rparr>)))"

definition parse_xboxog ::
  "xinput_pool \<Rightarrow> (nat \<Rightarrow> uint8_t) \<Rightarrow> nat \<Rightarrow> bool \<times> xinput_pool" where
  "parse_xboxog pool xdata p =
     (let x = pool p in
      if xdata 1 \<noteq> 0x14 \<or> sizeof_xdata < 20 then (False, pool)
      else
        (True, pool(p := x\<lparr>pad_state :=
           \<lparr>wButtons = map_analog_buttons xboxog_analog_buttons xdata
                          (map_buttons xboxog_buttons (le16 xdata 2) 0),
            bLeftTrigger = xdata 10, bRightTrigger = xdata 11,
            sThumbLX = le16 xdata 12, sThumbLY = le16 xdata 14,
            sThumbRX = le16 xdata 16, sThumbRY = le16 xdata 18\<rparr>\<rparr>)))"

text \<open>
  The wireless receiver, after the presence handling has left a device record \<open>p\<close>:
  the chatpad re-initialisation flag, the pad event and the chatpad report.
\<close>

definition parse_xbox360_wireless_report ::
  "xinput_pool \<Rightarrow> (nat \<Rightarrow> uint8_t) \<Rightarrow> nat \<Rightarrow> xinput_pool" where
  "parse_xbox360_wireless_report pool xdata p =
     (let x0 = pool p;
          x1 = (if xdata 1 = 0xF8 then x0\<lparr>chatpad_initialised := 0\<rparr> else x0);
          x2 = (if xdata 1 AND 1 \<noteq> 0 \<and> xdata 5 = 0x13 \<and> sizeof_xdata \<ge> 18 then
                  x1\<lparr>pad_state :=
                    \<lparr>wButtons = map_buttons xbox360_wireless_buttons (le16 xdata 6) 0,
                     bLeftTrigger = xdata 8, bRightTrigger = xdata 9,
                     sThumbLX = le16 xdata 10, sThumbLY = le16 xdata 12,
                     sThumbRX = le16 xdata 14, sThumbRY = le16 xdata 16\<rparr>\<rparr>
                else x1);
          x3 = (if xdata 1 AND 2 \<noteq> 0 then
                  (let y1 = (if xdata 24 = 0x00 \<and> sizeof_xdata \<ge> 28 then
                               x2\<lparr>chatpad_state :=
                                 (chatpad_state x2)(0 := xdata 25, 1 := xdata 26, 2 := xdata 27)\<rparr>
                             else x2);
                       y2 = (if xdata 24 = 0xF0 \<and> sizeof_xdata \<ge> 27 then
                               (let z1 = (if xdata 25 = 0x03
                                          then y1\<lparr>chatpad_initialised := 0\<rparr> else y1)
                                in if xdata 25 = 0x04 \<and> xdata 26 AND 0x80 \<noteq> 0
                                   then z1\<lparr>chatpad_led_actual := xdata 26 AND 0x7F\<rparr> else z1)
                             else y1)
                   in y2)
                else x2)
      in pool(p := x3))"

definition parse_xbox360_wireless ::
  "out_transfer \<Rightarrow> uint32_t \<Rightarrow> XINPUT \<Rightarrow> xinput_pool \<Rightarrow> (nat \<Rightarrow> uint8_t) \<Rightarrow> nat option \<Rightarrow> nat
     \<Rightarrow> bool \<times> xinput_pool \<times> (nat \<Rightarrow> uint8_t) \<times> nat option" where
  "parse_xbox360_wireless outTransfer now this pool xdata xpad ep_in =
     (if sizeof_xdata < 27 then (False, pool, xdata, xpad)
      else if xdata 0 AND 0x08 \<noteq> 0 \<and> xdata 1 \<noteq> 0x00 \<and> xpad = None then
        (case alloc_xinput_device outTransfer now this pool xdata (xi_bAddress this) 0
                (Some ep_in) (Some (ep_in + 1)) XBOX360_WIRELESS of
           (None, pool1, xdata1) \<Rightarrow> (False, pool1, xdata1, xpad)
         | (Some p, pool1, xdata1) \<Rightarrow>
             (True, parse_xbox360_wireless_report pool1 xdata1 p, xdata1, Some p))
      else if xdata 0 AND 0x08 \<noteq> 0 \<and> xdata 1 = 0x00 \<and> xpad \<noteq> None then
        (False, snd (free_xinput_device pool (the xpad)), xdata, None)
      else
        (case xpad of
           None \<Rightarrow> (False, pool, xdata, xpad)
         | Some p \<Rightarrow> (True, parse_xbox360_wireless_report pool xdata p, xdata, xpad)))"

definition ParseInputData ::
  "out_transfer \<Rightarrow> uint32_t \<Rightarrow> XINPUT \<Rightarrow> xinput_pool \<Rightarrow> (nat \<Rightarrow> uint8_t) \<Rightarrow> nat option \<Rightarrow> nat
     \<Rightarrow> bool \<times> xinput_pool \<times> (nat \<Rightarrow> uint8_t) \<times> nat option" where
  "ParseInputData outTransfer now this pool xdata xpad ep_in =
     (let dt = (if dev_type this = XBOX360_WIRELESS then dev_type this
                else (case xpad of Some p \<Rightarrow> type (pool p) | None \<Rightarrow> XINPUT_UNKNOWN))
      in case dt of
           XINPUT_UNKNOWN \<Rightarrow> (False, pool, xdata, xpad)
         | XBOX360_WIRED \<Rightarrow>
             (case xpad of None \<Rightarrow> (False, pool, xdata, xpad)
              | Some p \<Rightarrow> (case parse_xbox360_wired pool xdata p of
                            (r, pool') \<Rightarrow> (r, pool', xdata, xpad)))
         | XBOX360_WIRELESS \<Rightarrow> parse_xbox360_wireless outTransfer now this pool xdata xpad ep_in
         | XBOXONE \<Rightarrow>
             (case xpad of None \<Rightarrow> (False, pool, xdata, xpad)
              | Some p \<Rightarrow> (case parse_xboxone pool xdata p of
                            (r, pool') \<Rightarrow> (r, pool', xdata, xpad)))
         | XBOXOG \<Rightarrow>
             (case xpad of None \<Rightarrow> (False, pool, xdata, xpad)
              | Some p \<Rightarrow> (case parse_xboxog pool xdata p of
                            (r, pool') \<Rightarrow> (r, pool', xdata, xpad)))
         | XINPUT_KEYBOARD \<Rightarrow> (True, pool, xdata, xpad)
         | XINPUT_MOUSE \<Rightarrow> (True, pool, xdata, xpad)
         | XINPUT_8BITDO_IDLE \<Rightarrow> (False, pool, xdata, xpad))"

text \<open>
  The in-endpoint branch of the loop body of \<open>Poll\<close>:
  \<open>len = min(maxPktSize, EP_MAXPKTSIZE); rcode = inTransfer(bAddress, epaddr, &len, xdata);
  if (rcode == hrSUCCESS) ParseInputData(&xinput, &epInfo[i]);\<close>
  The stack's answer is the return code and the bytes of the packet; at most \<open>len\<close> of
  them are stored at the head of \<open>xdata\<close>, the rest of \<open>xdata\<close> keeps what earlier
  transfers left there. The count of bytes received comes back in \<open>len\<close> and is not used.
\<close>

definition EP_MAXPKTSIZE :: nat where
  "EP_MAXPKTSIZE = 32"

definition Poll_in_endpoint ::
  "out_transfer \<Rightarrow> uint32_t \<Rightarrow> XINPUT \<Rightarrow> xinput_pool \<Rightarrow> (nat \<Rightarrow> uint8_t) \<Rightarrow> nat option \<Rightarrow> nat
     \<Rightarrow> nat \<Rightarrow> uint8_t \<times> uint8_t list
     \<Rightarrow> bool \<times> xinput_pool \<times> (nat \<Rightarrow> uint8_t) \<times> nat option" where
  "Poll_in_endpoint outTransfer now this pool xdata xinput i maxPktSize answer =
     (let len = min maxPktSize EP_MAXPKTSIZE;
          xdata1 = memcpy_P xdata (take len (snd answer))
      in if fst answer = hrSUCCESS
         then ParseInputData outTransfer now this pool xdata1 xinput i
         else (False, pool, xdata1, xinput))"

text \<open>
  A pool whose first slot holds a connected pad of the given family on pipes 1 and 2, and
  the driver object it belongs to (only the wireless receiver records its family in
  \<open>dev_type\<close>).
\<close>

definition pad_pool_example :: "xinput_type_t \<Rightarrow> xinput_pool" where
  "pad_pool_example ty =
     (\<lambda>_. usbh_xinput_zero)
       (0 := usbh_xinput_zero\<lparr>bAddress := 1, type := ty,
               usbh_inPipe := Some 1, usbh_outPipe := Some 2\<rparr>)"

definition driver_example :: "xinput_type_t \<Rightarrow> XINPUT" where
  "driver_example ty =
     \<lparr>xi_bAddress = 1,
      dev_type = (if ty = XBOX360_WIRELESS then XBOX360_WIRELESS else XINPUT_UNKNOWN),
      PID = 0, VID = 0\<rparr>"

section \<open>master.cpp: the report structures and the mapping context\<close>

text \<open>
  The in-reports are written field by field by the mapping functions and are records; the
  layouts are those of \<open>usbd_xid.h\<close>, of which the model keeps the fields that
  \<open>master.cpp\<close> names (the fields of the standard gamepad carry the prefix \<open>duke_\<close>).
  The out-reports are filled byte by byte from the bus and read at the offsets of the
  header; they are arrays of bytes.
\<close>

record usbd_duke_in_t =
  duke_startByte :: uint8_t
  duke_bLength :: uint8_t
  duke_wButtons :: uint16_t
  duke_A :: uint8_t
  duke_B :: uint8_t
  duke_X :: uint8_t
  duke_Y :: uint8_t
  duke_BLACK :: uint8_t
  duke_WHITE :: uint8_t
  duke_L :: uint8_t
  duke_R :: uint8_t
  leftStickX :: int16_t
  leftStickY :: int16_t
  rightStickX :: int16_t
  rightStickY :: int16_t

record usbd_sbattalion_in_t =
  sb_startByte :: uint8_t
  sb_bLength :: uint8_t
  sb_wButtons :: "nat \<Rightarrow> uint16_t"
  aimingX :: uint16_t
  aimingY :: uint16_t
  rotationLever :: int16_t
  sightChangeX :: int16_t
  sightChangeY :: int16_t
  leftPedal :: uint16_t
  middlePedal :: uint16_t
  rightPedal :: uint16_t
  tunerDial :: uint8_t
  gearLever :: uint8_t

record usbd_duke_t =
  duke_in :: usbd_duke_in_t
  duke_out :: "nat \<Rightarrow> uint8_t"

record usbd_steelbattalion_t =
  sb_in :: usbd_sbattalion_in_t
  sb_out :: "nat \<Rightarrow> uint8_t"

record usbd_controller_t =
  ctype :: uint8_t
  duke :: usbd_duke_t
  sb :: usbd_steelbattalion_t

record xinput_user_data_t =
  modifiers :: uint8_t
  button_hold_timer :: uint32_t
  vmouse_x :: int32_t
  vmouse_y :: int32_t

text \<open>
  The calibration value \<open>sb_sensitivity\<close> and the two EEPROM cells at addresses 1 and 2
  that \<open>EEPROM.put(1, new_sensitivity)\<close> writes, low byte first.
\<close>

record master_globals =
  sb_sensitivity :: uint16_t
  EEPROM :: "nat \<Rightarrow> uint8_t"

definition EEPROM_put_u16 :: "nat \<Rightarrow> uint16_t \<Rightarrow> (nat \<Rightarrow> uint8_t) \<Rightarrow> (nat \<Rightarrow> uint8_t)" where
  "EEPROM_put_u16 a v e = e(a := ucast v, a + 1 := ucast (drop_bit 8 v))"

definition MAX_GAMEPADS :: nat where
  "MAX_GAMEPADS = 4"

text \<open>The fields of the out-reports that the mapping reads.\<close>

definition duke_out_lValue :: "usbd_xid_h \<Rightarrow> (nat \<Rightarrow> uint8_t) \<Rightarrow> uint16_t" where
  "duke_out_lValue h out = le16 out (offsetof_lValue h)"

definition Chaff_Extinguisher :: "usbd_xid_h \<Rightarrow> (nat \<Rightarrow> uint8_t) \<Rightarrow> uint8_t" where
  "Chaff_Extinguisher h out = out (offsetof_Chaff_Extinguisher h)"

definition Comm1_MagazineChange :: "usbd_xid_h \<Rightarrow> (nat \<Rightarrow> uint8_t) \<Rightarrow> uint8_t" where
  "Comm1_MagazineChange h out = out (offsetof_Comm1_MagazineChange h)"

definition Washing_LineColorChange :: "usbd_xid_h \<Rightarrow> (nat \<Rightarrow> uint8_t) \<Rightarrow> uint8_t" where
  "Washing_LineColorChange h out = out (offsetof_Washing_LineColorChange h)"

definition CockpitHatch_EmergencyEject :: "usbd_xid_h \<Rightarrow> (nat \<Rightarrow> uint8_t) \<Rightarrow> uint8_t" where
  "CockpitHatch_EmergencyEject h out = out (offsetof_CockpitHatch_EmergencyEject h)"

section \<open>master.cpp: the standard gamepad mapping\<close>

text \<open>
  \<open>a || b\<close> over two calls of \<open>usbh_xinput_was_gamepad_pressed\<close>: the second call, with
  its update of the edge mask, is made only when the first gives 0.
\<close>

definition was_gamepad_pressed_or ::
  "usbh_xinput_t \<Rightarrow> uint16_t \<Rightarrow> uint16_t \<Rightarrow> bool \<times> usbh_xinput_t" where
  "was_gamepad_pressed_or xinput m1 m2 =
     (case usbh_xinput_was_gamepad_pressed xinput m1 of
        (r1, x1) \<Rightarrow>
          if r1 \<noteq> 0 then (True, x1)
          else (case usbh_xinput_was_gamepad_pressed x1 m2 of (r2, x2) \<Rightarrow> (r2 \<noteq> 0, x2)))"

text \<open>\<open>(m, d)\<close> stands for \<open>if (wButtons & m) in.wButtons |= d;\<close>\<close>

fun duke_buttons :: "(uint16_t \<times> uint16_t) list \<Rightarrow> uint16_t \<Rightarrow> uint16_t \<Rightarrow> uint16_t" where
  "duke_buttons [] w acc = acc"
| "duke_buttons ((m, d) # tbl) w acc =
     duke_buttons tbl w (if w AND m \<noteq> 0 then acc OR d else acc)"

definition XINPUT_MOD_RSX_INVERT :: uint8_t where
  "XINPUT_MOD_RSX_INVERT = push_bit 0 1"

definition XINPUT_MOD_RSY_INVERT :: uint8_t where
  "XINPUT_MOD_RSY_INVERT = push_bit 1 1"

definition handle_duke ::
  "usbd_xid_h \<Rightarrow> usbh_xinput_t \<Rightarrow> usbd_duke_t \<Rightarrow> xinput_user_data_t
     \<Rightarrow> usbh_xinput_t \<times> usbd_duke_t \<times> xinput_user_data_t" where
  "handle_duke h usbh_xinput usbd_duke user_data =
     (let xs = pad_state usbh_xinput;
          w = wButtons xs;
          in1 = (duke_in usbd_duke)
            \<lparr>duke_startByte := 0,
             duke_bLength := of_nat (sizeof_usbd_duke_in_t h),
             duke_wButtons :=
               duke_buttons
                 [(XINPUT_GAMEPAD_DPAD_UP, DUKE_DUP h), (XINPUT_GAMEPAD_DPAD_DOWN, DUKE_DDOWN h),
                  (XINPUT_GAMEPAD_DPAD_LEFT, DUKE_DLEFT h),
                  (XINPUT_GAMEPAD_DPAD_RIGHT, DUKE_DRIGHT h),
                  (XINPUT_GAMEPAD_START, DUKE_START h), (XINPUT_GAMEPAD_BACK, DUKE_BACK h),
                  (XINPUT_GAMEPAD_LEFT_THUMB, DUKE_LS h),
                  (XINPUT_GAMEPAD_RIGHT_THUMB, DUKE_RS h)] w 0,
             duke_A := (if w AND XINPUT_GAMEPAD_A \<noteq> 0 then 0xFF else 0),
             duke_B := (if w AND XINPUT_GAMEPAD_B \<noteq> 0 then 0xFF else 0),
             duke_X := (if w AND XINPUT_GAMEPAD_X \<noteq> 0 then 0xFF else 0),
             duke_Y := (if w AND XINPUT_GAMEPAD_Y \<noteq> 0 then 0xFF else 0),
             duke_BLACK := (if w AND XINPUT_GAMEPAD_RIGHT_SHOULDER \<noteq> 0 then 0xFF else 0),
             duke_WHITE := (if w AND XINPUT_GAMEPAD_LEFT_SHOULDER \<noteq> 0 then 0xFF else 0),
             duke_L := bLeftTrigger xs,
             duke_R := bRightTrigger xs,
             leftStickX := sThumbLX xs,
             leftStickY := sThumbLY xs,
             rightStickX := sThumbRX xs,
             rightStickY := sThumbRY xs\<rparr>;
          x1 = usbh_xinput
            \<lparr>chatpad_led_requested := ucast XINPUT_CHATPAD_GREEN,
             lValue_requested := ucast (drop_bit 8 (duke_out_lValue h (duke_out usbd_duke))),
             rValue_requested := ucast (drop_bit 8 (duke_out_lValue h (duke_out usbd_duke)))\<rparr>;
          in2 = (if modifiers user_data AND XINPUT_MOD_RSY_INVERT \<noteq> 0
                 then in1\<lparr>rightStickY := - sThumbRY xs - 1\<rparr> else in1);
          in3 = (if modifiers user_data AND XINPUT_MOD_RSX_INVERT \<noteq> 0
                 then in2\<lparr>rightStickX := - sThumbRX xs - 1\<rparr> else in2);
          (x3, u3) =
            (if w AND XINPUT_GAMEPAD_RIGHT_THUMB \<noteq> 0 then
               (case was_gamepad_pressed_or x1 XINPUT_GAMEPAD_DPAD_UP XINPUT_GAMEPAD_DPAD_DOWN of
                  (e1, x2) \<Rightarrow>
                    (let u2 = (if e1 then user_data\<lparr>modifiers :=
                                   modifiers user_data XOR XINPUT_MOD_RSY_INVERT\<rparr>
                               else user_data)
                     in case was_gamepad_pressed_or x2
                               XINPUT_GAMEPAD_DPAD_RIGHT XINPUT_GAMEPAD_DPAD_LEFT of
                          (e2, x3) \<Rightarrow>
                            (x3, if e2 then u2\<lparr>modifiers :=
                                      modifiers u2 XOR XINPUT_MOD_RSX_INVERT\<rparr>
                                 else u2)))
             else (x1, user_data))
      in (x3, usbd_duke\<lparr>duke_in := in3\<rparr>, u3))"

section \<open>master.cpp: the cockpit controller mapping\<close>

text \<open>An entry \<open>{xinput_mask, sb_mask, sb_word_offset}\<close> of the mapping tables.\<close>

type_synonym sb_map_t = "uint16_t \<times> uint16_t \<times> nat"

definition sb_pad_map :: "usbd_xid_h \<Rightarrow> sb_map_t list" where
  "sb_pad_map h =
     [(XINPUT_GAMEPAD_START, SBC h SBC_W0_START, 0),
      (XINPUT_GAMEPAD_LEFT_SHOULDER, SBC h SBC_W0_RIGHTJOYFIRE, 0),
      (XINPUT_GAMEPAD_RIGHT_THUMB, SBC h SBC_W0_RIGHTJOYLOCKON, 0),
      (XINPUT_GAMEPAD_B, SBC h SBC_W0_RIGHTJOYLOCKON, 0),
      (XINPUT_GAMEPAD_RIGHT_SHOULDER, SBC h SBC_W0_RIGHTJOYMAINWEAPON, 0),
      (XINPUT_GAMEPAD_A, SBC h SBC_W0_RIGHTJOYMAINWEAPON, 0),
      (XINPUT_GAMEPAD_XBOX_BUTTON, SBC h SBC_W0_EJECT, 0),
      (XINPUT_GAMEPAD_LEFT_THUMB, SBC h SBC_W2_LEFTJOYSIGHTCHANGE, 2),
      (XINPUT_GAMEPAD_Y, SBC h SBC_W1_CHAFF, 1)]"

definition sb_chatpad_map :: "usbd_xid_h \<Rightarrow> sb_map_t list" where
  "sb_chatpad_map h =
     [(XINPUT_CHATPAD_0, SBC h SBC_W0_EJECT, 0),
      (XINPUT_CHATPAD_D, SBC h SBC_W1_WASHING, 1),
      (XINPUT_CHATPAD_F, SBC h SBC_W1_EXTINGUISHER, 1),
      (XINPUT_CHATPAD_G, SBC h SBC_W1_CHAFF, 1),
      (XINPUT_CHATPAD_X, SBC h SBC_W1_WEAPONCONMAIN, 1),
      (XINPUT_CHATPAD_RIGHT, SBC h SBC_W1_WEAPONCONMAIN, 1),
      (XINPUT_CHATPAD_C, SBC h SBC_W1_WEAPONCONSUB, 1),
      (XINPUT_CHATPAD_LEFT, SBC h SBC_W1_WEAPONCONSUB, 1),
      (XINPUT_CHATPAD_V, SBC h SBC_W1_WEAPONCONMAGAZINE, 1),
      (XINPUT_CHATPAD_SPACE, SBC h SBC_W1_WEAPONCONMAGAZINE, 1),
      (XINPUT_CHATPAD_U, SBC h SBC_W0_MULTIMONOPENCLOSE, 0),
      (XINPUT_CHATPAD_J, SBC h SBC_W0_MULTIMONMODESELECT, 0),
      (XINPUT_CHATPAD_N, SBC h SBC_W0_MAINMONZOOMIN, 0),
      (XINPUT_CHATPAD_I, SBC h SBC_W0_MULTIMONMAPZOOMINOUT, 0),
      (XINPUT_CHATPAD_K, SBC h SBC_W0_MULTIMONSUBMONITOR, 0),
      (XINPUT_CHATPAD_M, SBC h SBC_W0_MAINMONZOOMOUT, 0),
      (XINPUT_CHATPAD_ENTER, SBC h SBC_W0_START, 0),
      (XINPUT_CHATPAD_P, SBC h SBC_W0_COCKPITHATCH, 0),
      (XINPUT_CHATPAD_COMMA, SBC h SBC_W0_IGNITION, 0)]"

definition sb_chatpad_alt1_map :: "usbd_xid_h \<Rightarrow> sb_map_t list" where
  "sb_chatpad_alt1_map h =
     [(XINPUT_CHATPAD_1, SBC h SBC_W1_COMM1, 1),
      (XINPUT_CHATPAD_2, SBC h SBC_W1_COMM2, 1),
      (XINPUT_CHATPAD_3, SBC h SBC_W1_COMM3, 1),
      (XINPUT_CHATPAD_4, SBC h SBC_W1_COMM4, 1),
      (XINPUT_CHATPAD_5, SBC h SBC_W2_COMM5, 2)]"

definition sb_chatpad_alt2_map :: "usbd_xid_h \<Rightarrow> sb_map_t list" where
  "sb_chatpad_alt2_map h =
     [(XINPUT_CHATPAD_1, SBC h SBC_W1_FUNCTIONF1, 1),
      (XINPUT_CHATPAD_2, SBC h SBC_W1_FUNCTIONTANKDETACH, 1),
      (XINPUT_CHATPAD_3, SBC h SBC_W0_FUNCTIONFSS, 0),
      (XINPUT_CHATPAD_4, SBC h SBC_W1_FUNCTIONF2, 1),
      (XINPUT_CHATPAD_5, SBC h SBC_W1_FUNCTIONOVERRIDE, 1),
      (XINPUT_CHATPAD_6, SBC h SBC_W0_FUNCTIONMANIPULATOR, 0),
      (XINPUT_CHATPAD_7, SBC h SBC_W1_FUNCTIONF3, 1),
      (XINPUT_CHATPAD_8, SBC h SBC_W1_FUNCTIONNIGHTSCOPE, 1),
      (XINPUT_CHATPAD_9, SBC h SBC_W0_FUNCTIONLINECOLORCHANGE, 0)]"

definition sb_chatpad_toggle_map :: "usbd_xid_h \<Rightarrow> sb_map_t list" where
  "sb_chatpad_toggle_map h =
     [(XINPUT_CHATPAD_Q, SBC h SBC_W2_TOGGLEOXYGENSUPPLY, 2),
      (XINPUT_CHATPAD_A, SBC h SBC_W2_TOGGLEFILTERCONTROL, 2),
      (XINPUT_CHATPAD_W, SBC h SBC_W2_TOGGLEVTLOCATION, 2),
      (XINPUT_CHATPAD_S, SBC h SBC_W2_TOGGLEBUFFREMATERIAL, 2),
      (XINPUT_CHATPAD_Z, SBC h SBC_W2_TOGGLEFUELFLOWRATE, 2)]"

text \<open>
  The three kinds of table loop, over the array \<open>in.wButtons\<close>:
  \<open>if (wButtons & xinput_mask) in.wButtons[off] |= sb_mask;\<close>,
  \<open>if (usbh_xinput_is_chatpad_pressed(x, xinput_mask)) in.wButtons[off] |= sb_mask;\<close> and
  \<open>if (usbh_xinput_was_chatpad_pressed(x, xinput_mask)) in.wButtons[off] ^= sb_mask;\<close>,
  the last of which also updates the key history of the device record.
\<close>

fun apply_pad_map :: "sb_map_t list \<Rightarrow> uint16_t \<Rightarrow> (nat \<Rightarrow> uint16_t) \<Rightarrow> (nat \<Rightarrow> uint16_t)" where
  "apply_pad_map [] w wb = wb"
| "apply_pad_map ((m, d, off) # tbl) w wb =
     apply_pad_map tbl w (if w AND m \<noteq> 0 then wb(off := wb off OR d) else wb)"

fun apply_chatpad_map ::
  "sb_map_t list \<Rightarrow> usbh_xinput_t \<Rightarrow> (nat \<Rightarrow> uint16_t) \<Rightarrow> (nat \<Rightarrow> uint16_t)" where
  "apply_chatpad_map [] x wb = wb"
| "apply_chatpad_map ((m, d, off) # tbl) x wb =
     apply_chatpad_map tbl x
       (if usbh_xinput_is_chatpad_pressed x m \<noteq> 0 then wb(off := wb off OR d) else wb)"

fun apply_toggle_map ::
  "sb_map_t list \<Rightarrow> usbh_xinput_t \<Rightarrow> (nat \<Rightarrow> uint16_t)
     \<Rightarrow> usbh_xinput_t \<times> (nat \<Rightarrow> uint16_t)" where
  "apply_toggle_map [] x wb = (x, wb)"
| "apply_toggle_map ((m, d, off) # tbl) x wb =
     (case usbh_xinput_was_chatpad_pressed x m of
        (r, x') \<Rightarrow> apply_toggle_map tbl x' (if r \<noteq> 0 then wb(off := wb off XOR d) else wb))"

text \<open>\<open>constrain(amt, low, high)\<close> of the Arduino core, on promoted values.\<close>

definition constrain :: "int \<Rightarrow> int \<Rightarrow> int \<Rightarrow> int" where
  "constrain amt low high = (if amt < low then low else if amt > high then high else amt)"

text \<open>
  The button part of \<open>handle_sbattalion\<close> in the order of the source. First the
  clearing of \<open>wButtons[0]\<close> and \<open>wButtons[1]\<close> (\<open>wButtons[2]\<close> is not cleared), the
  three table loops and the X button, whose target depends on the console's out-report.
\<close>

definition sb_tables ::
  "usbd_xid_h \<Rightarrow> (nat \<Rightarrow> uint8_t) \<Rightarrow> usbh_xinput_t \<Rightarrow> usbd_sbattalion_in_t
     \<Rightarrow> usbh_xinput_t \<times> usbd_sbattalion_in_t" where
  "sb_tables h out x0 in0 =
     (let w = wButtons (pad_state x0);
          in1 = in0\<lparr>sb_startByte := 0,
                    sb_bLength := of_nat (sizeof_usbd_sbattalion_in_t h),
                    sb_wButtons := (sb_wButtons in0)(0 := 0, 1 := 0)\<rparr>;
          wb1 = apply_pad_map (sb_pad_map h) w (sb_wButtons in1);
          wb2 = apply_chatpad_map (sb_chatpad_map h) x0 wb1;
          (x3, wb3) = apply_toggle_map (sb_chatpad_toggle_map h) x0 wb2;
          wb4 = (if w AND XINPUT_GAMEPAD_X \<noteq> 0 \<and> Chaff_Extinguisher h out AND 0x0F \<noteq> 0
                 then wb3(1 := wb3 1 OR SBC h SBC_W1_EXTINGUISHER) else wb3);
          wb5 = (if w AND XINPUT_GAMEPAD_X \<noteq> 0 \<and> Comm1_MagazineChange h out AND 0x0F \<noteq> 0
                 then wb4(1 := wb4 1 OR SBC h SBC_W1_WEAPONCONMAGAZINE) else wb4);
          wb6 = (if w AND XINPUT_GAMEPAD_X \<noteq> 0 \<and> Washing_LineColorChange h out AND 0xF0 \<noteq> 0
                 then wb5(1 := wb5 1 OR SBC h SBC_W1_WASHING) else wb5)
      in (x3, in1\<lparr>sb_wButtons := wb6\<rparr>))"

text \<open>
  The branch taken while the messenger key or the back button is held: the first
  alternate table and the tuner dial. \<open>tunerDial++\<close> and \<open>tunerDial--\<close> act on the 8-bit
  field; \<open>constrain\<close> sees the field as \<open>int\<close>.
\<close>

definition sb_tuner_dial ::
  "usbd_xid_h \<Rightarrow> usbh_xinput_t \<Rightarrow> usbd_sbattalion_in_t
     \<Rightarrow> usbh_xinput_t \<times> usbd_sbattalion_in_t" where
  "sb_tuner_dial h x in0 =
     (let wb = apply_chatpad_map (sb_chatpad_alt1_map h) x (sb_wButtons in0) in
      case was_gamepad_pressed_or x XINPUT_GAMEPAD_DPAD_UP XINPUT_GAMEPAD_DPAD_RIGHT of
        (up, xa) \<Rightarrow>
          (let t1 = (if up then tunerDial in0 + 1 else tunerDial in0) in
           case was_gamepad_pressed_or xa XINPUT_GAMEPAD_DPAD_DOWN XINPUT_GAMEPAD_DPAD_LEFT of
             (down, xb) \<Rightarrow>
               (let t2 = (if down then t1 - 1 else t1) in
                (xb, in0\<lparr>sb_wButtons := wb,
                         tunerDial := of_int (constrain (tunerDial_int h t2) 0 15)\<rparr>))))"

text \<open>
  The default branch, taken when the orange key is not held either: the second alternate
  table, and the gear lever unless the D-pad is held left or right.
\<close>

definition sb_gear_lever ::
  "usbd_xid_h \<Rightarrow> usbh_xinput_t \<Rightarrow> usbd_sbattalion_in_t
     \<Rightarrow> usbh_xinput_t \<times> usbd_sbattalion_in_t" where
  "sb_gear_lever h x in0 =
     (let wb = apply_chatpad_map (sb_chatpad_alt2_map h) x (sb_wButtons in0);
          ina = in0\<lparr>sb_wButtons := wb\<rparr>
      in if wButtons (pad_state x) AND (XINPUT_GAMEPAD_DPAD_LEFT OR XINPUT_GAMEPAD_DPAD_RIGHT) = 0
         then
           (case usbh_xinput_was_gamepad_pressed x XINPUT_GAMEPAD_DPAD_UP of
              (up, xa) \<Rightarrow>
                (let g1 = (if up \<noteq> 0 then gearLever ina + 1 else gearLever ina) in
                 case usbh_xinput_was_gamepad_pressed xa XINPUT_GAMEPAD_DPAD_DOWN of
                   (down, xb) \<Rightarrow>
                     (let g2 = (if down \<noteq> 0 then g1 - 1 else g1) in
                      (xb, ina\<lparr>gearLever :=
                             of_int (constrain (gearLever_int h g2)
                                       (SBC_GEAR_R h) (SBC_GEAR_5 h))\<rparr>))))
         else (x, ina))"

text \<open>The shift key: a rising edge flips the bank \<open>0xFFFC\<close> of \<open>wButtons[2]\<close>.\<close>

definition sb_shift ::
  "usbh_xinput_t \<Rightarrow> usbd_sbattalion_in_t \<Rightarrow> usbh_xinput_t \<times> usbd_sbattalion_in_t" where
  "sb_shift x in0 =
     (case usbh_xinput_was_chatpad_pressed x XINPUT_CHATPAD_SHIFT of
        (shift, x') \<Rightarrow>
          (x', if shift \<noteq> 0
               then in0\<lparr>sb_wButtons := (sb_wButtons in0)(2 := sb_wButtons in0 2 XOR 0xFFFC)\<rparr>
               else in0))"

definition sb_buttons ::
  "usbd_xid_h \<Rightarrow> (nat \<Rightarrow> uint8_t) \<Rightarrow> usbh_xinput_t \<Rightarrow> usbd_sbattalion_in_t
     \<Rightarrow> usbh_xinput_t \<times> usbd_sbattalion_in_t" where
  "sb_buttons h out x0 in0 =
     (let (x3, in6) = sb_tables h out x0 in0;
          (x7, in7) =
            (if usbh_xinput_is_chatpad_pressed x3 XINPUT_CHATPAD_MESSENGER \<noteq> 0
                \<or> wButtons (pad_state x3) AND XINPUT_GAMEPAD_BACK \<noteq> 0
             then sb_tuner_dial h x3 in6
             else if usbh_xinput_is_chatpad_pressed x3 XINPUT_CHATPAD_ORANGE = 0
             then sb_gear_lever h x3 in6
             else (x3, in6))
      in sb_shift x7 in7)"

text \<open>
  \<open>axisVal / sb_sensitivity\<close>: the 16-bit unsigned divisor is converted to \<open>long\<close> and
  the division is the signed one of C, rounding towards zero. For a zero divisor C fixes
  no result and the controller's division routine does not trap: the value it leaves is
  the parameter \<open>dz\<close> of the model.
\<close>

definition c_div32 :: "int32_t \<Rightarrow> int32_t \<Rightarrow> int32_t \<Rightarrow> int32_t" where
  "c_div32 a b dz =
     (if b = 0 then dz
      else of_int (sgn (sint a) * sgn (sint b) * (\<bar>sint a\<bar> div \<bar>sint b\<bar>)))"

definition DEADZONE :: int where
  "DEADZONE = 7500"

definition UINT16_MAX :: int where
  "UINT16_MAX = 65535"

text \<open>
  The analog part of \<open>handle_sbattalion\<close>: pedals, rotation lever, sight stick, and the
  virtual pointer with its clamp, its recentring on a held left-stick click and the
  aiming outputs. \<open>now\<close> is the value of \<open>millis()\<close>.
\<close>

definition sb_axes ::
  "usbd_xid_h \<Rightarrow> uint32_t \<Rightarrow> int32_t \<Rightarrow> uint16_t \<Rightarrow> usbh_xinput_t \<Rightarrow> usbd_sbattalion_in_t
     \<Rightarrow> xinput_user_data_t \<Rightarrow> usbd_sbattalion_in_t \<times> xinput_user_data_t" where
  "sb_axes h now dz sensitivity x in0 u0 =
     (let xs = pad_state x;
          w = wButtons xs;
          in1 = in0
            \<lparr>leftPedal := push_bit 8 (ucast (bLeftTrigger xs)),
             rightPedal := push_bit 8 (ucast (bRightTrigger xs)),
             middlePedal :=
               (if usbh_xinput_is_chatpad_pressed x XINPUT_CHATPAD_BACK \<noteq> 0 then 0xFF00 else 0),
             rotationLever :=
               (if usbh_xinput_is_chatpad_pressed x XINPUT_CHATPAD_MESSENGER \<noteq> 0 then 0
                else if w AND XINPUT_GAMEPAD_BACK \<noteq> 0 then 0
                else if w AND XINPUT_GAMEPAD_DPAD_LEFT \<noteq> 0 then - 32768
                else if w AND XINPUT_GAMEPAD_DPAD_RIGHT \<noteq> 0 then 32767
                else 0),
             sightChangeX := sThumbLX xs,
             sightChangeY := - sThumbLY xs - 1\<rparr>;
          axisX = (scast (sThumbRX xs) :: int32_t);
          u1 = (if \<bar>sint axisX\<bar> > DEADZONE
                then u0\<lparr>vmouse_x := vmouse_x u0 + c_div32 axisX (ucast sensitivity) dz\<rparr>
                else u0);
          axisY = (scast (sThumbRY xs) :: int32_t);
          u2 = (if \<bar>sint axisY\<bar> > DEADZONE
                then u1\<lparr>vmouse_y := vmouse_y u1 - c_div32 axisY (ucast sensitivity) dz\<rparr>
                else u1);
          u3 = u2\<lparr>vmouse_x := of_int (constrain (sint (vmouse_x u2)) 0 UINT16_MAX)\<rparr>;
          u4 = u3\<lparr>vmouse_y := of_int (constrain (sint (vmouse_y u3)) 0 UINT16_MAX)\<rparr>;
          u5 = (if w AND XINPUT_GAMEPAD_LEFT_THUMB \<noteq> 0 then
                  (if now - button_hold_timer u4 > 500
                   then u4\<lparr>vmouse_x := SBC_AIMING_MID h, vmouse_y := SBC_AIMING_MID h\<rparr>
                   else u4)
                else u4\<lparr>button_hold_timer := now\<rparr>)
      in (in1\<lparr>aimingX := ucast (vmouse_x u5), aimingY := ucast (vmouse_y u5)\<rparr>, u5))"

text \<open>The rumble request derived from the console's out-report.\<close>

definition sb_feedback :: "usbd_xid_h \<Rightarrow> (nat \<Rightarrow> uint8_t) \<Rightarrow> usbh_xinput_t \<Rightarrow> usbh_xinput_t" where
  "sb_feedback h out x =
     (let x1 = x\<lparr>lValue_requested :=
                  Chaff_Extinguisher h out OR push_bit 4 (Chaff_Extinguisher h out)
                  OR push_bit 4 (Comm1_MagazineChange h out)
                  OR push_bit 4 (CockpitHatch_EmergencyEject h out)\<rparr>
      in x1\<lparr>rValue_requested := lValue_requested x1\<rparr>)"

definition sensitivities :: "uint16_t list" where
  "sensitivities = [1200, 1000, 800, 650, 400, 350, 300, 250, 200]"

text \<open>
  The preset loop: \<open>i\<close> runs over the given indices and the loop is left at the first
  \<open>i\<close> for which \<open>usbh_xinput_was_chatpad_pressed(x, XINPUT_CHATPAD_1 + i)\<close> gives 1.
\<close>

fun sensitivity_edge :: "nat list \<Rightarrow> usbh_xinput_t \<Rightarrow> nat option \<times> usbh_xinput_t" where
  "sensitivity_edge [] x = (None, x)"
| "sensitivity_edge (i # is) x =
     (case usbh_xinput_was_chatpad_pressed x (XINPUT_CHATPAD_1 + of_nat i) of
        (r, x') \<Rightarrow> if r \<noteq> 0 then (Some i, x') else sensitivity_edge is x')"

definition sb_select_sensitivity ::
  "usbh_xinput_t \<Rightarrow> master_globals \<Rightarrow> usbh_xinput_t \<times> master_globals" where
  "sb_select_sensitivity x g =
     (if usbh_xinput_is_chatpad_pressed x XINPUT_CHATPAD_ORANGE \<noteq> 0 then
        (case sensitivity_edge [0 ..< length sensitivities] x of
           (None, x') \<Rightarrow> (x', g)
         | (Some i, x') \<Rightarrow>
             (let new_sensitivity = sensitivities ! i in
              if sb_sensitivity g \<noteq> new_sensitivity
              then (x', g\<lparr>EEPROM := EEPROM_put_u16 1 new_sensitivity (EEPROM g),
                          sb_sensitivity := new_sensitivity\<rparr>)
              else (x', g)))
      else (x, g))"

text \<open>The closing guard of \<open>handle_sbattalion\<close> on the ignition bit.\<close>

definition sb_ignition_hack :: "usbd_xid_h \<Rightarrow> usbd_sbattalion_in_t \<Rightarrow> usbd_sbattalion_in_t" where
  "sb_ignition_hack h in0 =
     (if sb_wButtons in0 0 AND SBC h SBC_W0_IGNITION \<noteq> 0 then
        in0\<lparr>aimingX := 0, aimingY := 0,
            sb_wButtons := (sb_wButtons in0)
              (0 := sb_wButtons in0 0 AND NOT (SBC h SBC_W0_COCKPITHATCH))\<rparr>
      else in0)"

text \<open>
  \<open>handle_sbattalion\<close>: the four parts in the order of the source. The pointer step
  divides by the calibration value as it is on entry; the preset selection comes after it.
\<close>

definition handle_sbattalion ::
  "usbd_xid_h \<Rightarrow> uint32_t \<Rightarrow> int32_t \<Rightarrow> usbh_xinput_t \<Rightarrow> usbd_steelbattalion_t
     \<Rightarrow> xinput_user_data_t \<Rightarrow> master_globals
     \<Rightarrow> usbh_xinput_t \<times> usbd_steelbattalion_t \<times> xinput_user_data_t \<times> master_globals" where
  "handle_sbattalion h now dz usbh_xinput usbd_sbattalion user_data g =
     (let (x1, in1) = sb_buttons h (sb_out usbd_sbattalion) usbh_xinput (sb_in usbd_sbattalion);
          (in2, u2) = sb_axes h now dz (sb_sensitivity g) x1 in1 user_data;
          x3 = sb_feedback h (sb_out usbd_sbattalion) x1;
          (x4, g4) = sb_select_sensitivity x3 g;
          in5 = sb_ignition_hack h in2
      in (x4, usbd_sbattalion\<lparr>sb_in := in5\<rparr>, u2, g4))"

section \<open>The slots after start-up\<close>

text \<open>
  A slot and its mapping context as \<open>setup()\<close> and \<open>master_init()\<close> leave them: the
  array cleared, the type set to the standard gamepad, the length bytes of the in-reports
  set, the gear in neutral and the virtual pointer at the midpoint.
\<close>

definition usbd_controller_init :: "usbd_xid_h \<Rightarrow> usbd_controller_t" where
  "usbd_controller_init h =
     \<lparr>ctype = DUKE h,
      duke = \<lparr>duke_in =
                \<lparr>duke_startByte = 0, duke_bLength = of_nat (sizeof_usbd_duke_in_t h),
                 duke_wButtons = 0, duke_A = 0, duke_B = 0, duke_X = 0, duke_Y = 0,
                 duke_BLACK = 0, duke_WHITE = 0, duke_L = 0, duke_R = 0,
                 leftStickX = 0, leftStickY = 0, rightStickX = 0, rightStickY = 0\<rparr>,
              duke_out = (\<lambda>_. 0)(1 := of_nat (sizeof_usbd_duke_out_t h))\<rparr>,
      sb = \<lparr>sb_in =
              \<lparr>sb_startByte = 0, sb_bLength = of_nat (sizeof_usbd_sbattalion_in_t h),
               sb_wButtons = (\<lambda>_. 0), aimingX = 0, aimingY = 0, rotationLever = 0,
               sightChangeX = 0, sightChangeY = 0, leftPedal = 0, middlePedal = 0,
               rightPedal = 0, tunerDial = 0, gearLever = of_int (SBC_GEAR_N h)\<rparr>,
            sb_out = (\<lambda>_. 0)(1 := of_nat (sizeof_usbd_sbattalion_out_t h))\<rparr>\<rparr>"

definition user_data_init :: "usbd_xid_h \<Rightarrow> xinput_user_data_t" where
  "user_data_init h =
     \<lparr>modifiers = 0, button_hold_timer = 0,
      vmouse_x = SBC_AIMING_MID h, vmouse_y = SBC_AIMING_MID h\<rparr>"

definition master_globals_init :: master_globals where
  "master_globals_init = \<lparr>sb_sensitivity = 400, EEPROM = (\<lambda>_. 0)(0 := 0xAB, 1 := 0x90, 2 := 0x01)\<rparr>"

section \<open>master.cpp: the coordinator's tick\<close>

text \<open>
  The bus library is the environment. What the coordinator writes in one transmission is
  the status byte and the bytes of one in-report; \<open>endTransmission\<close> answers, for the
  peer addressed and what was written, with the error code of \<open>Wire.endTransmission(true)\<close>
  (0 for success). \<open>requestFrom\<close> gives, for the peer and the quantity asked for, the
  bytes that \<open>Wire.requestFrom\<close> leaves in the receive buffer; its return value is their
  number.
\<close>

datatype tx_report = TxNone | TxDuke usbd_duke_in_t | TxSb usbd_sbattalion_in_t

record i2c_bus =
  endTransmission :: "nat \<Rightarrow> uint8_t \<Rightarrow> tx_report \<Rightarrow> uint8_t"
  requestFrom :: "nat \<Rightarrow> nat \<Rightarrow> uint8_t list"

text \<open>
  The state the tick works on: the device list of the host driver, the slots, the mapping
  contexts and the calibration value. \<open>Wire_transmissions\<close> records, in order, the peer
  and the status byte of every transmission the coordinator has made.
\<close>

record master_state =
  xinput_devices :: xinput_pool
  usbd_c :: "nat \<Rightarrow> usbd_controller_t"
  user_data :: "nat \<Rightarrow> xinput_user_data_t"
  globals :: master_globals
  Wire_transmissions :: "(nat \<times> uint8_t) list"

text \<open>
  The first half of the loop body for one slot: the slot's type follows the bus address
  of the device and the green and orange chatpad keys, then the report of that type is
  mapped.
\<close>

definition slot_map ::
  "usbd_xid_h \<Rightarrow> uint32_t \<Rightarrow> int32_t
     \<Rightarrow> usbh_xinput_t \<times> usbd_controller_t \<times> xinput_user_data_t \<times> master_globals
     \<Rightarrow> usbh_xinput_t \<times> usbd_controller_t \<times> xinput_user_data_t \<times> master_globals" where
  "slot_map h now dz s =
     (case s of (x, c, u, g) \<Rightarrow>
        (let c1 = (if bAddress x = 0 then c\<lparr>ctype := DISCONNECTED h\<rparr>
                   else if ctype c = DISCONNECTED h then c\<lparr>ctype := DUKE h\<rparr>
                   else c);
             (x2, c2) =
               (if usbh_xinput_is_chatpad_pressed x XINPUT_CHATPAD_GREEN \<noteq> 0 then
                  (x\<lparr>chatpad_led_requested := ucast XINPUT_CHATPAD_GREEN\<rparr>, c1\<lparr>ctype := DUKE h\<rparr>)
                else if usbh_xinput_is_chatpad_pressed x XINPUT_CHATPAD_ORANGE \<noteq> 0 then
                  (x\<lparr>chatpad_led_requested := ucast XINPUT_CHATPAD_ORANGE\<rparr>,
                   c1\<lparr>ctype := STEELBATTALION h\<rparr>)
                else (x, c1))
         in if ctype c2 = DUKE h then
              (case handle_duke h x2 (duke c2) u of
                 (x3, d3, u3) \<Rightarrow> (x3, c2\<lparr>duke := d3\<rparr>, u3, g))
            else if ctype c2 = STEELBATTALION h then
              (case handle_sbattalion h now dz x2 (sb c2) u g of
                 (x3, s3, u3, g3) \<Rightarrow> (x3, c2\<lparr>sb := s3\<rparr>, u3, g3))
            else (x2, c2, u, g)))"

text \<open>
  The second half, for the peers: the status byte and the in-report are sent; on an error
  code the loop goes on to the next slot; otherwise the out-report of the slot's type is
  requested and, when the full count arrived, copied byte by byte.
  \<open>tx_len\<close> and \<open>rx_len\<close> are \<open>uint8_t\<close>.
\<close>

definition slot_exchange ::
  "usbd_xid_h \<Rightarrow> i2c_bus \<Rightarrow> nat \<Rightarrow> usbd_controller_t
     \<Rightarrow> usbd_controller_t \<times> (nat \<times> uint8_t)" where
  "slot_exchange h bus i c =
     (let tx_len :: uint8_t =
            (if ctype c = DUKE h then of_nat (sizeof_usbd_duke_in_t h)
             else if ctype c = STEELBATTALION h then of_nat (sizeof_usbd_sbattalion_in_t h)
             else 0);
          rx_len :: uint8_t =
            (if ctype c = DUKE h then of_nat (sizeof_usbd_duke_out_t h)
             else if ctype c = STEELBATTALION h then of_nat (sizeof_usbd_sbattalion_out_t h)
             else 0);
          status = 0xF0 OR ctype c;
          written =
            (if tx_len = 0 then TxNone
             else if ctype c = DUKE h then TxDuke (duke_in (duke c))
             else if ctype c = STEELBATTALION h then TxSb (sb_in (sb c))
             else TxNone);
          i2c_error = endTransmission bus i status written
      in if i2c_error \<noteq> 0 then (c, (i, status))
         else if rx_len \<noteq> 0 \<and> ctype c = DUKE h then
           (let rx = requestFrom bus i (unat rx_len) in
            if length rx = unat rx_len
            then (c\<lparr>duke := (duke c)\<lparr>duke_out :=
                         fst (rx_copy 0 (unat rx_len) (duke_out (duke c)) rx)\<rparr>\<rparr>, (i, status))
            else (c, (i, status)))
         else if rx_len \<noteq> 0 \<and> ctype c = STEELBATTALION h then
           (let rx = requestFrom bus i (unat rx_len) in
            if length rx = unat rx_len
            then (c\<lparr>sb := (sb c)\<lparr>sb_out :=
                         fst (rx_copy 0 (unat rx_len) (sb_out (sb c)) rx)\<rparr>\<rparr>, (i, status))
            else (c, (i, status)))
         else (c, (i, status)))"

text \<open>The loop body for slot \<open>i\<close>; slot 0 is the coordinator's own and has no exchange.\<close>

definition master_slot ::
  "usbd_xid_h \<Rightarrow> i2c_bus \<Rightarrow> (nat \<Rightarrow> uint32_t) \<Rightarrow> int32_t \<Rightarrow> nat \<Rightarrow> master_state
     \<Rightarrow> master_state" where
  "master_slot h bus now dz i st =
     (case slot_map h (now i) dz (xinput_devices st i, usbd_c st i, user_data st i, globals st) of
        (x, c, u, g) \<Rightarrow>
          (let st1 = st\<lparr>xinput_devices := (xinput_devices st)(i := x),
                        usbd_c := (usbd_c st)(i := c),
                        user_data := (user_data st)(i := u),
                        globals := g\<rparr>
           in if i = 0 then st1
              else (case slot_exchange h bus i c of
                      (c', sent) \<Rightarrow>
                        st1\<lparr>usbd_c := (usbd_c st1)(i := c'),
                            Wire_transmissions := Wire_transmissions st1 @ [sent]\<rparr>)))"

text \<open>
  \<open>master_task\<close>, after the three calls into the host stack that open it: the device list
  in the state is the one those calls leave. \<open>now i\<close> is the value of \<open>millis()\<close> while
  slot \<open>i\<close> is mapped.
\<close>

definition master_task ::
  "usbd_xid_h \<Rightarrow> i2c_bus \<Rightarrow> (nat \<Rightarrow> uint32_t) \<Rightarrow> int32_t \<Rightarrow> master_state \<Rightarrow> master_state" where
  "master_task h bus now dz st = fold (master_slot h bus now dz) [0 ..< MAX_GAMEPADS] st"

text \<open>The coordinator after start-up, with no device attached and nothing sent yet.\<close>

definition master_state_init :: "usbd_xid_h \<Rightarrow> master_state" where
  "master_state_init h =
     \<lparr>xinput_devices = (\<lambda>_. usbh_xinput_zero),
      usbd_c = (\<lambda>_. usbd_controller_init h),
      user_data = (\<lambda>_. user_data_init h),
      globals = master_globals_init,
      Wire_transmissions = []\<rparr>"

chapter \<open>Properties\<close>

section \<open>Word facts\<close>

lemma ucast_and_high_mask:
  fixes w m :: uint16_t
  assumes "m AND 0x00FF = 0"
  shows "(ucast (w AND m) :: uint8_t) = 0"
proof (rule bit_eqI)
  fix n
  assume "possible_bit TYPE(uint8_t) n"
  then have n8: "n < 8" by (simp add: possible_bit_word)
  have low: "(0xFF :: uint16_t) = mask 8" by (simp add: mask_eq_exp_minus_1)
  have "\<not> bit (m AND mask 8) n" using assms unfolding low by simp
  then have "\<not> bit m n" using n8 by (simp add: bit_and_iff bit_mask_iff)
  then show "bit (ucast (w AND m) :: uint8_t) n = bit (0 :: uint8_t) n"
    by (simp add: bit_ucast_iff bit_and_iff)
qed

lemma ucast_byte_roundtrip:
  fixes code :: uint16_t
  assumes "code < 256"
  shows "(ucast (ucast code :: uint8_t) :: uint16_t) = code"
proof (rule bit_eqI)
  fix n
  have "code AND mask 8 = code" using assms by (intro less_mask_eq) simp
  then have "bit code n \<longrightarrow> n < 8" by (metis bit_and_iff bit_mask_iff)
  then show "bit (ucast (ucast code :: uint8_t) :: uint16_t) n = bit code n"
    by (auto simp: bit_ucast_iff)
qed

lemma ucast_byte_lt_256: "(ucast (b :: uint8_t) :: uint16_t) < 256"
proof -
  have "unat b < 256" using unsigned_less [of b, where 'a = nat] by simp
  then show ?thesis by (simp add: word_less_nat_alt unsigned_ucast_eq take_bit_eq_mod)
qed

section \<open>Chatpad edge detection\<close>

lemma is_chatpad_pressed_code:
  assumes "usbh_xinput_is_chatpad_pressed x code \<noteq> 0"
  shows "code \<noteq> 0 \<and> (ucast (ucast code :: uint8_t) :: uint16_t) = code"
proof -
  have nz: "code \<noteq> 0" using assms
    by (auto simp: usbh_xinput_is_chatpad_pressed_def split: if_splits)
  have "code < 17 \<or> (\<exists>b :: uint8_t. ucast b = code)" using assms
    by (auto simp: usbh_xinput_is_chatpad_pressed_def split: if_splits)
  then have "code < 256"
  proof
    assume "code < 17"
    then show ?thesis by (simp add: word_less_nat_alt)
  next
    assume "\<exists>b :: uint8_t. ucast b = code"
    then show ?thesis using ucast_byte_lt_256 by auto
  qed
  with nz show ?thesis by (simp add: ucast_byte_roundtrip)
qed

lemma claim_history_free:
  assumes "\<exists>i<3. old i = 0"
  shows "fst (claim_history [0, 1, 2] old code) = 1
       \<and> (\<exists>i<3. snd (claim_history [0, 1, 2] old code) i = ucast code)"
proof -
  from assms obtain i where "i < 3" "old i = 0" by blast
  then have "i = 0 \<or> i = 1 \<or> i = 2" by auto
  with \<open>old i = 0\<close> show ?thesis
    by (cases "old 0 = 0"; cases "old 1 = 0"; cases "old 2 = 0") auto
qed

lemma clear_history_cleared:
  assumes "code \<noteq> 0" "i < 3"
  shows "ucast (clear_history [0, 1, 2] old code i) \<noteq> code"
proof -
  from assms(2) have "i = 0 \<or> i = 1 \<or> i = 2" by auto
  then show ?thesis using assms(1) by auto
qed

lemma clear_history_frees:
  assumes "i < 3" "ucast (old i) = code"
  shows "\<exists>j<3. clear_history [0, 1, 2] old code j = 0"
proof -
  from assms(1) have "i = 0 \<or> i = 1 \<or> i = 2" by auto
  then show ?thesis using assms(2) by auto
qed

lemma was_chatpad_pressed_frame:
  "pad_state (snd (usbh_xinput_was_chatpad_pressed x c)) = pad_state x
   \<and> bAddress (snd (usbh_xinput_was_chatpad_pressed x c)) = bAddress x
   \<and> chatpad_state (snd (usbh_xinput_was_chatpad_pressed x c)) = chatpad_state x
   \<and> pad_state_wButtons_old (snd (usbh_xinput_was_chatpad_pressed x c)) = pad_state_wButtons_old x"
  by (simp add: usbh_xinput_was_chatpad_pressed_def split: prod.splits)

lemma is_chatpad_pressed_cong:
  "bAddress x' = bAddress x \<Longrightarrow> chatpad_state x' = chatpad_state x
   \<Longrightarrow> usbh_xinput_is_chatpad_pressed x' c = usbh_xinput_is_chatpad_pressed x c"
  by (simp add: usbh_xinput_is_chatpad_pressed_def)

lemma was_chatpad_pressed_up:
  assumes "usbh_xinput_is_chatpad_pressed x c = 0"
  shows "usbh_xinput_was_chatpad_pressed x c =
           (0, x\<lparr>chatpad_state_old := clear_history [0, 1, 2] (chatpad_state_old x) c\<rparr>)"
  using assms by (simp add: usbh_xinput_was_chatpad_pressed_def)

lemma was_chatpad_pressed_rising:
  assumes "usbh_xinput_is_chatpad_pressed x c \<noteq> 0"
    and "\<forall>i<3. ucast (chatpad_state_old x i) \<noteq> c"
    and "\<exists>i<3. chatpad_state_old x i = 0"
  shows "fst (usbh_xinput_was_chatpad_pressed x c) = 1"
proof -
  from assms(2) have "ucast (chatpad_state_old x 0) \<noteq> c" "ucast (chatpad_state_old x 1) \<noteq> c"
    "ucast (chatpad_state_old x 2) \<noteq> c" by auto
  then have "usbh_xinput_was_chatpad_pressed x c =
      (fst (claim_history [0, 1, 2] (chatpad_state_old x) c),
       x\<lparr>chatpad_state_old := snd (claim_history [0, 1, 2] (chatpad_state_old x) c)\<rparr>)"
    using assms(1)
    by (simp add: usbh_xinput_was_chatpad_pressed_def split: prod.splits del: claim_history.simps)
  then show ?thesis using claim_history_free [OF assms(3)] by simp
qed

lemma was_chatpad_pressed_no_edge:
  assumes "usbh_xinput_is_chatpad_pressed x c = 0 \<or> (\<exists>i<3. ucast (chatpad_state_old x i) = c)"
  shows "fst (usbh_xinput_was_chatpad_pressed x c) = 0"
proof (cases "usbh_xinput_is_chatpad_pressed x c = 0")
  case True
  then show ?thesis by (simp add: usbh_xinput_was_chatpad_pressed_def)
next
  case False
  with assms obtain i where "i < 3" "ucast (chatpad_state_old x i) = c" by blast
  then have "i = 0 \<or> i = 1 \<or> i = 2" by auto
  with \<open>ucast (chatpad_state_old x i) = c\<close>
  have c: "(ucast (chatpad_state_old x 0) \<noteq> c \<and> ucast (chatpad_state_old x 1) \<noteq> c
      \<and> ucast (chatpad_state_old x 2) \<noteq> c) = False" by auto
  show ?thesis unfolding usbh_xinput_was_chatpad_pressed_def c using False by simp
qed

lemma clear_history_other:
  assumes "i < 3"
  shows "clear_history [0, 1, 2] old c i = (if ucast (old i) = c then 0 else old i)"
proof -
  from assms have "i = 0 \<or> i = 1 \<or> i = 2" by auto
  then show ?thesis by auto
qed

text \<open>The three slots of the history, and what one call does to them.\<close>

lemma less_3_cases: "i < (3::nat) \<Longrightarrow> i = 0 \<or> i = 1 \<or> i = 2"
  by auto

lemma all_less_3: "(\<forall>i<(3::nat). P i) = (P 0 \<and> P 1 \<and> P 2)"
proof
  assume a: "\<forall>i<3. P i"
  have "(0::nat) < 3" "(1::nat) < 3" "(2::nat) < 3" by simp_all
  with a show "P 0 \<and> P 1 \<and> P 2" by blast
next
  assume a: "P 0 \<and> P 1 \<and> P 2"
  show "\<forall>i<3. P i"
  proof (intro allI impI)
    fix i :: nat assume "i < 3"
    from less_3_cases [OF this] a show "P i" by blast
  qed
qed

lemma ex_less_3: "(\<exists>i<(3::nat). P i) = (P 0 \<or> P 1 \<or> P 2)"
proof
  assume "\<exists>i<3. P i"
  then obtain i where i: "i < 3" "P i" by blast
  from less_3_cases [OF i(1)] i(2) show "P 0 \<or> P 1 \<or> P 2" by blast
next
  assume a: "P 0 \<or> P 1 \<or> P 2"
  have "(0::nat) < 3" "(1::nat) < 3" "(2::nat) < 3" by simp_all
  with a show "\<exists>i<3. P i" by blast
qed

lemma claim_history_3:
  "claim_history [0, 1, 2] old code =
     (if old 0 = 0 then (1, old(0 := ucast code))
      else if old 1 = 0 then (1, old(1 := ucast code))
      else if old 2 = 0 then (1, old(2 := ucast code))
      else (0, old))"
  by simp

lemma clear_history_3:
  "clear_history [0, 1, 2] old code =
     (\<lambda>i. if i < 3 \<and> ucast (old i) = code then 0 else old i)"
proof
  fix i :: nat
  show "clear_history [0, 1, 2] old code i = (if i < 3 \<and> ucast (old i) = code then 0 else old i)"
  proof (cases "i < 3")
    case True
    then show ?thesis using clear_history_other [OF True, of old code] by simp
  next
    case False
    then have "i \<noteq> 0" "i \<noteq> 1" "i \<noteq> 2" by simp_all
    then show ?thesis using False by simp
  qed
qed

lemma was_chatpad_pressed_held:
  assumes "usbh_xinput_is_chatpad_pressed x c \<noteq> 0"
    and "\<exists>i<3. ucast (chatpad_state_old x i) = c"
  shows "usbh_xinput_was_chatpad_pressed x c = (0, x)"
proof -
  from assms(2) have c: "(ucast (chatpad_state_old x 0) \<noteq> c \<and> ucast (chatpad_state_old x 1) \<noteq> c
      \<and> ucast (chatpad_state_old x 2) \<noteq> c) = False"
    by (simp add: ex_less_3)
  show ?thesis unfolding usbh_xinput_was_chatpad_pressed_def c using assms(1) by simp
qed

lemma was_chatpad_pressed_fresh:
  assumes "usbh_xinput_is_chatpad_pressed x c \<noteq> 0"
    and "\<forall>i<3. ucast (chatpad_state_old x i) \<noteq> c"
  shows "usbh_xinput_was_chatpad_pressed x c =
      (fst (claim_history [0, 1, 2] (chatpad_state_old x) c),
       x\<lparr>chatpad_state_old := snd (claim_history [0, 1, 2] (chatpad_state_old x) c)\<rparr>)"
proof -
  from assms(2) have "ucast (chatpad_state_old x 0) \<noteq> c" "ucast (chatpad_state_old x 1) \<noteq> c"
    "ucast (chatpad_state_old x 2) \<noteq> c" by (simp_all add: all_less_3)
  then show ?thesis using assms(1)
    by (simp add: usbh_xinput_was_chatpad_pressed_def split: prod.splits del: claim_history.simps)
qed

text \<open>
  A call for the code \<open>c\<close> changes nothing about another code \<open>k\<close>: a slot holds \<open>k\<close>
  after the call exactly when it held \<open>k\<close> before.
\<close>

lemma was_chatpad_pressed_history:
  assumes "k \<noteq> c" and "k \<noteq> 0" and "i < 3"
  shows "(ucast (chatpad_state_old (snd (usbh_xinput_was_chatpad_pressed x c)) i) = k)
       = (ucast (chatpad_state_old x i) = k)"
proof (cases "usbh_xinput_is_chatpad_pressed x c = 0")
  case True
  show ?thesis
    unfolding was_chatpad_pressed_up [OF True] clear_history_3 using assms by auto
next
  case down: False
  from is_chatpad_pressed_code [OF down]
  have c: "(ucast (ucast c :: uint8_t) :: uint16_t) = c" by simp
  show ?thesis
  proof (cases "\<exists>i<3. ucast (chatpad_state_old x i) = c")
    case True
    show ?thesis unfolding was_chatpad_pressed_held [OF down True] by simp
  next
    case False
    then have fresh: "\<forall>i<3. ucast (chatpad_state_old x i) \<noteq> c" by blast
    from assms(3) have "i = 0 \<or> i = 1 \<or> i = 2" by auto
    then show ?thesis
      unfolding was_chatpad_pressed_fresh [OF down fresh] claim_history_3
      using assms(1,2) c by auto
  qed
qed


lemma was_chatpad_pressed_full:
  assumes "\<forall>i<3. chatpad_state_old x i \<noteq> 0"
  shows "fst (usbh_xinput_was_chatpad_pressed x c) = 0"
proof (cases "usbh_xinput_is_chatpad_pressed x c \<noteq> 0 \<and> (\<forall>i<3. ucast (chatpad_state_old x i) \<noteq> c)")
  case True
  then have "usbh_xinput_was_chatpad_pressed x c =
      (fst (claim_history [0, 1, 2] (chatpad_state_old x) c),
       x\<lparr>chatpad_state_old := snd (claim_history [0, 1, 2] (chatpad_state_old x) c)\<rparr>)"
    by (intro was_chatpad_pressed_fresh) simp_all
  then show ?thesis using assms unfolding claim_history_3 by (simp add: all_less_3)
next
  case False
  then have "usbh_xinput_is_chatpad_pressed x c = 0 \<or> (\<exists>i<3. ucast (chatpad_state_old x i) = c)"
    by blast
  then show ?thesis by (rule was_chatpad_pressed_no_edge)
qed

text \<open>The same for any run of calls for codes other than \<open>k\<close>.\<close>

lemma was_chatpad_pressed_calls:
  assumes "k \<noteq> 0" and "k \<notin> set cs"
  shows "(\<forall>i<3. (ucast (chatpad_state_old
                   (fold (\<lambda>c s. snd (usbh_xinput_was_chatpad_pressed s c)) cs x) i) = k)
              = (ucast (chatpad_state_old x i) = k))
       \<and> usbh_xinput_is_chatpad_pressed
           (fold (\<lambda>c s. snd (usbh_xinput_was_chatpad_pressed s c)) cs x) k'
         = usbh_xinput_is_chatpad_pressed x k'"
  using assms(2)
proof (induction cs arbitrary: x)
  case Nil
  show ?case by simp
next
  case (Cons c cs)
  then have ne: "k \<noteq> c" and rest: "k \<notin> set cs" by auto
  let ?x' = "snd (usbh_xinput_was_chatpad_pressed x c)"
  have same: "usbh_xinput_is_chatpad_pressed ?x' k' = usbh_xinput_is_chatpad_pressed x k'"
    using was_chatpad_pressed_frame [of x c] by (intro is_chatpad_pressed_cong) simp_all
  have hist: "\<forall>i<3. (ucast (chatpad_state_old ?x' i) = k) = (ucast (chatpad_state_old x i) = k)"
    using was_chatpad_pressed_history [OF ne assms(1)] by blast
  have step: "fold (\<lambda>c s. snd (usbh_xinput_was_chatpad_pressed s c)) (c # cs) x
      = fold (\<lambda>c s. snd (usbh_xinput_was_chatpad_pressed s c)) cs ?x'"
    by simp
  show ?case unfolding step using Cons.IH [OF rest, of ?x'] same hist by simp
qed

text \<open>
  C5. For every key code and every device record, \<open>usbh_xinput_was_chatpad_pressed\<close>
  behaves as follows.
  \<^item> A key that is down, has no entry in the three-slot history and finds a free slot
    gives 1, and the call leaves an entry for it. With no slot free every call gives 0.
  \<^item> A key that is down and has an entry gives 0 and the record is left as it is; so
    does the same key after any run of calls for other codes, because such calls neither
    remove nor add an entry for it and do not change whether it is down. An entry
    therefore lasts for as long as the key is held, and every call in that time gives 0.
  \<^item> A call while the key is up gives 0 and frees every slot that held the code; the
    next call for the key, down again, gives 1.
\<close>

theorem chatpad_edge_once_per_press:
  "(usbh_xinput_is_chatpad_pressed x code \<noteq> 0
      \<and> (\<forall>i<3. ucast (chatpad_state_old x i) \<noteq> code) \<and> (\<exists>i<3. chatpad_state_old x i = 0)
     \<longrightarrow> fst (usbh_xinput_was_chatpad_pressed x code) = 1
       \<and> (\<exists>i<3. ucast (chatpad_state_old (snd (usbh_xinput_was_chatpad_pressed x code)) i) = code))
   \<and> ((\<forall>i<3. chatpad_state_old x i \<noteq> 0) \<longrightarrow> fst (usbh_xinput_was_chatpad_pressed x code) = 0)
   \<and> (usbh_xinput_is_chatpad_pressed x code \<noteq> 0 \<and> (\<exists>i<3. ucast (chatpad_state_old x i) = code)
     \<longrightarrow> usbh_xinput_was_chatpad_pressed x code = (0, x))
   \<and> (code \<noteq> 0 \<and> code \<notin> set cs
     \<longrightarrow> (\<forall>i<3. (ucast (chatpad_state_old
                       (fold (\<lambda>c s. snd (usbh_xinput_was_chatpad_pressed s c)) cs x) i) = code)
                  = (ucast (chatpad_state_old x i) = code))
       \<and> usbh_xinput_is_chatpad_pressed
             (fold (\<lambda>c s. snd (usbh_xinput_was_chatpad_pressed s c)) cs x) code
           = usbh_xinput_is_chatpad_pressed x code)
   \<and> (usbh_xinput_is_chatpad_pressed x code \<noteq> 0 \<and> (\<exists>i<3. ucast (chatpad_state_old x i) = code)
        \<and> code \<notin> set cs
     \<longrightarrow> usbh_xinput_was_chatpad_pressed
           (fold (\<lambda>c s. snd (usbh_xinput_was_chatpad_pressed s c)) cs x) code
         = (0, fold (\<lambda>c s. snd (usbh_xinput_was_chatpad_pressed s c)) cs x))
   \<and> (usbh_xinput_is_chatpad_pressed x code = 0
     \<longrightarrow> fst (usbh_xinput_was_chatpad_pressed x code) = 0
       \<and> (\<forall>i<3. chatpad_state_old (snd (usbh_xinput_was_chatpad_pressed x code)) i
                 = (if ucast (chatpad_state_old x i) = code then 0 else chatpad_state_old x i)))
   \<and> (usbh_xinput_is_chatpad_pressed x code = 0 \<and> (\<exists>i<3. ucast (chatpad_state_old x i) = code)
        \<and> chatpad_state_old z = chatpad_state_old (snd (usbh_xinput_was_chatpad_pressed x code))
        \<and> usbh_xinput_is_chatpad_pressed z code \<noteq> 0
     \<longrightarrow> fst (usbh_xinput_was_chatpad_pressed z code) = 1)"
proof -
  let ?calls = "fold (\<lambda>c s. snd (usbh_xinput_was_chatpad_pressed s c)) cs x"
  have first: "fst (usbh_xinput_was_chatpad_pressed x code) = 1
      \<and> (\<exists>i<3. ucast (chatpad_state_old (snd (usbh_xinput_was_chatpad_pressed x code)) i) = code)"
    if down: "usbh_xinput_is_chatpad_pressed x code \<noteq> 0"
      and fresh: "\<forall>i<3. ucast (chatpad_state_old x i) \<noteq> code"
      and free: "\<exists>i<3. chatpad_state_old x i = 0"
  proof -
    from is_chatpad_pressed_code [OF down]
    have c: "(ucast (ucast code :: uint8_t) :: uint16_t) = code" by simp
    note claim = claim_history_free [OF free, of code]
    then obtain i where "i < 3"
      "snd (claim_history [0, 1, 2] (chatpad_state_old x) code) i = ucast code" by blast
    then have "\<exists>i<3. ucast (snd (claim_history [0, 1, 2] (chatpad_state_old x) code) i) = code"
      using c by auto
    then show ?thesis using claim unfolding was_chatpad_pressed_fresh [OF down fresh] by simp
  qed
  have held: "usbh_xinput_was_chatpad_pressed x code = (0, x)"
    if "usbh_xinput_is_chatpad_pressed x code \<noteq> 0" "\<exists>i<3. ucast (chatpad_state_old x i) = code"
    using that by (rule was_chatpad_pressed_held)
  have full: "fst (usbh_xinput_was_chatpad_pressed x code) = 0"
    if "\<forall>i<3. chatpad_state_old x i \<noteq> 0"
    using that by (rule was_chatpad_pressed_full)
  have others: "(\<forall>i<3. (ucast (chatpad_state_old ?calls i) = code)
                  = (ucast (chatpad_state_old x i) = code))
       \<and> usbh_xinput_is_chatpad_pressed ?calls code = usbh_xinput_is_chatpad_pressed x code"
    if "code \<noteq> 0" "code \<notin> set cs"
    using that by (rule was_chatpad_pressed_calls)
  have later: "usbh_xinput_was_chatpad_pressed ?calls code = (0, ?calls)"
    if down: "usbh_xinput_is_chatpad_pressed x code \<noteq> 0"
      and entry: "\<exists>i<3. ucast (chatpad_state_old x i) = code"
      and cs: "code \<notin> set cs"
  proof -
    from is_chatpad_pressed_code [OF down] have nz: "code \<noteq> 0" by simp
    note o = others [OF nz cs]
    from o down have d: "usbh_xinput_is_chatpad_pressed ?calls code \<noteq> 0" by simp
    from o entry have e: "\<exists>i<3. ucast (chatpad_state_old ?calls i) = code" by blast
    from d e show ?thesis by (rule was_chatpad_pressed_held)
  qed
  have release: "fst (usbh_xinput_was_chatpad_pressed x code) = 0
       \<and> (\<forall>i<3. chatpad_state_old (snd (usbh_xinput_was_chatpad_pressed x code)) i
                 = (if ucast (chatpad_state_old x i) = code then 0 else chatpad_state_old x i))"
    if up: "usbh_xinput_is_chatpad_pressed x code = 0"
    unfolding was_chatpad_pressed_up [OF up] clear_history_3 by simp
  have again: "fst (usbh_xinput_was_chatpad_pressed z code) = 1"
    if up: "usbh_xinput_is_chatpad_pressed x code = 0"
      and entry: "\<exists>i<3. ucast (chatpad_state_old x i) = code"
      and z: "chatpad_state_old z = chatpad_state_old (snd (usbh_xinput_was_chatpad_pressed x code))"
      and down: "usbh_xinput_is_chatpad_pressed z code \<noteq> 0"
  proof -
    from is_chatpad_pressed_code [OF down] have nz: "code \<noteq> 0" by simp
    from release [OF up] z
    have old: "\<forall>i<3. chatpad_state_old z i
        = (if ucast (chatpad_state_old x i) = code then 0 else chatpad_state_old x i)" by simp
    have fresh: "\<forall>i<3. ucast (chatpad_state_old z i) \<noteq> code" using old nz by auto
    from entry obtain i where "i < 3" "ucast (chatpad_state_old x i) = code" by blast
    with old have "i < 3 \<and> chatpad_state_old z i = 0" by simp
    then have free: "\<exists>i<3. chatpad_state_old z i = 0" by blast
    from down fresh free show ?thesis by (rule was_chatpad_pressed_rising)
  qed
  from first full held others later release again show ?thesis by blast
qed

text \<open>
  The Q key (code 39) goes down on a connected pad with an empty history: the call gives
  1. While Q stays down, calls for A (up) and for the shift key (down, so it takes a slot
  of its own) come in between; the next call for Q gives 0 and changes nothing. Then Q is
  released: the call gives 0; and with Q down again the call gives 1.
\<close>

theorem chatpad_edge_once_per_press_witness:
  "usbh_xinput_is_chatpad_pressed
      (usbh_xinput_zero\<lparr>bAddress := 1, chatpad_state := (\<lambda>_. 0)(0 := 1, 1 := 39)\<rparr>)
      XINPUT_CHATPAD_Q \<noteq> 0
   \<and> fst (usbh_xinput_was_chatpad_pressed
         (usbh_xinput_zero\<lparr>bAddress := 1, chatpad_state := (\<lambda>_. 0)(0 := 1, 1 := 39)\<rparr>)
         XINPUT_CHATPAD_Q) = 1
   \<and> XINPUT_CHATPAD_Q \<notin> set [XINPUT_CHATPAD_A, XINPUT_CHATPAD_SHIFT]
   \<and> usbh_xinput_was_chatpad_pressed
        (fold (\<lambda>c s. snd (usbh_xinput_was_chatpad_pressed s c))
           [XINPUT_CHATPAD_A, XINPUT_CHATPAD_SHIFT]
           (snd (usbh_xinput_was_chatpad_pressed
              (usbh_xinput_zero\<lparr>bAddress := 1, chatpad_state := (\<lambda>_. 0)(0 := 1, 1 := 39)\<rparr>)
              XINPUT_CHATPAD_Q)))
        XINPUT_CHATPAD_Q
      = (0, fold (\<lambda>c s. snd (usbh_xinput_was_chatpad_pressed s c))
              [XINPUT_CHATPAD_A, XINPUT_CHATPAD_SHIFT]
              (snd (usbh_xinput_was_chatpad_pressed
                 (usbh_xinput_zero\<lparr>bAddress := 1, chatpad_state := (\<lambda>_. 0)(0 := 1, 1 := 39)\<rparr>)
                 XINPUT_CHATPAD_Q)))
   \<and> map (chatpad_state_old
        (fold (\<lambda>c s. snd (usbh_xinput_was_chatpad_pressed s c))
           [XINPUT_CHATPAD_A, XINPUT_CHATPAD_SHIFT]
           (snd (usbh_xinput_was_chatpad_pressed
              (usbh_xinput_zero\<lparr>bAddress := 1, chatpad_state := (\<lambda>_. 0)(0 := 1, 1 := 39)\<rparr>)
              XINPUT_CHATPAD_Q)))) [0, 1, 2] = [39, 1, 0]
   \<and> usbh_xinput_is_chatpad_pressed
        (usbh_xinput_zero\<lparr>bAddress := 1, chatpad_state := (\<lambda>_. 0)(0 := 1),
           chatpad_state_old := (\<lambda>_. 0)(0 := 39, 1 := 1)\<rparr>) XINPUT_CHATPAD_Q = 0
   \<and> fst (usbh_xinput_was_chatpad_pressed
        (usbh_xinput_zero\<lparr>bAddress := 1, chatpad_state := (\<lambda>_. 0)(0 := 1),
           chatpad_state_old := (\<lambda>_. 0)(0 := 39, 1 := 1)\<rparr>) XINPUT_CHATPAD_Q) = 0
   \<and> fst (usbh_xinput_was_chatpad_pressed
        ((snd (usbh_xinput_was_chatpad_pressed
            (usbh_xinput_zero\<lparr>bAddress := 1, chatpad_state := (\<lambda>_. 0)(0 := 1),
               chatpad_state_old := (\<lambda>_. 0)(0 := 39, 1 := 1)\<rparr>) XINPUT_CHATPAD_Q))
           \<lparr>chatpad_state := (\<lambda>_. 0)(0 := 1, 2 := 39)\<rparr>)
        XINPUT_CHATPAD_Q) = 1"
proof -
  let ?x = "usbh_xinput_zero\<lparr>bAddress := 1, chatpad_state := (\<lambda>_. 0)(0 := 1, 1 := 39)\<rparr>"
  let ?x1 = "snd (usbh_xinput_was_chatpad_pressed ?x XINPUT_CHATPAD_Q)"
  let ?cs = "[XINPUT_CHATPAD_A, XINPUT_CHATPAD_SHIFT]"
  let ?y = "usbh_xinput_zero\<lparr>bAddress := 1, chatpad_state := (\<lambda>_. 0)(0 := 1),
           chatpad_state_old := (\<lambda>_. 0)(0 := 39, 1 := 1)\<rparr>"
  let ?z = "(snd (usbh_xinput_was_chatpad_pressed ?y XINPUT_CHATPAD_Q))
              \<lparr>chatpad_state := (\<lambda>_. 0)(0 := 1, 2 := 39)\<rparr>"
  have down: "usbh_xinput_is_chatpad_pressed ?x XINPUT_CHATPAD_Q \<noteq> 0"
    by (simp add: usbh_xinput_is_chatpad_pressed_def usbh_xinput_zero_def XINPUT_CHATPAD_Q_def)
  have fresh: "\<forall>i<3. ucast (chatpad_state_old ?x i) \<noteq> XINPUT_CHATPAD_Q"
    by (simp add: usbh_xinput_zero_def XINPUT_CHATPAD_Q_def)
  have free: "\<exists>i<3. chatpad_state_old ?x i = 0"
    by (rule exI [of _ 0]) (simp add: usbh_xinput_zero_def)
  note t1 = chatpad_edge_once_per_press [of ?x XINPUT_CHATPAD_Q "[]" ?x]
  from t1 down fresh free
  have edge: "fst (usbh_xinput_was_chatpad_pressed ?x XINPUT_CHATPAD_Q) = 1"
    and entry: "\<exists>i<3. ucast (chatpad_state_old ?x1 i) = XINPUT_CHATPAD_Q"
    by blast+
  have down1: "usbh_xinput_is_chatpad_pressed ?x1 XINPUT_CHATPAD_Q \<noteq> 0"
    using down was_chatpad_pressed_frame [of ?x XINPUT_CHATPAD_Q]
      is_chatpad_pressed_cong [of ?x1 ?x XINPUT_CHATPAD_Q] by simp
  have cs: "XINPUT_CHATPAD_Q \<notin> set ?cs" by (simp add: XINPUT_CHATPAD_defs)
  note t2 = chatpad_edge_once_per_press [of ?x1 XINPUT_CHATPAD_Q ?cs ?x1]
  from t2 down1 entry cs
  have held: "usbh_xinput_was_chatpad_pressed
      (fold (\<lambda>c s. snd (usbh_xinput_was_chatpad_pressed s c)) ?cs ?x1) XINPUT_CHATPAD_Q
      = (0, fold (\<lambda>c s. snd (usbh_xinput_was_chatpad_pressed s c)) ?cs ?x1)"
    by blast
  have hist: "map (chatpad_state_old
      (fold (\<lambda>c s. snd (usbh_xinput_was_chatpad_pressed s c)) ?cs ?x1)) [0, 1, 2] = [39, 1, 0]"
    by code_simp
  have up: "usbh_xinput_is_chatpad_pressed ?y XINPUT_CHATPAD_Q = 0"
    by (simp add: usbh_xinput_is_chatpad_pressed_def usbh_xinput_zero_def XINPUT_CHATPAD_Q_def)
  have entry_y: "\<exists>i<3. ucast (chatpad_state_old ?y i) = XINPUT_CHATPAD_Q"
    by (rule exI [of _ 0]) (simp add: XINPUT_CHATPAD_Q_def)
  have old_z: "chatpad_state_old ?z
      = chatpad_state_old (snd (usbh_xinput_was_chatpad_pressed ?y XINPUT_CHATPAD_Q))" by simp
  have down_z: "usbh_xinput_is_chatpad_pressed ?z XINPUT_CHATPAD_Q \<noteq> 0"
    using was_chatpad_pressed_frame [of ?y XINPUT_CHATPAD_Q]
    by (simp add: usbh_xinput_is_chatpad_pressed_def XINPUT_CHATPAD_Q_def)
  note t3 = chatpad_edge_once_per_press [of ?y XINPUT_CHATPAD_Q "[]" ?z]
  from t3 up have rel: "fst (usbh_xinput_was_chatpad_pressed ?y XINPUT_CHATPAD_Q) = 0" by blast
  from t3 up entry_y old_z down_z
  have again: "fst (usbh_xinput_was_chatpad_pressed ?z XINPUT_CHATPAD_Q) = 1" by blast
  from down edge cs held hist up rel again show ?thesis by blast
qed

section \<open>Gamepad button queries\<close>

text \<open>
  C10. For a mask with no bit in the low byte, \<open>usbh_xinput_is_gamepad_pressed\<close> gives 0
  whatever buttons are held, since the conjunction is cut to the \<open>uint8_t\<close> result; so
  \<open>usbh_xinput_was_gamepad_pressed\<close> never reports an edge for such a mask.
\<close>

theorem gamepad_high_byte_mask_never_pressed:
  assumes "button_mask AND 0x00FF = 0" and "button_mask \<noteq> 0"
  shows "usbh_xinput_is_gamepad_pressed xinput button_mask = 0
       \<and> fst (usbh_xinput_was_gamepad_pressed xinput button_mask) = 0"
  using ucast_and_high_mask [OF assms(1)]
  by (simp add: usbh_xinput_is_gamepad_pressed_def usbh_xinput_was_gamepad_pressed_def)

text \<open>A connected pad with only the A button held, asked for \<open>XINPUT_GAMEPAD_A\<close>.\<close>

theorem gamepad_high_byte_mask_never_pressed_witness:
  "XINPUT_GAMEPAD_A AND 0x00FF = 0 \<and> XINPUT_GAMEPAD_A \<noteq> 0
   \<and> wButtons (pad_state (usbh_xinput_zero\<lparr>bAddress := 1,
        pad_state := pad_state usbh_xinput_zero\<lparr>wButtons := 0x1000\<rparr>\<rparr>)) AND XINPUT_GAMEPAD_A \<noteq> 0
   \<and> usbh_xinput_is_gamepad_pressed (usbh_xinput_zero\<lparr>bAddress := 1,
        pad_state := pad_state usbh_xinput_zero\<lparr>wButtons := 0x1000\<rparr>\<rparr>) XINPUT_GAMEPAD_A = 0
   \<and> fst (usbh_xinput_was_gamepad_pressed (usbh_xinput_zero\<lparr>bAddress := 1,
        pad_state := pad_state usbh_xinput_zero\<lparr>wButtons := 0x1000\<rparr>\<rparr>) XINPUT_GAMEPAD_A) = 0"
proof -
  have h1: "XINPUT_GAMEPAD_A AND 0x00FF = 0" by (simp add: XINPUT_GAMEPAD_A_def)
  have h2: "XINPUT_GAMEPAD_A \<noteq> 0" by (simp add: XINPUT_GAMEPAD_A_def)
  from gamepad_high_byte_mask_never_pressed [OF h1 h2] h1 h2 show ?thesis
    by (simp add: XINPUT_GAMEPAD_A_def)
qed

section \<open>Rumble and LED feedback state\<close>

text \<open>
  C3 (as amended). \<open>SetRumble\<close> copies the requested rumble values into the \<open>actual\<close>
  fields, and \<open>SetLed\<close> the requested LED quadrant into \<open>led_actual\<close>, before the packet
  is handed to the stack and whatever the stack answers: after either call the \<open>actual\<close>
  fields equal the \<open>requested\<close> fields the record had on entry, also when the transfer
  failed.
\<close>

theorem set_rumble_led_actual_is_requested:
  "lValue_actual (fst (snd (SetRumble outTransfer now xdata xpad lValue rValue)))
     = lValue_requested xpad
   \<and> rValue_actual (fst (snd (SetRumble outTransfer now xdata xpad lValue rValue)))
     = rValue_requested xpad
   \<and> led_actual (fst (snd (SetLed outTransfer now xdata xpad quadrant))) = led_requested xpad"
  by (cases "type xpad") (simp_all add: SetRumble_def SetLed_def Let_def)

text \<open>
  C3 as stated fails: a wired pad whose requested rumble is 0x80 while the motors are
  off, and whose transfer the stack answers with the error code 0x0D, has its \<open>actual\<close>
  fields changed by \<open>SetRumble\<close>; likewise \<open>led_actual\<close> by \<open>SetLed\<close>.
\<close>

theorem set_rumble_failed_write_counterexample:
  "fst (SetRumble (\<lambda>_ _. 0x0D) 1000 (\<lambda>_. 0)
         (usbh_xinput_zero\<lparr>bAddress := 1, usbh_outPipe := Some 2, type := XBOX360_WIRED,
            lValue_requested := 0x80, rValue_requested := 0x80, led_requested := 1\<rparr>)
         0x80 0x80) \<noteq> hrSUCCESS
   \<and> lValue_actual (fst (snd (SetRumble (\<lambda>_ _. 0x0D) 1000 (\<lambda>_. 0)
         (usbh_xinput_zero\<lparr>bAddress := 1, usbh_outPipe := Some 2, type := XBOX360_WIRED,
            lValue_requested := 0x80, rValue_requested := 0x80, led_requested := 1\<rparr>)
         0x80 0x80)))
      \<noteq> lValue_actual
         (usbh_xinput_zero\<lparr>bAddress := 1, usbh_outPipe := Some 2, type := XBOX360_WIRED,
            lValue_requested := 0x80, rValue_requested := 0x80, led_requested := 1\<rparr>)
   \<and> fst (SetLed (\<lambda>_ _. 0x0D) 1000 (\<lambda>_. 0)
         (usbh_xinput_zero\<lparr>bAddress := 1, usbh_outPipe := Some 2, type := XBOX360_WIRED,
            lValue_requested := 0x80, rValue_requested := 0x80, led_requested := 1\<rparr>)
         1) \<noteq> hrSUCCESS
   \<and> led_actual (fst (snd (SetLed (\<lambda>_ _. 0x0D) 1000 (\<lambda>_. 0)
         (usbh_xinput_zero\<lparr>bAddress := 1, usbh_outPipe := Some 2, type := XBOX360_WIRED,
            lValue_requested := 0x80, rValue_requested := 0x80, led_requested := 1\<rparr>)
         1)))
      \<noteq> led_actual
         (usbh_xinput_zero\<lparr>bAddress := 1, usbh_outPipe := Some 2, type := XBOX360_WIRED,
            lValue_requested := 0x80, rValue_requested := 0x80, led_requested := 1\<rparr>)"
  by (simp add: SetRumble_def SetLed_def Let_def usbh_xinput_zero_def hrSUCCESS_def)

section \<open>Staleness of the cached out-report\<close>

text \<open>
  C7. Let \<open>n\<close> be the capped length. When the endpoint does not deliver \<open>n\<close> bytes and
  more than 500 ms lie between \<open>xid_out_expired\<close> and now, the \<open>n\<close> bytes of the caller's
  buffer are zero; when it does not deliver and no more than 500 ms have passed, they are
  the cached report; in both cases cache and timer stay as they were. When the endpoint
  delivers \<open>n\<close> bytes they are stored in the cache and in the caller's buffer and the timer
  is set to now.
\<close>

theorem getReport_stale_cached_fresh:
  "(fst (USB_Recv (MIN_len len sizeof_xid_out_data)) \<noteq> int (MIN_len len sizeof_xid_out_data)
      \<and> now - xid_out_expired this > 500
    \<longrightarrow> (\<forall>i < MIN_len len sizeof_xid_out_data.
           snd (snd (getReport USB_Recv now this data len)) i = 0)
        \<and> fst (snd (getReport USB_Recv now this data len)) = this)
   \<and> (fst (USB_Recv (MIN_len len sizeof_xid_out_data)) \<noteq> int (MIN_len len sizeof_xid_out_data)
      \<and> \<not> now - xid_out_expired this > 500
    \<longrightarrow> (\<forall>i < MIN_len len sizeof_xid_out_data.
           snd (snd (getReport USB_Recv now this data len)) i = xid_out_data this i)
        \<and> fst (snd (getReport USB_Recv now this data len)) = this)
   \<and> (fst (USB_Recv (MIN_len len sizeof_xid_out_data)) = int (MIN_len len sizeof_xid_out_data)
    \<longrightarrow> (\<forall>i < MIN_len len sizeof_xid_out_data.
           snd (snd (getReport USB_Recv now this data len)) i
             = snd (USB_Recv (MIN_len len sizeof_xid_out_data)) i
           \<and> xid_out_data (fst (snd (getReport USB_Recv now this data len))) i
             = snd (USB_Recv (MIN_len len sizeof_xid_out_data)) i)
        \<and> xid_out_expired (fst (snd (getReport USB_Recv now this data len))) = now
        \<and> fst (getReport USB_Recv now this data len) = int (MIN_len len sizeof_xid_out_data))"
  by (cases "USB_Recv (MIN_len len sizeof_xid_out_data)")
     (simp add: getReport_def Let_def memcpy_def memset_def)

text \<open>
  A six-byte report is asked for; the cache holds 0x11 in every byte and was filled at
  time 1000; the caller's buffer holds 0x22. With nothing on the endpoint the buffer is
  zeroed at time 1501 and receives the cache at time 1499; a delivery of six bytes 0x33
  at time 1499 reaches buffer and cache and resets the timer.
\<close>

theorem getReport_stale_cached_fresh_witness:
  "(-1 :: int) \<noteq> int (MIN_len 6 sizeof_xid_out_data)
   \<and> (1501 :: uint32_t) - xid_out_expired \<lparr>xid_out_data = (\<lambda>_. 0x11), xid_out_expired = 1000\<rparr> > 500
   \<and> snd (snd (getReport (\<lambda>_. (-1, (\<lambda>_. 0))) 1501
            \<lparr>xid_out_data = (\<lambda>_. 0x11), xid_out_expired = 1000\<rparr> (\<lambda>_. 0x22) 6)) 5 = 0
   \<and> \<not> (1499 :: uint32_t) - xid_out_expired \<lparr>xid_out_data = (\<lambda>_. 0x11), xid_out_expired = 1000\<rparr> > 500
   \<and> snd (snd (getReport (\<lambda>_. (-1, (\<lambda>_. 0))) 1499
            \<lparr>xid_out_data = (\<lambda>_. 0x11), xid_out_expired = 1000\<rparr> (\<lambda>_. 0x22) 6)) 5 = 0x11
   \<and> (6 :: int) = int (MIN_len 6 sizeof_xid_out_data)
   \<and> snd (snd (getReport (\<lambda>_. (6, (\<lambda>_. 0x33))) 1499
            \<lparr>xid_out_data = (\<lambda>_. 0x11), xid_out_expired = 1000\<rparr> (\<lambda>_. 0x22) 6)) 5 = 0x33
   \<and> xid_out_data (fst (snd (getReport (\<lambda>_. (6, (\<lambda>_. 0x33))) 1499
            \<lparr>xid_out_data = (\<lambda>_. 0x11), xid_out_expired = 1000\<rparr> (\<lambda>_. 0x22) 6))) 5 = 0x33
   \<and> xid_out_expired (fst (snd (getReport (\<lambda>_. (6, (\<lambda>_. 0x33))) 1499
            \<lparr>xid_out_data = (\<lambda>_. 0x11), xid_out_expired = 1000\<rparr> (\<lambda>_. 0x22) 6))) = 1499"
proof -
  let ?c = "\<lparr>xid_out_data = (\<lambda>_. 0x11), xid_out_expired = 1000\<rparr>"
  let ?none = "\<lambda>_ :: nat. (-1 :: int, (\<lambda>_ :: nat. 0 :: uint8_t))"
  let ?six = "\<lambda>_ :: nat. (6 :: int, (\<lambda>_ :: nat. 0x33 :: uint8_t))"
  have n: "MIN_len 6 sizeof_xid_out_data = 6"
    by (simp add: MIN_len_def sizeof_xid_out_data_def)
  have a: "fst (?none (MIN_len 6 sizeof_xid_out_data)) \<noteq> int (MIN_len 6 sizeof_xid_out_data)"
    by (simp add: n)
  have b: "(1501 :: uint32_t) - xid_out_expired ?c > 500" by simp
  have c: "\<not> (1499 :: uint32_t) - xid_out_expired ?c > 500" by simp
  have d: "fst (?six (MIN_len 6 sizeof_xid_out_data)) = int (MIN_len 6 sizeof_xid_out_data)"
    by (simp add: n)
  have i5: "5 < MIN_len 6 sizeof_xid_out_data" by (simp add: n)
  note stale = getReport_stale_cached_fresh [of ?none 6 1501 ?c "\<lambda>_. 0x22"]
  note cached = getReport_stale_cached_fresh [of ?none 6 1499 ?c "\<lambda>_. 0x22"]
  note fresh = getReport_stale_cached_fresh [of ?six 6 1499 ?c "\<lambda>_. 0x22"]
  have s1: "snd (snd (getReport ?none 1501 ?c (\<lambda>_. 0x22) 6)) 5 = 0"
    using stale a b i5 by blast
  have s2: "snd (snd (getReport ?none 1499 ?c (\<lambda>_. 0x22) 6)) 5 = 0x11"
    using cached a c i5 by auto
  have s3: "snd (snd (getReport ?six 1499 ?c (\<lambda>_. 0x22) 6)) 5 = 0x33"
      "xid_out_data (fst (snd (getReport ?six 1499 ?c (\<lambda>_. 0x22) 6))) 5 = 0x33"
      "xid_out_expired (fst (snd (getReport ?six 1499 ?c (\<lambda>_. 0x22) 6))) = 1499"
    using fresh d i5 by auto
  from a b c d s1 s2 s3 show ?thesis by simp
qed

section \<open>The peer's receive handler\<close>

lemma rx_copy_buf:
  "fst (rx_copy i n buf bs) j =
     (if i \<le> j \<and> j < i + length bs \<and> j < n then bs ! (j - i) else buf j)"
proof (induction bs arbitrary: i buf)
  case Nil
  then show ?case by auto
next
  case (Cons b bs)
  show ?case
  proof (cases "i < n")
    case True
    then show ?thesis
      by (auto simp: Cons.IH nth_Cons' Suc_diff_le)
  next
    case False
    then show ?thesis by auto
  qed
qed

lemma status_tag_not_ping:
  fixes status :: uint8_t
  assumes "status AND 0xF0 = 0xF0"
  shows "status \<noteq> 0xAA"
proof
  assume "status = 0xAA"
  with assms show False by simp
qed

text \<open>
  C4 (as amended). A transaction of \<open>len\<close> bytes whose first byte carries the tag 0xF in
  its high nibble: when \<open>len\<close> is one more than the report size of the family in the low
  nibble, the slot's type becomes that family and the in-report of that family holds the
  payload. When \<open>len\<close> differs, both in-reports stay as they were, but the slot's type is
  set to the low nibble all the same. The bus buffer is drained in every case.
\<close>

theorem i2c_get_data_status_packet:
  assumes rx: "Wire_rx s = status # payload"
    and len: "len = int (length (Wire_rx s))"
    and tag: "status AND 0xF0 = 0xF0"
  shows
    "(status AND 0x0F = DUKE h \<and> peer_rxlen h (status AND 0x0F) \<noteq> 0
        \<and> len = int (unat (peer_rxlen h (status AND 0x0F))) + 1
      \<longrightarrow> peer_type (usbd_c0 (i2c_get_data h len s)) = DUKE h
          \<and> (\<forall>i < length payload.
                peer_duke_in (usbd_c0 (i2c_get_data h len s)) i = payload ! i))
     \<and> (status AND 0x0F = STEELBATTALION h \<and> STEELBATTALION h \<noteq> DUKE h
        \<and> peer_rxlen h (status AND 0x0F) \<noteq> 0
        \<and> len = int (unat (peer_rxlen h (status AND 0x0F))) + 1
      \<longrightarrow> peer_type (usbd_c0 (i2c_get_data h len s)) = STEELBATTALION h
          \<and> (\<forall>i < length payload.
                peer_sb_in (usbd_c0 (i2c_get_data h len s)) i = payload ! i))
     \<and> (len \<noteq> int (unat (peer_rxlen h (status AND 0x0F))) + 1
      \<longrightarrow> peer_type (usbd_c0 (i2c_get_data h len s)) = status AND 0x0F
          \<and> peer_duke_in (usbd_c0 (i2c_get_data h len s)) = peer_duke_in (usbd_c0 s)
          \<and> peer_sb_in (usbd_c0 (i2c_get_data h len s)) = peer_sb_in (usbd_c0 s))
     \<and> Wire_rx (i2c_get_data h len s) = []"
proof -
  let ?t = "status AND 0x0F"
  let ?n = "peer_rxlen h ?t"
  have l1: "\<not> len < 1" using rx len by simp
  have np: "status \<noteq> 0xAA" using tag by (rule status_tag_not_ping)
  have lp: "len = int (length payload) + 1" using rx len by simp
  have duke: "peer_type (usbd_c0 (i2c_get_data h len s)) = DUKE h
      \<and> (\<forall>i < length payload. peer_duke_in (usbd_c0 (i2c_get_data h len s)) i = payload ! i)"
    if "?t = DUKE h" "?n \<noteq> 0" "len = int (unat ?n) + 1"
  proof -
    have "int (length payload) = int (unat ?n)" using that(3) lp by linarith
    then have n: "length payload = unat ?n" by (simp only: of_nat_eq_iff)
    show ?thesis using that l1 np tag rx n
      by (simp add: i2c_get_data_def Wire_read_def flush_and_leave_def Let_def rx_copy_buf
          split: prod.splits)
        (metis fst_conv rx_copy_buf le0 add_0 diff_zero)
  qed
  have sb: "peer_type (usbd_c0 (i2c_get_data h len s)) = STEELBATTALION h
      \<and> (\<forall>i < length payload. peer_sb_in (usbd_c0 (i2c_get_data h len s)) i = payload ! i)"
    if "?t = STEELBATTALION h" "STEELBATTALION h \<noteq> DUKE h" "?n \<noteq> 0" "len = int (unat ?n) + 1"
  proof -
    have "int (length payload) = int (unat ?n)" using that(4) lp by linarith
    then have n: "length payload = unat ?n" by (simp only: of_nat_eq_iff)
    show ?thesis using that l1 np tag rx n
      by (simp add: i2c_get_data_def Wire_read_def flush_and_leave_def Let_def rx_copy_buf
          split: prod.splits)
        (metis fst_conv rx_copy_buf le0 add_0 diff_zero)
  qed
  have mismatch: "peer_type (usbd_c0 (i2c_get_data h len s)) = ?t
      \<and> peer_duke_in (usbd_c0 (i2c_get_data h len s)) = peer_duke_in (usbd_c0 s)
      \<and> peer_sb_in (usbd_c0 (i2c_get_data h len s)) = peer_sb_in (usbd_c0 s)"
    if "len \<noteq> int (unat ?n) + 1"
    using that l1 np tag rx
    by (simp add: i2c_get_data_def Wire_read_def flush_and_leave_def Let_def)
  have drained: "Wire_rx (i2c_get_data h len s) = []"
    using l1 np tag rx
    by (simp add: i2c_get_data_def Wire_read_def flush_and_leave_def Let_def split: prod.splits)
  from duke sb mismatch drained show ?thesis by blast
qed

text \<open>
  A standard-gamepad report of 20 bytes after the status byte 0xF1, and a transaction of
  four bytes with the status byte 0xF2, both received by a peer whose slot is a standard
  gamepad.
\<close>

theorem i2c_get_data_status_packet_witness:
  "Wire_rx (peer_node_idle\<lparr>Wire_rx :=
       [0xF1, 0, 20, 1, 2, 3, 4, 5, 6, 7, 8, 9, 10, 11, 12, 13, 14, 15, 16, 17, 18]\<rparr>)
     = 0xF1 # [0, 20, 1, 2, 3, 4, 5, 6, 7, 8, 9, 10, 11, 12, 13, 14, 15, 16, 17, 18]
   \<and> (0xF1 :: uint8_t) AND 0xF0 = 0xF0
   \<and> (0xF1 :: uint8_t) AND 0x0F = DUKE usbd_xid_h_example
   \<and> peer_rxlen usbd_xid_h_example (0xF1 AND 0x0F) \<noteq> 0
   \<and> (21 :: int) = int (unat (peer_rxlen usbd_xid_h_example (0xF1 AND 0x0F))) + 1
   \<and> peer_type (usbd_c0 (i2c_get_data usbd_xid_h_example 21 (peer_node_idle\<lparr>Wire_rx :=
       [0xF1, 0, 20, 1, 2, 3, 4, 5, 6, 7, 8, 9, 10, 11, 12, 13, 14, 15, 16, 17, 18]\<rparr>)))
     = DUKE usbd_xid_h_example
   \<and> peer_duke_in (usbd_c0 (i2c_get_data usbd_xid_h_example 21 (peer_node_idle\<lparr>Wire_rx :=
       [0xF1, 0, 20, 1, 2, 3, 4, 5, 6, 7, 8, 9, 10, 11, 12, 13, 14, 15, 16, 17, 18]\<rparr>))) 1 = 20
   \<and> peer_duke_in (usbd_c0 (i2c_get_data usbd_xid_h_example 21 (peer_node_idle\<lparr>Wire_rx :=
       [0xF1, 0, 20, 1, 2, 3, 4, 5, 6, 7, 8, 9, 10, 11, 12, 13, 14, 15, 16, 17, 18]\<rparr>))) 19 = 18
   \<and> (4 :: int) \<noteq> int (unat (peer_rxlen usbd_xid_h_example (0xF2 AND 0x0F))) + 1
   \<and> peer_type (usbd_c0 (i2c_get_data usbd_xid_h_example 4
         (peer_node_idle\<lparr>Wire_rx := [0xF2, 1, 2, 3]\<rparr>))) = 0xF2 AND 0x0F
   \<and> peer_sb_in (usbd_c0 (i2c_get_data usbd_xid_h_example 4
         (peer_node_idle\<lparr>Wire_rx := [0xF2, 1, 2, 3]\<rparr>))) = peer_sb_in (usbd_c0 peer_node_idle)"
proof -
  let ?P = "[0, 20, 1, 2, 3, 4, 5, 6, 7, 8, 9, 10, 11, 12, 13, 14, 15, 16, 17, 18] :: uint8_t list"
  let ?s = "peer_node_idle\<lparr>Wire_rx := 0xF1 # ?P\<rparr>"
  let ?s' = "peer_node_idle\<lparr>Wire_rx := [0xF2, 1, 2, 3]\<rparr>"
  let ?h = usbd_xid_h_example
  have rx: "Wire_rx ?s = 0xF1 # ?P" by simp
  have len: "(21 :: int) = int (length (Wire_rx ?s))" by simp
  have tag: "(0xF1 :: uint8_t) AND 0xF0 = 0xF0" by simp
  have t: "(0xF1 :: uint8_t) AND 0x0F = DUKE ?h" by (simp add: usbd_xid_h_example_def)
  have n0: "peer_rxlen ?h (0xF1 AND 0x0F) \<noteq> 0"
    by (simp add: peer_rxlen_def usbd_xid_h_example_def)
  have n: "(21 :: int) = int (unat (peer_rxlen ?h (0xF1 AND 0x0F))) + 1"
    by (simp add: peer_rxlen_def usbd_xid_h_example_def)
  note m = i2c_get_data_status_packet [OF rx len tag, of ?h]
  from m t n0 n have ty: "peer_type (usbd_c0 (i2c_get_data ?h 21 ?s)) = DUKE ?h"
    and all: "\<forall>i < length ?P. peer_duke_in (usbd_c0 (i2c_get_data ?h 21 ?s)) i = ?P ! i"
    by blast+
  from all have b1: "peer_duke_in (usbd_c0 (i2c_get_data ?h 21 ?s)) 1 = 20"
    and b19: "peer_duke_in (usbd_c0 (i2c_get_data ?h 21 ?s)) 19 = 18"
    by simp_all
  have rx': "Wire_rx ?s' = 0xF2 # [1, 2, 3]" by simp
  have len': "(4 :: int) = int (length (Wire_rx ?s'))" by simp
  have tag': "(0xF2 :: uint8_t) AND 0xF0 = 0xF0" by simp
  have n': "(4 :: int) \<noteq> int (unat (peer_rxlen ?h (0xF2 AND 0x0F))) + 1"
    by (simp add: peer_rxlen_def usbd_xid_h_example_def)
  note m' = i2c_get_data_status_packet [OF rx' len' tag', of ?h]
  from m' n' have mis: "peer_type (usbd_c0 (i2c_get_data ?h 4 ?s')) = 0xF2 AND 0x0F"
      "peer_sb_in (usbd_c0 (i2c_get_data ?h 4 ?s')) = peer_sb_in (usbd_c0 ?s')"
    by blast+
  from rx tag t n0 n ty b1 b19 n' mis show ?thesis by simp
qed

text \<open>
  C4 as stated fails in its last part: the peer above, emulating the standard gamepad
  (type 1), receives four bytes that start with 0xF2. Four is not the length of a
  cockpit report plus one, the payload is dropped, and yet the slot's type is now 2.
\<close>

theorem i2c_get_data_mismatch_counterexample:
  "(4 :: int) \<noteq> int (unat (peer_rxlen usbd_xid_h_example (0xF2 AND 0x0F))) + 1
   \<and> peer_duke_in (usbd_c0 (i2c_get_data usbd_xid_h_example 4
         (peer_node_idle\<lparr>Wire_rx := [0xF2, 1, 2, 3]\<rparr>))) = peer_duke_in (usbd_c0 peer_node_idle)
   \<and> peer_sb_in (usbd_c0 (i2c_get_data usbd_xid_h_example 4
         (peer_node_idle\<lparr>Wire_rx := [0xF2, 1, 2, 3]\<rparr>))) = peer_sb_in (usbd_c0 peer_node_idle)
   \<and> peer_type (usbd_c0 peer_node_idle) = 1
   \<and> peer_type (usbd_c0 (i2c_get_data usbd_xid_h_example 4
         (peer_node_idle\<lparr>Wire_rx := [0xF2, 1, 2, 3]\<rparr>))) = 2
   \<and> peer_type (usbd_c0 (i2c_get_data usbd_xid_h_example 4
         (peer_node_idle\<lparr>Wire_rx := [0xF2, 1, 2, 3]\<rparr>))) \<noteq> peer_type (usbd_c0 peer_node_idle)"
  by (simp add: i2c_get_data_def Wire_read_def flush_and_leave_def Let_def peer_rxlen_def
      usbd_xid_h_example_def peer_node_idle_def)

section \<open>The wire decoder and short packets\<close>

text \<open>
  C2 does not hold of the code. The decoder's length guards compare \<open>sizeof(xdata)\<close>, the
  256 of the static buffer, and so never fire; the number of bytes received is not passed
  to \<open>ParseInputData\<close>. Below, each family's pad receives a packet one byte shorter than
  the family's guard over a buffer that still holds 0xFF from earlier traffic: the decoder
  answers \<open>true\<close> and overwrites the pad state, the last stick axis being assembled from a
  stale byte.
\<close>

theorem short_packet_is_decoded:
  "length [0x00, 0x14, 0x01, 0x00, 0, 0, 0, 0, 0, 0, 0, 0, 0 :: uint8_t] = 13
   \<and> fst (Poll_in_endpoint (\<lambda>_ _. 0) 0 (driver_example XBOX360_WIRED)
          (pad_pool_example XBOX360_WIRED) (\<lambda>_. 0xFF) (Some 0) 1 32
          (hrSUCCESS, [0x00, 0x14, 0x01, 0x00, 0, 0, 0, 0, 0, 0, 0, 0, 0]))
   \<and> pad_state (fst (snd (Poll_in_endpoint (\<lambda>_ _. 0) 0 (driver_example XBOX360_WIRED)
          (pad_pool_example XBOX360_WIRED) (\<lambda>_. 0xFF) (Some 0) 1 32
          (hrSUCCESS, [0x00, 0x14, 0x01, 0x00, 0, 0, 0, 0, 0, 0, 0, 0, 0]))) 0)
       = \<lparr>wButtons = XINPUT_GAMEPAD_DPAD_UP, bLeftTrigger = 0, bRightTrigger = 0,
          sThumbLX = 0, sThumbLY = 0, sThumbRX = 0, sThumbRY = 0xFF00\<rparr>
   \<and> length [0x20, 0, 0, 0, 0x00, 0x01, 0, 0, 0, 0, 0, 0, 0, 0, 0, 0, 0 :: uint8_t] = 17
   \<and> fst (Poll_in_endpoint (\<lambda>_ _. 0) 0 (driver_example XBOXONE)
          (pad_pool_example XBOXONE) (\<lambda>_. 0xFF) (Some 0) 1 32
          (hrSUCCESS, [0x20, 0, 0, 0, 0x00, 0x01, 0, 0, 0, 0, 0, 0, 0, 0, 0, 0, 0]))
   \<and> pad_state (fst (snd (Poll_in_endpoint (\<lambda>_ _. 0) 0 (driver_example XBOXONE)
          (pad_pool_example XBOXONE) (\<lambda>_. 0xFF) (Some 0) 1 32
          (hrSUCCESS, [0x20, 0, 0, 0, 0x00, 0x01, 0, 0, 0, 0, 0, 0, 0, 0, 0, 0, 0]))) 0)
       = \<lparr>wButtons = XINPUT_GAMEPAD_DPAD_UP, bLeftTrigger = 0, bRightTrigger = 0,
          sThumbLX = 0, sThumbLY = 0, sThumbRX = 0, sThumbRY = 0xFF00\<rparr>
   \<and> length [0x00, 0x14, 0x01, 0x00, 0, 0, 0, 0, 0, 0, 0, 0, 0, 0, 0, 0, 0, 0, 0 :: uint8_t] = 19
   \<and> fst (Poll_in_endpoint (\<lambda>_ _. 0) 0 (driver_example XBOXOG)
          (pad_pool_example XBOXOG) (\<lambda>_. 0xFF) (Some 0) 1 32
          (hrSUCCESS, [0x00, 0x14, 0x01, 0x00, 0, 0, 0, 0, 0, 0, 0, 0, 0, 0, 0, 0, 0, 0, 0]))
   \<and> pad_state (fst (snd (Poll_in_endpoint (\<lambda>_ _. 0) 0 (driver_example XBOXOG)
          (pad_pool_example XBOXOG) (\<lambda>_. 0xFF) (Some 0) 1 32
          (hrSUCCESS, [0x00, 0x14, 0x01, 0x00, 0, 0, 0, 0, 0, 0, 0, 0, 0, 0, 0, 0, 0, 0, 0]))) 0)
       = \<lparr>wButtons = XINPUT_GAMEPAD_DPAD_UP, bLeftTrigger = 0, bRightTrigger = 0,
          sThumbLX = 0, sThumbLY = 0, sThumbRX = 0, sThumbRY = 0xFF00\<rparr>
   \<and> length [0x00, 0x01, 0, 0, 0, 0x13, 0x01, 0x00, 0, 0, 0, 0, 0, 0, 0, 0, 0 :: uint8_t] = 17
   \<and> fst (Poll_in_endpoint (\<lambda>_ _. 0) 0 (driver_example XBOX360_WIRELESS)
          (pad_pool_example XBOX360_WIRELESS) (\<lambda>_. 0xFF) (Some 0) 1 32
          (hrSUCCESS, [0x00, 0x01, 0, 0, 0, 0x13, 0x01, 0x00, 0, 0, 0, 0, 0, 0, 0, 0, 0]))
   \<and> pad_state (fst (snd (Poll_in_endpoint (\<lambda>_ _. 0) 0 (driver_example XBOX360_WIRELESS)
          (pad_pool_example XBOX360_WIRELESS) (\<lambda>_. 0xFF) (Some 0) 1 32
          (hrSUCCESS, [0x00, 0x01, 0, 0, 0, 0x13, 0x01, 0x00, 0, 0, 0, 0, 0, 0, 0, 0, 0]))) 0)
       = \<lparr>wButtons = XINPUT_GAMEPAD_DPAD_UP, bLeftTrigger = 0, bRightTrigger = 0,
          sThumbLX = 0, sThumbLY = 0, sThumbRX = 0, sThumbRY = 0xFF00\<rparr>"
  by (simp add: Poll_in_endpoint_def ParseInputData_def parse_xbox360_wired_def
      parse_xboxone_def parse_xboxog_def parse_xbox360_wireless_def
      parse_xbox360_wireless_report_def pad_pool_example_def driver_example_def
      usbh_xinput_zero_def memcpy_P_def EP_MAXPKTSIZE_def sizeof_xdata_def hrSUCCESS_def
      le16_def xbox360_wired_buttons_def xboxone_buttons_def xboxog_buttons_def
      xbox360_wireless_buttons_def xboxog_analog_buttons_def XINPUT_GAMEPAD_defs Let_def)

section \<open>What the edge detectors leave untouched\<close>

lemma was_gamepad_pressed_frame:
  "pad_state (snd (usbh_xinput_was_gamepad_pressed x m)) = pad_state x
   \<and> bAddress (snd (usbh_xinput_was_gamepad_pressed x m)) = bAddress x
   \<and> chatpad_state (snd (usbh_xinput_was_gamepad_pressed x m)) = chatpad_state x
   \<and> chatpad_state_old (snd (usbh_xinput_was_gamepad_pressed x m)) = chatpad_state_old x"
  by (simp add: usbh_xinput_was_gamepad_pressed_def)

lemma was_gamepad_pressed_or_frame:
  "pad_state (snd (was_gamepad_pressed_or x m1 m2)) = pad_state x
   \<and> bAddress (snd (was_gamepad_pressed_or x m1 m2)) = bAddress x
   \<and> chatpad_state (snd (was_gamepad_pressed_or x m1 m2)) = chatpad_state x
   \<and> chatpad_state_old (snd (was_gamepad_pressed_or x m1 m2)) = chatpad_state_old x"
proof -
  obtain r1 x1 where a: "usbh_xinput_was_gamepad_pressed x m1 = (r1, x1)" by (cases "usbh_xinput_was_gamepad_pressed x m1")
  obtain r2 x2 where b: "usbh_xinput_was_gamepad_pressed x1 m2 = (r2, x2)" by (cases "usbh_xinput_was_gamepad_pressed x1 m2")
  from was_gamepad_pressed_frame [of x m1] a
  have f1: "pad_state x1 = pad_state x" "bAddress x1 = bAddress x"
    "chatpad_state x1 = chatpad_state x" "chatpad_state_old x1 = chatpad_state_old x" by simp_all
  from was_gamepad_pressed_frame [of x1 m2] b
  have f2: "pad_state x2 = pad_state x1" "bAddress x2 = bAddress x1"
    "chatpad_state x2 = chatpad_state x1" "chatpad_state_old x2 = chatpad_state_old x1" by simp_all
  show ?thesis using f1 f2 by (simp add: was_gamepad_pressed_or_def a b)
qed

lemma apply_toggle_map_frame:
  "pad_state (fst (apply_toggle_map tbl x wb)) = pad_state x
   \<and> bAddress (fst (apply_toggle_map tbl x wb)) = bAddress x
   \<and> chatpad_state (fst (apply_toggle_map tbl x wb)) = chatpad_state x
   \<and> pad_state_wButtons_old (fst (apply_toggle_map tbl x wb)) = pad_state_wButtons_old x"
proof (induction tbl arbitrary: x wb)
  case Nil
  show ?case by simp
next
  case (Cons e tbl)
  obtain m d off where e: "e = (m, d, off)" by (cases e)
  obtain r x' where w: "usbh_xinput_was_chatpad_pressed x m = (r, x')"
    by (cases "usbh_xinput_was_chatpad_pressed x m")
  from was_chatpad_pressed_frame [of x m] w
  have f: "pad_state x' = pad_state x" "bAddress x' = bAddress x"
    "chatpad_state x' = chatpad_state x" "pad_state_wButtons_old x' = pad_state_wButtons_old x"
    by simp_all
  show ?case using Cons.IH [of x'] f by (simp add: e w)
qed

lemma sb_tables_frame:
  "pad_state (fst (sb_tables h out x in0)) = pad_state x
   \<and> bAddress (fst (sb_tables h out x in0)) = bAddress x
   \<and> chatpad_state (fst (sb_tables h out x in0)) = chatpad_state x"
  using apply_toggle_map_frame [of "sb_chatpad_toggle_map h" x]
  by (simp add: sb_tables_def Let_def split: prod.splits) (metis fst_conv)

lemma sb_tuner_dial_frame:
  "pad_state (fst (sb_tuner_dial h x in0)) = pad_state x
   \<and> bAddress (fst (sb_tuner_dial h x in0)) = bAddress x
   \<and> chatpad_state (fst (sb_tuner_dial h x in0)) = chatpad_state x"
proof -
  obtain up xa where a:
    "was_gamepad_pressed_or x XINPUT_GAMEPAD_DPAD_UP XINPUT_GAMEPAD_DPAD_RIGHT = (up, xa)"
    by (cases "was_gamepad_pressed_or x XINPUT_GAMEPAD_DPAD_UP XINPUT_GAMEPAD_DPAD_RIGHT")
  obtain down xb where b:
    "was_gamepad_pressed_or xa XINPUT_GAMEPAD_DPAD_DOWN XINPUT_GAMEPAD_DPAD_LEFT = (down, xb)"
    by (cases "was_gamepad_pressed_or xa XINPUT_GAMEPAD_DPAD_DOWN XINPUT_GAMEPAD_DPAD_LEFT")
  from was_gamepad_pressed_or_frame [of x XINPUT_GAMEPAD_DPAD_UP XINPUT_GAMEPAD_DPAD_RIGHT] a
  have f1: "pad_state xa = pad_state x" "bAddress xa = bAddress x"
    "chatpad_state xa = chatpad_state x" by simp_all
  from was_gamepad_pressed_or_frame [of xa XINPUT_GAMEPAD_DPAD_DOWN XINPUT_GAMEPAD_DPAD_LEFT] b
  have f2: "pad_state xb = pad_state xa" "bAddress xb = bAddress xa"
    "chatpad_state xb = chatpad_state xa" by simp_all
  show ?thesis using f1 f2 by (simp add: sb_tuner_dial_def Let_def a b)
qed

lemma sb_gear_lever_frame:
  "pad_state (fst (sb_gear_lever h x in0)) = pad_state x
   \<and> bAddress (fst (sb_gear_lever h x in0)) = bAddress x
   \<and> chatpad_state (fst (sb_gear_lever h x in0)) = chatpad_state x"
proof -
  obtain up xa where a: "usbh_xinput_was_gamepad_pressed x XINPUT_GAMEPAD_DPAD_UP = (up, xa)"
    by (cases "usbh_xinput_was_gamepad_pressed x XINPUT_GAMEPAD_DPAD_UP")
  obtain down xb where b: "usbh_xinput_was_gamepad_pressed xa XINPUT_GAMEPAD_DPAD_DOWN = (down, xb)"
    by (cases "usbh_xinput_was_gamepad_pressed xa XINPUT_GAMEPAD_DPAD_DOWN")
  from was_gamepad_pressed_frame [of x XINPUT_GAMEPAD_DPAD_UP] a
  have f1: "pad_state xa = pad_state x" "bAddress xa = bAddress x"
    "chatpad_state xa = chatpad_state x" by simp_all
  from was_gamepad_pressed_frame [of xa XINPUT_GAMEPAD_DPAD_DOWN] b
  have f2: "pad_state xb = pad_state xa" "bAddress xb = bAddress xa"
    "chatpad_state xb = chatpad_state xa" by simp_all
  show ?thesis using f1 f2 by (simp add: sb_gear_lever_def Let_def a b)
qed

lemma sb_shift_frame:
  "pad_state (fst (sb_shift x in0)) = pad_state x
   \<and> bAddress (fst (sb_shift x in0)) = bAddress x
   \<and> chatpad_state (fst (sb_shift x in0)) = chatpad_state x"
  using was_chatpad_pressed_frame [of x XINPUT_CHATPAD_SHIFT]
  by (simp add: sb_shift_def split: prod.splits) (metis snd_conv)

lemma sb_buttons_frame:
  "pad_state (fst (sb_buttons h out x in0)) = pad_state x
   \<and> bAddress (fst (sb_buttons h out x in0)) = bAddress x
   \<and> chatpad_state (fst (sb_buttons h out x in0)) = chatpad_state x"
proof -
  obtain x3 in6 where t: "sb_tables h out x in0 = (x3, in6)" by (cases "sb_tables h out x in0")
  from sb_tables_frame [of h out x in0] t
  have f3: "pad_state x3 = pad_state x" "bAddress x3 = bAddress x"
    "chatpad_state x3 = chatpad_state x" by simp_all
  let ?mid = "if usbh_xinput_is_chatpad_pressed x3 XINPUT_CHATPAD_MESSENGER \<noteq> 0
                \<or> wButtons (pad_state x3) AND XINPUT_GAMEPAD_BACK \<noteq> 0
             then sb_tuner_dial h x3 in6
             else if usbh_xinput_is_chatpad_pressed x3 XINPUT_CHATPAD_ORANGE = 0
             then sb_gear_lever h x3 in6
             else (x3, in6)"
  obtain x7 in7 where m: "?mid = (x7, in7)" by (cases ?mid)
  have f7: "pad_state x7 = pad_state x3 \<and> bAddress x7 = bAddress x3
      \<and> chatpad_state x7 = chatpad_state x3"
    using m sb_tuner_dial_frame [of h x3 in6] sb_gear_lever_frame [of h x3 in6]
    by (auto split: if_splits)
  have "sb_buttons h out x in0 = sb_shift x7 in7"
    unfolding sb_buttons_def t Let_def prod.case m ..
  then show ?thesis using sb_shift_frame [of x7 in7] f7 f3 by simp
qed

section \<open>The cockpit report: ignition guard\<close>

lemma sb_ignition_hack_guard:
  "sb_wButtons (sb_ignition_hack h in0) 0 AND SBC h SBC_W0_IGNITION \<noteq> 0
   \<longrightarrow> aimingX (sb_ignition_hack h in0) = 0 \<and> aimingY (sb_ignition_hack h in0) = 0
     \<and> sb_wButtons (sb_ignition_hack h in0) 0 AND SBC h SBC_W0_COCKPITHATCH = 0"
proof (cases "sb_wButtons in0 0 AND SBC h SBC_W0_IGNITION \<noteq> 0")
  case True
  have "(w AND NOT m) AND m = 0" for w m :: uint16_t
    by (rule bit_eqI) (simp add: bit_and_iff bit_not_iff)
  with True show ?thesis by (simp add: sb_ignition_hack_def)
next
  case False
  then show ?thesis by (simp add: sb_ignition_hack_def)
qed

lemma handle_sbattalion_in:
  "sb_in (fst (snd (handle_sbattalion h now dz x sbt u g))) =
     sb_ignition_hack h
       (fst (sb_axes h now dz (sb_sensitivity g)
              (fst (sb_buttons h (sb_out sbt) x (sb_in sbt)))
              (snd (sb_buttons h (sb_out sbt) x (sb_in sbt))) u))"
  by (simp add: handle_sbattalion_def Let_def split: prod.splits)

lemma handle_sbattalion_user_data:
  "fst (snd (snd (handle_sbattalion h now dz x sbt u g))) =
     snd (sb_axes h now dz (sb_sensitivity g)
            (fst (sb_buttons h (sb_out sbt) x (sb_in sbt)))
            (snd (sb_buttons h (sb_out sbt) x (sb_in sbt))) u)"
  by (simp add: handle_sbattalion_def Let_def split: prod.splits)

text \<open>
  C1. In the in-report that \<open>handle_sbattalion\<close> leaves, whenever the ignition bit of
  word 0 is set, both aiming outputs are zero and the cockpit-hatch bit of word 0 is
  clear: for every device record, report pair, mapping context, calibration value, time
  and header constants.
\<close>

theorem ignition_forces_aiming_zero_hatch_clear:
  "sb_wButtons (sb_in (fst (snd (handle_sbattalion h now dz x sbt u g)))) 0
      AND SBC h SBC_W0_IGNITION \<noteq> 0
   \<longrightarrow> aimingX (sb_in (fst (snd (handle_sbattalion h now dz x sbt u g)))) = 0
     \<and> aimingY (sb_in (fst (snd (handle_sbattalion h now dz x sbt u g)))) = 0
     \<and> sb_wButtons (sb_in (fst (snd (handle_sbattalion h now dz x sbt u g)))) 0
          AND SBC h SBC_W0_COCKPITHATCH = 0"
  unfolding handle_sbattalion_in by (rule sb_ignition_hack_guard)

text \<open>
  A connected pad whose chatpad reports the comma key (ignition) and the P key (cockpit
  hatch) down at once, mapped into a slot fresh from start-up at time 1000.
\<close>

theorem ignition_forces_aiming_zero_hatch_clear_witness:
  "sb_wButtons (sb_in (fst (snd (handle_sbattalion usbd_xid_h_example 1000 0
       (usbh_xinput_zero\<lparr>bAddress := 1, chatpad_state := (\<lambda>_. 0)(1 := 98, 2 := 100)\<rparr>)
       (sb (usbd_controller_init usbd_xid_h_example))
       (user_data_init usbd_xid_h_example) master_globals_init)))) 0
      AND SBC usbd_xid_h_example SBC_W0_IGNITION \<noteq> 0
   \<and> vmouse_x (fst (snd (snd (handle_sbattalion usbd_xid_h_example 1000 0
       (usbh_xinput_zero\<lparr>bAddress := 1, chatpad_state := (\<lambda>_. 0)(1 := 98, 2 := 100)\<rparr>)
       (sb (usbd_controller_init usbd_xid_h_example))
       (user_data_init usbd_xid_h_example) master_globals_init)))) = 32768
   \<and> aimingX (sb_in (fst (snd (handle_sbattalion usbd_xid_h_example 1000 0
       (usbh_xinput_zero\<lparr>bAddress := 1, chatpad_state := (\<lambda>_. 0)(1 := 98, 2 := 100)\<rparr>)
       (sb (usbd_controller_init usbd_xid_h_example))
       (user_data_init usbd_xid_h_example) master_globals_init)))) = 0
   \<and> aimingY (sb_in (fst (snd (handle_sbattalion usbd_xid_h_example 1000 0
       (usbh_xinput_zero\<lparr>bAddress := 1, chatpad_state := (\<lambda>_. 0)(1 := 98, 2 := 100)\<rparr>)
       (sb (usbd_controller_init usbd_xid_h_example))
       (user_data_init usbd_xid_h_example) master_globals_init)))) = 0
   \<and> sb_wButtons (sb_in (fst (snd (handle_sbattalion usbd_xid_h_example 1000 0
       (usbh_xinput_zero\<lparr>bAddress := 1, chatpad_state := (\<lambda>_. 0)(1 := 98, 2 := 100)\<rparr>)
       (sb (usbd_controller_init usbd_xid_h_example))
       (user_data_init usbd_xid_h_example) master_globals_init)))) 0
      AND SBC usbd_xid_h_example SBC_W0_COCKPITHATCH = 0"
proof -
  let ?r = "handle_sbattalion usbd_xid_h_example 1000 0
       (usbh_xinput_zero\<lparr>bAddress := 1, chatpad_state := (\<lambda>_. 0)(1 := 98, 2 := 100)\<rparr>)
       (sb (usbd_controller_init usbd_xid_h_example))
       (user_data_init usbd_xid_h_example) master_globals_init"
  have b: "sb_buttons usbd_xid_h_example (sb_out (sb (usbd_controller_init usbd_xid_h_example)))
       (usbh_xinput_zero\<lparr>bAddress := 1, chatpad_state := (\<lambda>_. 0)(1 := 98, 2 := 100)\<rparr>)
       (sb_in (sb (usbd_controller_init usbd_xid_h_example)))
     = (usbh_xinput_zero\<lparr>bAddress := 1, chatpad_state := (\<lambda>_. 0)(1 := 98, 2 := 100)\<rparr>,
        (sb_in (sb (usbd_controller_init usbd_xid_h_example)))\<lparr>sb_wButtons := (\<lambda>_. 0)(0 := 0x30)\<rparr>)"
    by (simp add: sb_buttons_def sb_tables_def sb_tuner_dial_def sb_gear_lever_def sb_shift_def
        sb_pad_map_def sb_chatpad_map_def sb_chatpad_toggle_map_def sb_chatpad_alt1_map_def
        sb_chatpad_alt2_map_def usbh_xinput_is_chatpad_pressed_def
        usbh_xinput_was_chatpad_pressed_def usbh_xinput_was_gamepad_pressed_def
        usbh_xinput_is_gamepad_pressed_def was_gamepad_pressed_or_def
        usbd_controller_init_def usbd_xid_h_example_def sbc_example_def usbh_xinput_zero_def
        XINPUT_CHATPAD_defs XINPUT_GAMEPAD_defs Chaff_Extinguisher_def
        Comm1_MagazineChange_def Washing_LineColorChange_def constrain_def Let_def fun_eq_iff)
  have hyp: "sb_wButtons (sb_in (fst (snd ?r))) 0 AND SBC usbd_xid_h_example SBC_W0_IGNITION \<noteq> 0"
    unfolding handle_sbattalion_in b
    by (simp add: sb_axes_def sb_ignition_hack_def usbd_xid_h_example_def sbc_example_def
        usbh_xinput_zero_def Let_def)
  have v: "vmouse_x (fst (snd (snd ?r))) = 32768"
    unfolding handle_sbattalion_user_data b
    by (simp add: sb_axes_def usbd_xid_h_example_def usbh_xinput_zero_def user_data_init_def
        master_globals_init_def DEADZONE_def UINT16_MAX_def constrain_def
        XINPUT_GAMEPAD_defs Let_def)
  from ignition_forces_aiming_zero_hatch_clear
         [of usbd_xid_h_example 1000 0
             "usbh_xinput_zero\<lparr>bAddress := 1, chatpad_state := (\<lambda>_. 0)(1 := 98, 2 := 100)\<rparr>"
             "sb (usbd_controller_init usbd_xid_h_example)"
             "user_data_init usbd_xid_h_example" master_globals_init] hyp v
  show ?thesis by blast
qed

section \<open>The virtual pointer\<close>

lemma constrain_bounds:
  "low \<le> high \<Longrightarrow> low \<le> constrain amt low high \<and> constrain amt low high \<le> high"
  by (simp add: constrain_def)

lemma sint_constrain_u16:
  "sint (of_int (constrain k 0 UINT16_MAX) :: int32_t) = constrain k 0 UINT16_MAX"
proof -
  have "0 \<le> constrain k 0 UINT16_MAX \<and> constrain k 0 UINT16_MAX \<le> 65535"
    using constrain_bounds [of 0 UINT16_MAX k] by (simp add: UINT16_MAX_def)
  then show ?thesis
    by (simp add: signed_of_int signed_take_bit_int_eq_self)
qed

lemma sb_axes_user_data:
  "snd (sb_axes h now dz sens x in0 u) =
     (let vx = (if \<bar>sint (scast (sThumbRX (pad_state x)) :: int32_t)\<bar> > DEADZONE
                then vmouse_x u + c_div32 (scast (sThumbRX (pad_state x))) (ucast sens) dz
                else vmouse_x u);
          vy = (if \<bar>sint (scast (sThumbRY (pad_state x)) :: int32_t)\<bar> > DEADZONE
                then vmouse_y u - c_div32 (scast (sThumbRY (pad_state x))) (ucast sens) dz
                else vmouse_y u);
          cx = of_int (constrain (sint vx) 0 UINT16_MAX);
          cy = of_int (constrain (sint vy) 0 UINT16_MAX)
      in if wButtons (pad_state x) AND XINPUT_GAMEPAD_LEFT_THUMB \<noteq> 0 then
           (if now - button_hold_timer u > 500
            then u\<lparr>vmouse_x := SBC_AIMING_MID h, vmouse_y := SBC_AIMING_MID h\<rparr>
            else u\<lparr>vmouse_x := cx, vmouse_y := cy\<rparr>)
         else u\<lparr>vmouse_x := cx, vmouse_y := cy, button_hold_timer := now\<rparr>)"
  by (simp add: sb_axes_def Let_def)

text \<open>
  C6. Whatever the mapping context, the stick values and the calibration value were on
  entry (a zero divisor included), \<open>handle_sbattalion\<close> leaves both accumulators within
  0 and 65535, provided the header's midpoint lies in that range. With the left-stick
  click down and more than 500 ms on the hold timer both accumulators are the midpoint;
  with the click up the hold timer is set to the current time, and with the click down it
  keeps its value.
\<close>

theorem vmouse_range_and_recentre:
  assumes "0 \<le> sint (SBC_AIMING_MID h)" and "sint (SBC_AIMING_MID h) \<le> 65535"
  shows
    "0 \<le> sint (vmouse_x (fst (snd (snd (handle_sbattalion h now dz x sbt u g)))))
     \<and> sint (vmouse_x (fst (snd (snd (handle_sbattalion h now dz x sbt u g))))) \<le> 65535
     \<and> 0 \<le> sint (vmouse_y (fst (snd (snd (handle_sbattalion h now dz x sbt u g)))))
     \<and> sint (vmouse_y (fst (snd (snd (handle_sbattalion h now dz x sbt u g))))) \<le> 65535
     \<and> (wButtons (pad_state x) AND XINPUT_GAMEPAD_LEFT_THUMB \<noteq> 0
          \<and> now - button_hold_timer u > 500
        \<longrightarrow> vmouse_x (fst (snd (snd (handle_sbattalion h now dz x sbt u g)))) = SBC_AIMING_MID h
          \<and> vmouse_y (fst (snd (snd (handle_sbattalion h now dz x sbt u g)))) = SBC_AIMING_MID h)
     \<and> (wButtons (pad_state x) AND XINPUT_GAMEPAD_LEFT_THUMB = 0
        \<longrightarrow> button_hold_timer (fst (snd (snd (handle_sbattalion h now dz x sbt u g)))) = now)
     \<and> (wButtons (pad_state x) AND XINPUT_GAMEPAD_LEFT_THUMB \<noteq> 0
        \<longrightarrow> button_hold_timer (fst (snd (snd (handle_sbattalion h now dz x sbt u g))))
              = button_hold_timer u)"
proof -
  let ?x1 = "fst (sb_buttons h (sb_out sbt) x (sb_in sbt))"
  have ps: "pad_state ?x1 = pad_state x" using sb_buttons_frame by blast
  have c: "0 \<le> constrain k 0 UINT16_MAX \<and> constrain k 0 UINT16_MAX \<le> 65535" for k
    using constrain_bounds [of 0 UINT16_MAX k] by (simp add: UINT16_MAX_def)
  show ?thesis
    unfolding handle_sbattalion_user_data sb_axes_user_data ps
    using assms c by (simp add: Let_def sint_constrain_u16)
qed

text \<open>
  A pad with the right stick fully to the right and up, mapped at time 1000 into a context
  whose pointer stands at (65500, 100) and whose hold timer is 0: once with the left-stick
  click down (held for 1000 ms), once with it up.
\<close>

theorem vmouse_range_and_recentre_witness:
  "0 \<le> sint (SBC_AIMING_MID usbd_xid_h_example)
   \<and> sint (SBC_AIMING_MID usbd_xid_h_example) \<le> 65535
   \<and> wButtons (pad_state (usbh_xinput_zero\<lparr>bAddress := 1, pad_state :=
         \<lparr>wButtons = 0x0040, bLeftTrigger = 0, bRightTrigger = 0, sThumbLX = 0, sThumbLY = 0,
          sThumbRX = 0x7FFF, sThumbRY = 0x7FFF\<rparr>\<rparr>)) AND XINPUT_GAMEPAD_LEFT_THUMB \<noteq> 0
   \<and> (1000 :: uint32_t) - button_hold_timer
         \<lparr>modifiers = 0, button_hold_timer = 0, vmouse_x = 65500, vmouse_y = 100\<rparr> > 500
   \<and> vmouse_x (fst (snd (snd (handle_sbattalion usbd_xid_h_example 1000 0
         (usbh_xinput_zero\<lparr>bAddress := 1, pad_state :=
           \<lparr>wButtons = 0x0040, bLeftTrigger = 0, bRightTrigger = 0, sThumbLX = 0, sThumbLY = 0,
            sThumbRX = 0x7FFF, sThumbRY = 0x7FFF\<rparr>\<rparr>)
         (sb (usbd_controller_init usbd_xid_h_example))
         \<lparr>modifiers = 0, button_hold_timer = 0, vmouse_x = 65500, vmouse_y = 100\<rparr>
         master_globals_init)))) = SBC_AIMING_MID usbd_xid_h_example
   \<and> wButtons (pad_state (usbh_xinput_zero\<lparr>bAddress := 1, pad_state :=
         \<lparr>wButtons = 0, bLeftTrigger = 0, bRightTrigger = 0, sThumbLX = 0, sThumbLY = 0,
          sThumbRX = 0x7FFF, sThumbRY = 0x7FFF\<rparr>\<rparr>)) AND XINPUT_GAMEPAD_LEFT_THUMB = 0
   \<and> button_hold_timer (fst (snd (snd (handle_sbattalion usbd_xid_h_example 1000 0
         (usbh_xinput_zero\<lparr>bAddress := 1, pad_state :=
           \<lparr>wButtons = 0, bLeftTrigger = 0, bRightTrigger = 0, sThumbLX = 0, sThumbLY = 0,
            sThumbRX = 0x7FFF, sThumbRY = 0x7FFF\<rparr>\<rparr>)
         (sb (usbd_controller_init usbd_xid_h_example))
         \<lparr>modifiers = 0, button_hold_timer = 0, vmouse_x = 65500, vmouse_y = 100\<rparr>
         master_globals_init)))) = 1000
   \<and> vmouse_x (fst (snd (snd (handle_sbattalion usbd_xid_h_example 1000 0
         (usbh_xinput_zero\<lparr>bAddress := 1, pad_state :=
           \<lparr>wButtons = 0, bLeftTrigger = 0, bRightTrigger = 0, sThumbLX = 0, sThumbLY = 0,
            sThumbRX = 0x7FFF, sThumbRY = 0x7FFF\<rparr>\<rparr>)
         (sb (usbd_controller_init usbd_xid_h_example))
         \<lparr>modifiers = 0, button_hold_timer = 0, vmouse_x = 65500, vmouse_y = 100\<rparr>
         master_globals_init)))) = 65535
   \<and> vmouse_y (fst (snd (snd (handle_sbattalion usbd_xid_h_example 1000 0
         (usbh_xinput_zero\<lparr>bAddress := 1, pad_state :=
           \<lparr>wButtons = 0, bLeftTrigger = 0, bRightTrigger = 0, sThumbLX = 0, sThumbLY = 0,
            sThumbRX = 0x7FFF, sThumbRY = 0x7FFF\<rparr>\<rparr>)
         (sb (usbd_controller_init usbd_xid_h_example))
         \<lparr>modifiers = 0, button_hold_timer = 0, vmouse_x = 65500, vmouse_y = 100\<rparr>
         master_globals_init)))) = 19"
proof -
  let ?h = usbd_xid_h_example
  let ?u = "\<lparr>modifiers = 0, button_hold_timer = 0, vmouse_x = 65500, vmouse_y = 100\<rparr>"
  let ?down = "usbh_xinput_zero\<lparr>bAddress := 1, pad_state :=
         \<lparr>wButtons = 0x0040, bLeftTrigger = 0, bRightTrigger = 0, sThumbLX = 0, sThumbLY = 0,
          sThumbRX = 0x7FFF, sThumbRY = 0x7FFF\<rparr>\<rparr>"
  let ?up = "usbh_xinput_zero\<lparr>bAddress := 1, pad_state :=
         \<lparr>wButtons = 0, bLeftTrigger = 0, bRightTrigger = 0, sThumbLX = 0, sThumbLY = 0,
          sThumbRX = 0x7FFF, sThumbRY = 0x7FFF\<rparr>\<rparr>"
  let ?s = "sb (usbd_controller_init ?h)"
  have m1: "0 \<le> sint (SBC_AIMING_MID ?h)" by (simp add: usbd_xid_h_example_def)
  have m2: "sint (SBC_AIMING_MID ?h) \<le> 65535" by (simp add: usbd_xid_h_example_def)
  have d: "wButtons (pad_state ?down) AND XINPUT_GAMEPAD_LEFT_THUMB \<noteq> 0"
    by (simp add: XINPUT_GAMEPAD_LEFT_THUMB_def)
  have t: "(1000 :: uint32_t) - button_hold_timer ?u > 500" by simp
  have n: "wButtons (pad_state ?up) AND XINPUT_GAMEPAD_LEFT_THUMB = 0"
    by (simp add: XINPUT_GAMEPAD_LEFT_THUMB_def)
  note a = vmouse_range_and_recentre [OF m1 m2, of 1000 0 ?down ?s ?u master_globals_init]
  note b = vmouse_range_and_recentre [OF m1 m2, of 1000 0 ?up ?s ?u master_globals_init]
  from a d t have r1: "vmouse_x (fst (snd (snd (handle_sbattalion ?h 1000 0 ?down ?s ?u
      master_globals_init)))) = SBC_AIMING_MID ?h" by blast
  from b n have r2: "button_hold_timer (fst (snd (snd (handle_sbattalion ?h 1000 0 ?up ?s ?u
      master_globals_init)))) = 1000" by blast
  have ps: "pad_state (fst (sb_buttons ?h (sb_out ?s) ?up (sb_in ?s))) = pad_state ?up"
    using sb_buttons_frame by blast
  have q: "c_div32 32767 400 0 = 81"
    by (simp add: c_div32_def)
  have r3: "vmouse_x (fst (snd (snd (handle_sbattalion ?h 1000 0 ?up ?s ?u
      master_globals_init)))) = 65535"
    and r4: "vmouse_y (fst (snd (snd (handle_sbattalion ?h 1000 0 ?up ?s ?u
      master_globals_init)))) = 19"
    unfolding handle_sbattalion_user_data sb_axes_user_data ps
    by (simp_all add: Let_def master_globals_init_def q DEADZONE_def UINT16_MAX_def
        constrain_def XINPUT_GAMEPAD_LEFT_THUMB_def)
  from m1 m2 d t r1 n r2 r3 r4 show ?thesis by blast
qed

section \<open>The table loops on one button word\<close>




lemma apply_toggle_map_is_pressed:
  "usbh_xinput_is_chatpad_pressed (fst (apply_toggle_map tbl x wb)) c
     = usbh_xinput_is_chatpad_pressed x c"
  using apply_toggle_map_frame [of tbl x wb] by (intro is_chatpad_pressed_cong) simp_all







section \<open>The toggle switches of the cockpit report\<close>








lemma xor_and_mask:
  fixes a m :: uint16_t
  shows "(a XOR m) AND m = (a AND m) XOR m"
  by (rule bit_eqI) (auto simp: bit_and_iff bit_xor_iff)














section \<open>The coordinator's exchange with its peers\<close>

lemma handle_duke_out: "duke_out (fst (snd (handle_duke h x d u))) = duke_out d"
  by (simp add: handle_duke_def Let_def split_beta split del: if_split)

lemma handle_sbattalion_out:
  "sb_out (fst (snd (handle_sbattalion h now dz x s u g))) = sb_out s"
  by (simp add: handle_sbattalion_def Let_def split: prod.splits)

lemma slot_map_out:
  "duke_out (duke (fst (snd (slot_map h now dz (x, c, u, g))))) = duke_out (duke c)
   \<and> sb_out (sb (fst (snd (slot_map h now dz (x, c, u, g))))) = sb_out (sb c)"
proof -
  have d: "handle_duke h x' d' u' = (x3, d3, u3) \<Longrightarrow> duke_out d3 = duke_out d'"
    for x' d' u' x3 d3 u3
    using handle_duke_out [of h x' d' u'] by simp
  have s: "handle_sbattalion h now dz x' s' u' g' = (x3, s3, u3, g3) \<Longrightarrow> sb_out s3 = sb_out s'"
    for x' s' u' g' x3 s3 u3 g3
    using handle_sbattalion_out [of h now dz x' s' u' g'] by simp
  show ?thesis
    unfolding slot_map_def Let_def
    by (auto split: prod.splits dest: d s)
qed

lemma slot_exchange_failed:
  assumes "\<forall>status written. endTransmission bus i status written \<noteq> 0"
  shows "fst (slot_exchange h bus i c) = c"
  using assms by (simp add: slot_exchange_def Let_def)

lemma slot_exchange_sent: "fst (snd (slot_exchange h bus i c)) = i"
  by (simp add: slot_exchange_def Let_def)

lemma slot_exchange_bus:
  assumes "endTransmission bus' i = endTransmission bus i"
    and "requestFrom bus' i = requestFrom bus i"
  shows "slot_exchange h bus' i c = slot_exchange h bus i c"
  using assms by (simp add: slot_exchange_def Let_def)

lemma slot_exchange_sent_bus: "snd (slot_exchange h bus' i c) = snd (slot_exchange h bus i c)"
  by (simp add: slot_exchange_def Let_def)

lemma master_slot_transmissions:
  "map fst (Wire_transmissions (master_slot h bus now dz i st))
     = map fst (Wire_transmissions st) @ (if i = 0 then [] else [i])"
proof -
  obtain x c u g where m:
    "slot_map h (now i) dz (xinput_devices st i, usbd_c st i, user_data st i, globals st)
       = (x, c, u, g)"
    by (cases "slot_map h (now i) dz (xinput_devices st i, usbd_c st i, user_data st i, globals st)")
  obtain c' p s where e: "slot_exchange h bus i c = (c', p, s)"
    by (cases "slot_exchange h bus i c")
  from slot_exchange_sent [of h bus i c] e have "p = i" by simp
  then show ?thesis by (simp add: master_slot_def Let_def m e)
qed

lemma master_slot_other_slot:
  assumes "j \<noteq> i"
  shows "usbd_c (master_slot h bus now dz j st) i = usbd_c st i"
  using assms by (simp add: master_slot_def Let_def split: prod.splits)

lemma master_slot_failed_out:
  assumes "0 < i" and "\<forall>status written. endTransmission bus i status written \<noteq> 0"
  shows "duke_out (duke (usbd_c (master_slot h bus now dz i st) i)) = duke_out (duke (usbd_c st i))
       \<and> sb_out (sb (usbd_c (master_slot h bus now dz i st) i)) = sb_out (sb (usbd_c st i))"
proof -
  obtain x c u g where m:
    "slot_map h (now i) dz (xinput_devices st i, usbd_c st i, user_data st i, globals st)
       = (x, c, u, g)"
    by (cases "slot_map h (now i) dz (xinput_devices st i, usbd_c st i, user_data st i, globals st)")
  from slot_map_out [of h "now i" dz "xinput_devices st i" "usbd_c st i" "user_data st i" "globals st"] m
  have c: "duke_out (duke c) = duke_out (duke (usbd_c st i))"
      "sb_out (sb c) = sb_out (sb (usbd_c st i))" by simp_all
  obtain c' sent where e: "slot_exchange h bus i c = (c', sent)" by (cases "slot_exchange h bus i c")
  from slot_exchange_failed [OF assms(2), of h c] e have "c' = c" by simp
  then show ?thesis using assms(1) c by (simp add: master_slot_def Let_def m e)
qed

lemma master_slots_other_slot:
  assumes "i \<notin> set js"
  shows "usbd_c (fold (master_slot h bus now dz) js st) i = usbd_c st i"
  using assms by (induction js arbitrary: st) (simp_all add: master_slot_other_slot)

lemma master_slots_transmissions:
  assumes "0 \<notin> set js"
  shows "map fst (Wire_transmissions (fold (master_slot h bus now dz) js st))
       = map fst (Wire_transmissions st) @ js"
  using assms by (induction js arbitrary: st) (simp_all add: master_slot_transmissions)

text \<open>Overriding slot \<open>i\<close> commutes with the loop body of another slot.\<close>

lemma master_slot_override:
  assumes "j \<noteq> i"
  shows "master_slot h bus now dz j (st\<lparr>usbd_c := (usbd_c st)(i := c)\<rparr>)
       = (master_slot h bus now dz j st)
           \<lparr>usbd_c := (usbd_c (master_slot h bus now dz j st))(i := c)\<rparr>"
proof -
  obtain x cj u g where m:
    "slot_map h (now j) dz (xinput_devices st j, usbd_c st j, user_data st j, globals st)
       = (x, cj, u, g)"
    by (cases "slot_map h (now j) dz (xinput_devices st j, usbd_c st j, user_data st j, globals st)")
  obtain c' sent where e: "slot_exchange h bus j cj = (c', sent)"
    by (cases "slot_exchange h bus j cj")
  have tw: "(f(j := a))(i := c) = (f(i := c))(j := a)" for f :: "nat \<Rightarrow> usbd_controller_t" and a
    using assms by (rule fun_upd_twist)
  show ?thesis
  proof (cases "j = 0")
    case True
    have "(f(0 := a))(i := c) = (f(i := c))(0 := a)" for f :: "nat \<Rightarrow> usbd_controller_t" and a
      using tw [of f a] True by simp
    with True assms m show ?thesis by (simp add: master_slot_def Let_def)
  next
    case False
    with assms show ?thesis by (simp add: master_slot_def Let_def m e tw)
  qed
qed

lemma master_slots_override:
  assumes "i \<notin> set js"
  shows "fold (master_slot h bus now dz) js (st\<lparr>usbd_c := (usbd_c st)(i := c)\<rparr>)
       = (fold (master_slot h bus now dz) js st)
           \<lparr>usbd_c := (usbd_c (fold (master_slot h bus now dz) js st))(i := c)\<rparr>"
  using assms
proof (induction js arbitrary: st)
  case Nil
  show ?case by simp
next
  case (Cons j js)
  then have ji: "j \<noteq> i" and rest: "i \<notin> set js" by auto
  have "fold (master_slot h bus now dz) (j # js) (st\<lparr>usbd_c := (usbd_c st)(i := c)\<rparr>)
      = fold (master_slot h bus now dz) js
          (master_slot h bus now dz j (st\<lparr>usbd_c := (usbd_c st)(i := c)\<rparr>))"
    by simp
  also have "\<dots> = fold (master_slot h bus now dz) js
      ((master_slot h bus now dz j st)
         \<lparr>usbd_c := (usbd_c (master_slot h bus now dz j st))(i := c)\<rparr>)"
    by (simp only: master_slot_override [OF ji])
  also have "\<dots> = (fold (master_slot h bus now dz) js (master_slot h bus now dz j st))
      \<lparr>usbd_c := (usbd_c (fold (master_slot h bus now dz) js (master_slot h bus now dz j st)))
         (i := c)\<rparr>"
    by (rule Cons.IH [OF rest])
  finally show ?case by (simp only: fold_simps comp_apply)
qed

lemma master_slot_bus:
  assumes "endTransmission bus' j = endTransmission bus j"
    and "requestFrom bus' j = requestFrom bus j"
  shows "master_slot h bus' now dz j st = master_slot h bus now dz j st"
  unfolding master_slot_def slot_exchange_bus [OF assms] ..

lemma master_slots_bus:
  assumes "\<forall>j \<in> set js. endTransmission bus' j = endTransmission bus j
              \<and> requestFrom bus' j = requestFrom bus j"
  shows "fold (master_slot h bus' now dz) js st = fold (master_slot h bus now dz) js st"
  using assms
proof (induction js arbitrary: st)
  case Nil
  show ?case by simp
next
  case (Cons j js)
  then have j: "endTransmission bus' j = endTransmission bus j"
      "requestFrom bus' j = requestFrom bus j"
    and rest: "\<forall>j \<in> set js. endTransmission bus' j = endTransmission bus j
              \<and> requestFrom bus' j = requestFrom bus j"
    by simp_all
  have "fold (master_slot h bus' now dz) (j # js) st
      = fold (master_slot h bus' now dz) js (master_slot h bus now dz j st)"
    by (simp only: fold_simps comp_apply master_slot_bus [OF j])
  also have "\<dots> = fold (master_slot h bus now dz) js (master_slot h bus now dz j st)"
    by (rule Cons.IH [OF rest])
  finally show ?case by (simp only: fold_simps comp_apply)
qed

lemma master_slot_bus_at:
  "\<exists>c. master_slot h bus' now dz i st
      = (master_slot h bus now dz i st)\<lparr>usbd_c := (usbd_c (master_slot h bus now dz i st))(i := c)\<rparr>"
proof -
  obtain x c u g where m:
    "slot_map h (now i) dz (xinput_devices st i, usbd_c st i, user_data st i, globals st)
       = (x, c, u, g)"
    by (cases "slot_map h (now i) dz (xinput_devices st i, usbd_c st i, user_data st i, globals st)")
  obtain c1 s1 where e1: "slot_exchange h bus i c = (c1, s1)" by (cases "slot_exchange h bus i c")
  obtain c2 s2 where e2: "slot_exchange h bus' i c = (c2, s2)" by (cases "slot_exchange h bus' i c")
  have "s2 = s1" using slot_exchange_sent_bus [of h bus' i c bus] e1 e2 by simp
  then have "master_slot h bus' now dz i st
      = (master_slot h bus now dz i st)
          \<lparr>usbd_c := (usbd_c (master_slot h bus now dz i st))
             (i := usbd_c (master_slot h bus' now dz i st) i)\<rparr>"
    by (simp add: master_slot_def Let_def m e1 e2)
  then show ?thesis by blast
qed

lemma slots_split:
  assumes "i < n"
  shows "[0 ..< n] = [0 ..< i] @ i # [Suc i ..< n]"
proof -
  have "[0 ..< n] = [0 ..< i + (n - i)]" using assms by simp
  also have "\<dots> = [0 ..< i] @ [i ..< i + (n - i)]" by (rule upt_add_eq_append) simp
  also have "[i ..< i + (n - i)] = i # [Suc i ..< n]" using assms by (simp add: upt_conv_Cons)
  finally show ?thesis .
qed

text \<open>
  For contrast, the step that a failed send skips: after a send that succeeded, with the
  full count of bytes answered, the out-report of a slot of the gamepad type holds the
  bytes received.
\<close>

lemma slot_exchange_received:
  assumes sent: "\<forall>status written. endTransmission bus i status written = 0"
    and type: "ctype c = DUKE h"
    and size: "0 < sizeof_usbd_duke_out_t h" "sizeof_usbd_duke_out_t h < 256"
    and full: "length (requestFrom bus i (sizeof_usbd_duke_out_t h)) = sizeof_usbd_duke_out_t h"
    and j: "j < sizeof_usbd_duke_out_t h"
  shows "duke_out (duke (fst (slot_exchange h bus i c))) j
       = requestFrom bus i (sizeof_usbd_duke_out_t h) ! j"
proof -
  let ?n = "sizeof_usbd_duke_out_t h"
  have n: "unat (of_nat ?n :: uint8_t) = ?n"
    using size(2) by (simp add: unat_of_nat take_bit_nat_eq_self)
  have nz: "(of_nat ?n :: uint8_t) \<noteq> 0"
  proof
    assume "(of_nat ?n :: uint8_t) = 0"
    then have "unat (of_nat ?n :: uint8_t) = 0" by simp
    with n size(1) show False by simp
  qed
  have "fst (slot_exchange h bus i c)
      = c\<lparr>duke := (duke c)\<lparr>duke_out :=
            fst (rx_copy 0 ?n (duke_out (duke c)) (requestFrom bus i ?n))\<rparr>\<rparr>"
    using sent type nz full by (simp add: slot_exchange_def Let_def n)
  then show ?thesis using j full by (simp add: rx_copy_buf)
qed

lemma master_task_slots: "[0 ..< MAX_GAMEPADS] = [0, 1, 2, 3]"
  by (simp add: MAX_GAMEPADS_def upt_rec)

lemma master_task_transmissions:
  "map fst (Wire_transmissions (master_task h bus now dz st))
     = map fst (Wire_transmissions st) @ [1, 2, 3]"
proof -
  have "master_task h bus now dz st
      = fold (master_slot h bus now dz) [1, 2, 3] (master_slot h bus now dz 0 st)"
    unfolding master_task_def master_task_slots by simp
  moreover have "(0::nat) \<notin> set [1, 2, 3]" by simp
  ultimately show ?thesis
    using master_slots_transmissions [of "[1, 2, 3]" h bus now dz "master_slot h bus now dz 0 st"]
      master_slot_transmissions [of h bus now dz 0 st]
    by simp
qed

lemma master_task_failed_out:
  assumes "0 < i" and "i < MAX_GAMEPADS"
    and "\<forall>status written. endTransmission bus i status written \<noteq> 0"
  shows "duke_out (duke (usbd_c (master_task h bus now dz st) i)) = duke_out (duke (usbd_c st i))
       \<and> sb_out (sb (usbd_c (master_task h bus now dz st) i)) = sb_out (sb (usbd_c st i))"
proof -
  define s1 where "s1 = fold (master_slot h bus now dz) [0 ..< i] st"
  define s2 where "s2 = master_slot h bus now dz i s1"
  have task: "master_task h bus now dz st = fold (master_slot h bus now dz) [Suc i ..< MAX_GAMEPADS] s2"
    unfolding master_task_def slots_split [OF assms(2)] s1_def s2_def by simp
  have before: "usbd_c s1 i = usbd_c st i"
    unfolding s1_def by (rule master_slots_other_slot) simp
  have after: "usbd_c (master_task h bus now dz st) i = usbd_c s2 i"
    unfolding task by (rule master_slots_other_slot) simp
  from master_slot_failed_out [OF assms(1) assms(3), of h now dz s1]
  show ?thesis unfolding after s2_def before .
qed

lemma master_task_other_bus:
  assumes "i < MAX_GAMEPADS"
    and agree: "\<forall>p. p \<noteq> i \<longrightarrow> endTransmission bus' p = endTransmission bus p
                          \<and> requestFrom bus' p = requestFrom bus p"
  shows "\<exists>c. master_task h bus' now dz st
            = (master_task h bus now dz st)
                \<lparr>usbd_c := (usbd_c (master_task h bus now dz st))(i := c)\<rparr>"
proof -
  let ?f = "master_slot h bus now dz" and ?f' = "master_slot h bus' now dz"
  define s1 where "s1 = fold ?f [0 ..< i] st"
  define s2 where "s2 = ?f i s1"
  have lo: "\<forall>j \<in> set [0 ..< i]. endTransmission bus' j = endTransmission bus j
              \<and> requestFrom bus' j = requestFrom bus j"
    and hi: "\<forall>j \<in> set [Suc i ..< MAX_GAMEPADS]. endTransmission bus' j = endTransmission bus j
              \<and> requestFrom bus' j = requestFrom bus j"
    using agree by simp_all
  have task: "master_task h bus now dz st = fold ?f [Suc i ..< MAX_GAMEPADS] s2"
    unfolding master_task_def slots_split [OF assms(1)] s1_def s2_def by simp
  obtain c where c: "?f' i s1 = s2\<lparr>usbd_c := (usbd_c s2)(i := c)\<rparr>"
    unfolding s2_def using master_slot_bus_at [of h bus' now dz i s1 bus] by blast
  have "master_task h bus' now dz st
      = fold ?f' [Suc i ..< MAX_GAMEPADS] (?f' i (fold ?f' [0 ..< i] st))"
    unfolding master_task_def slots_split [OF assms(1)] by simp
  also have "fold ?f' [0 ..< i] st = s1"
    unfolding s1_def by (rule master_slots_bus [OF lo])
  also have "?f' i s1 = s2\<lparr>usbd_c := (usbd_c s2)(i := c)\<rparr>" by (rule c)
  also have "fold ?f' [Suc i ..< MAX_GAMEPADS] (s2\<lparr>usbd_c := (usbd_c s2)(i := c)\<rparr>)
      = fold ?f [Suc i ..< MAX_GAMEPADS] (s2\<lparr>usbd_c := (usbd_c s2)(i := c)\<rparr>)"
    by (rule master_slots_bus [OF hi])
  also have "\<dots> = (fold ?f [Suc i ..< MAX_GAMEPADS] s2)
      \<lparr>usbd_c := (usbd_c (fold ?f [Suc i ..< MAX_GAMEPADS] s2))(i := c)\<rparr>"
    by (rule master_slots_override) simp
  finally show ?thesis unfolding task by blast
qed

text \<open>
  C9. Let peer \<open>i\<close> (a slot other than the coordinator's own) answer every transmission
  with an error code. Then one tick of \<open>master_task\<close> leaves both out-report buffers of
  slot \<open>i\<close>, the ones a receive would fill, as they were. The tick still addresses the
  peers 1, 2 and 3 in this order, once each, and so does the tick after it: the failed
  peer is tried again and the loop is not cut short. What the tick does to everything
  but slot \<open>i\<close> is what it does on any bus that behaves the same towards the other
  peers, for instance one on which peer \<open>i\<close> answers: the device list, the mapping
  contexts, the calibration value, the transmissions made and the other slots come out
  equal.
\<close>

theorem failed_send_skips_receive:
  assumes peer: "0 < i" "i < MAX_GAMEPADS"
    and failed: "\<forall>status written. endTransmission bus i status written \<noteq> 0"
  shows
    "duke_out (duke (usbd_c (master_task h bus now dz st) i)) = duke_out (duke (usbd_c st i))
     \<and> sb_out (sb (usbd_c (master_task h bus now dz st) i)) = sb_out (sb (usbd_c st i))
     \<and> map fst (Wire_transmissions (master_task h bus now dz st))
         = map fst (Wire_transmissions st) @ [1, 2, 3]
     \<and> map fst (Wire_transmissions (master_task h bus now' dz' (master_task h bus now dz st)))
         = map fst (Wire_transmissions st) @ [1, 2, 3, 1, 2, 3]
     \<and> (\<forall>bus'. (\<forall>p. p \<noteq> i \<longrightarrow> endTransmission bus' p = endTransmission bus p
                               \<and> requestFrom bus' p = requestFrom bus p)
          \<longrightarrow> (\<exists>c. master_task h bus' now dz st
                   = (master_task h bus now dz st)
                       \<lparr>usbd_c := (usbd_c (master_task h bus now dz st))(i := c)\<rparr>))"
proof -
  note out = master_task_failed_out [OF peer failed, of h now dz st]
  have one: "map fst (Wire_transmissions (master_task h bus now dz st))
      = map fst (Wire_transmissions st) @ [1, 2, 3]"
    by (rule master_task_transmissions)
  have two: "map fst (Wire_transmissions (master_task h bus now' dz' (master_task h bus now dz st)))
      = map fst (Wire_transmissions st) @ [1, 2, 3, 1, 2, 3]"
    unfolding master_task_transmissions [of h bus now' dz'] one by simp
  have others: "\<exists>c. master_task h bus' now dz st
                   = (master_task h bus now dz st)
                       \<lparr>usbd_c := (usbd_c (master_task h bus now dz st))(i := c)\<rparr>"
    if "\<forall>p. p \<noteq> i \<longrightarrow> endTransmission bus' p = endTransmission bus p
                               \<and> requestFrom bus' p = requestFrom bus p" for bus'
    using master_task_other_bus [OF peer(2) that] .
  from out one two others show ?thesis by blast
qed

text \<open>
  Peer 2, with a pad attached to its slot, answers every transmission with error code 2
  while peers 1 and 3 answer; every request is answered with bytes 0x5A. In the tick from
  the start-up state slot 2 keeps its out-reports, the peers 1, 2 and 3 are addressed in
  this tick and in the next, and against the bus on which peer 2 answers too only slot 2
  comes out different.
\<close>

theorem failed_send_skips_receive_witness:
  "(0::nat) < 2 \<and> 2 < MAX_GAMEPADS
   \<and> (\<forall>status written.
         endTransmission \<lparr>endTransmission = (\<lambda>p _ _. if p = 2 then 2 else 0),
                          requestFrom = (\<lambda>_ n. replicate n 0x5A)\<rparr> 2 status written \<noteq> 0)
   \<and> duke_out (duke (usbd_c
        (master_task usbd_xid_h_example
           \<lparr>endTransmission = (\<lambda>p _ _. if p = 2 then 2 else 0),
            requestFrom = (\<lambda>_ n. replicate n 0x5A)\<rparr> (\<lambda>_. 1000) 0
           ((master_state_init usbd_xid_h_example)
              \<lparr>xinput_devices := (\<lambda>_. usbh_xinput_zero)(2 := usbh_xinput_zero\<lparr>bAddress := 1\<rparr>)\<rparr>)) 2))
       = duke_out (duke (usbd_c
           ((master_state_init usbd_xid_h_example)
              \<lparr>xinput_devices := (\<lambda>_. usbh_xinput_zero)(2 := usbh_xinput_zero\<lparr>bAddress := 1\<rparr>)\<rparr>) 2))
   \<and> sb_out (sb (usbd_c
        (master_task usbd_xid_h_example
           \<lparr>endTransmission = (\<lambda>p _ _. if p = 2 then 2 else 0),
            requestFrom = (\<lambda>_ n. replicate n 0x5A)\<rparr> (\<lambda>_. 1000) 0
           ((master_state_init usbd_xid_h_example)
              \<lparr>xinput_devices := (\<lambda>_. usbh_xinput_zero)(2 := usbh_xinput_zero\<lparr>bAddress := 1\<rparr>)\<rparr>)) 2))
       = sb_out (sb (usbd_c
           ((master_state_init usbd_xid_h_example)
              \<lparr>xinput_devices := (\<lambda>_. usbh_xinput_zero)(2 := usbh_xinput_zero\<lparr>bAddress := 1\<rparr>)\<rparr>) 2))
   \<and> map fst (Wire_transmissions
        (master_task usbd_xid_h_example
           \<lparr>endTransmission = (\<lambda>p _ _. if p = 2 then 2 else 0),
            requestFrom = (\<lambda>_ n. replicate n 0x5A)\<rparr> (\<lambda>_. 1000) 0
           ((master_state_init usbd_xid_h_example)
              \<lparr>xinput_devices := (\<lambda>_. usbh_xinput_zero)(2 := usbh_xinput_zero\<lparr>bAddress := 1\<rparr>)\<rparr>)))
       = [1, 2, 3]
   \<and> map fst (Wire_transmissions
        (master_task usbd_xid_h_example
           \<lparr>endTransmission = (\<lambda>p _ _. if p = 2 then 2 else 0),
            requestFrom = (\<lambda>_ n. replicate n 0x5A)\<rparr> (\<lambda>_. 1004) 0
           (master_task usbd_xid_h_example
              \<lparr>endTransmission = (\<lambda>p _ _. if p = 2 then 2 else 0),
               requestFrom = (\<lambda>_ n. replicate n 0x5A)\<rparr> (\<lambda>_. 1000) 0
              ((master_state_init usbd_xid_h_example)
                 \<lparr>xinput_devices :=
                    (\<lambda>_. usbh_xinput_zero)(2 := usbh_xinput_zero\<lparr>bAddress := 1\<rparr>)\<rparr>))))
       = [1, 2, 3, 1, 2, 3]
   \<and> (\<exists>c. master_task usbd_xid_h_example
             \<lparr>endTransmission = (\<lambda>_ _ _. 0), requestFrom = (\<lambda>_ n. replicate n 0x5A)\<rparr>
             (\<lambda>_. 1000) 0
             ((master_state_init usbd_xid_h_example)
                \<lparr>xinput_devices :=
                   (\<lambda>_. usbh_xinput_zero)(2 := usbh_xinput_zero\<lparr>bAddress := 1\<rparr>)\<rparr>)
           = (master_task usbd_xid_h_example
                \<lparr>endTransmission = (\<lambda>p _ _. if p = 2 then 2 else 0),
                 requestFrom = (\<lambda>_ n. replicate n 0x5A)\<rparr> (\<lambda>_. 1000) 0
                ((master_state_init usbd_xid_h_example)
                   \<lparr>xinput_devices :=
                      (\<lambda>_. usbh_xinput_zero)(2 := usbh_xinput_zero\<lparr>bAddress := 1\<rparr>)\<rparr>))
             \<lparr>usbd_c := (usbd_c
                (master_task usbd_xid_h_example
                   \<lparr>endTransmission = (\<lambda>p _ _. if p = 2 then 2 else 0),
                    requestFrom = (\<lambda>_ n. replicate n 0x5A)\<rparr> (\<lambda>_. 1000) 0
                   ((master_state_init usbd_xid_h_example)
                      \<lparr>xinput_devices :=
                         (\<lambda>_. usbh_xinput_zero)(2 := usbh_xinput_zero\<lparr>bAddress := 1\<rparr>)\<rparr>)))
                (2 := c)\<rparr>)"
proof -
  let ?h = usbd_xid_h_example
  let ?bus = "\<lparr>endTransmission = (\<lambda>p _ _. if p = 2 then 2 else 0),
               requestFrom = (\<lambda>_ n. replicate n 0x5A)\<rparr>"
  let ?ok = "\<lparr>endTransmission = (\<lambda>_ _ _. 0), requestFrom = (\<lambda>_ n. replicate n 0x5A)\<rparr>"
  let ?st = "(master_state_init ?h)
       \<lparr>xinput_devices := (\<lambda>_. usbh_xinput_zero)(2 := usbh_xinput_zero\<lparr>bAddress := 1\<rparr>)\<rparr>"
  have peer: "(0::nat) < 2" "2 < MAX_GAMEPADS" by (simp_all add: MAX_GAMEPADS_def)
  have failed: "\<forall>status written. endTransmission ?bus 2 status written \<noteq> 0" by simp
  have agree: "\<forall>p. p \<noteq> 2 \<longrightarrow> endTransmission ?ok p = endTransmission ?bus p
                          \<and> requestFrom ?ok p = requestFrom ?bus p"
    by simp
  have start: "Wire_transmissions ?st = []" by (simp add: master_state_init_def)
  note inst = failed_send_skips_receive [OF peer failed, of ?h "\<lambda>_. 1000" 0 ?st "\<lambda>_. 1004" 0]
  from inst have out: "duke_out (duke (usbd_c (master_task ?h ?bus (\<lambda>_. 1000) 0 ?st) 2))
        = duke_out (duke (usbd_c ?st 2))"
      "sb_out (sb (usbd_c (master_task ?h ?bus (\<lambda>_. 1000) 0 ?st) 2)) = sb_out (sb (usbd_c ?st 2))"
    by blast+
  from inst have tx: "map fst (Wire_transmissions (master_task ?h ?bus (\<lambda>_. 1000) 0 ?st)) = [1, 2, 3]"
      "map fst (Wire_transmissions (master_task ?h ?bus (\<lambda>_. 1004) 0
          (master_task ?h ?bus (\<lambda>_. 1000) 0 ?st))) = [1, 2, 3, 1, 2, 3]"
    unfolding start by simp_all
  from inst agree have other: "\<exists>c. master_task ?h ?ok (\<lambda>_. 1000) 0 ?st
      = (master_task ?h ?bus (\<lambda>_. 1000) 0 ?st)
          \<lparr>usbd_c := (usbd_c (master_task ?h ?bus (\<lambda>_. 1000) 0 ?st))(2 := c)\<rparr>"
    by blast
  from peer failed out tx other show ?thesis by blast
qed

end
